theory Spec2Isabelle
  imports Main
begin

section \<open>Strings, paths and the markers of run_evaluation.py\<close>

text \<open>
  Python strings are modelled as HOL strings. A path is the list of the components that
  the source joins with \<open>/\<close>; components are kept as they are given (no
  normalisation of separators inside a component).
\<close>

type_synonym path = "string list"

definition nl :: string where
  "nl = [CHR 0x0A]"

fun startswith :: "'a list \<Rightarrow> 'a list \<Rightarrow> bool" where
  "startswith t [] = True"
| "startswith [] (c # cs) = False"
| "startswith (d # ds) (c # cs) = (d = c \<and> startswith ds cs)"

text \<open>
  \<open>str_in s t\<close> is Python's \<open>s in t\<close> on strings: \<open>s\<close> occurs in \<open>t\<close> as a contiguous block
  (of bytes, or of code points for a text that has been read from a file).
\<close>

fun str_in :: "'a list \<Rightarrow> 'a list \<Rightarrow> bool" where
  "str_in s [] = (s = [])"
| "str_in s (c # cs) = (startswith (c # cs) s \<or> str_in s cs)"

text \<open>\<open>str.replace("/", "__")\<close>.\<close>

fun replace_slash :: "string \<Rightarrow> string" where
  "replace_slash [] = []"
| "replace_slash (c # cs) = (if c = CHR ''/'' then ''__'' @ replace_slash cs else c # replace_slash cs)"

text \<open>\<open>str.replace(":", "__")\<close>.\<close>

fun replace_colon :: "string \<Rightarrow> string" where
  "replace_colon [] = []"
| "replace_colon (c # cs) = (if c = CHR '':'' then ''__'' @ replace_colon cs else c # replace_colon cs)"

text \<open>\<open>str(path)\<close>: the components joined by \<open>/\<close>.\<close>

fun path_str :: "path \<Rightarrow> string" where
  "path_str [] = ''.''"
| "path_str [c] = c"
| "path_str (c # d # ds) = c @ ''/'' @ path_str (d # ds)"

definition APPLY_PATCH_FAIL :: string where
  "APPLY_PATCH_FAIL = ''>>>>> Patch Apply Failed''"

definition APPLY_PATCH_PASS :: string where
  "APPLY_PATCH_PASS = ''>>>>> Patch Apply Passed''"

section \<open>Text files\<close>

text \<open>
  The exceptions the harness can meet; all are subclasses of Python's \<open>Exception\<close>.
  \<open>EvaluationError\<close> carries the instance id and the message, as the class of the source
  does. \<open>EngineError\<close> stands for whatever a call into the container engine raises.
\<close>

datatype exn =
    EvaluationError string string
  | KeyError string
  | TypeError string
  | ValueError string
  | IndexError
  | AttributeError
  | JSONDecodeError
  | UnicodeDecodeError
  | EngineError string

text \<open>
  \<open>str(e)\<close> for the exceptions other than EvaluationError; the byte and the position that
  the message of a UnicodeDecodeError names are left out.
\<close>

fun exn_str :: "exn \<Rightarrow> string" where
  "exn_str (EvaluationError i m) = m"
| "exn_str (KeyError k) = [CHR 0x27] @ k @ [CHR 0x27]"
| "exn_str (TypeError m) = m"
| "exn_str (ValueError m) = m"
| "exn_str IndexError = ''list index out of range''"
| "exn_str AttributeError = ''attribute''"
| "exn_str JSONDecodeError = ''Expecting value''"
| "exn_str UnicodeDecodeError =
     [CHR 0x27] @ ''utf-8'' @ [CHR 0x27] @ '' codec can'' @ [CHR 0x27] @ ''t decode byte''"
| "exn_str (EngineError m) = m"

text \<open>
  A file holds bytes; a Python str that the harness writes is held as its UTF-8 encoding,
  and HOL strings stand for both. \<open>open(path, "r", encoding="utf-8").read()\<close> decodes the
  bytes into code points and raises UnicodeDecodeError when they are not well-formed
  UTF-8 (no overlong form, no surrogate, nothing above U+10FFFF); None is that error.
\<close>

definition continuation :: "char \<Rightarrow> bool" where
  "continuation b = (0x80 \<le> (of_char b :: nat) \<and> (of_char b :: nat) \<le> 0xBF)"

fun decode_utf8 :: "string \<Rightarrow> nat list option" where
  "decode_utf8 [] = Some []"
| "decode_utf8 (b0 # bs) =
     (if (of_char b0 :: nat) < 0x80 then map_option (Cons (of_char b0)) (decode_utf8 bs)
      else if 0xC2 \<le> (of_char b0 :: nat) \<and> (of_char b0 :: nat) \<le> 0xDF then
        (case bs of
           b1 # r \<Rightarrow>
             if continuation b1
             then map_option (Cons ((of_char b0 - 0xC0) * 64 + (of_char b1 - 0x80))) (decode_utf8 r)
             else None
         | _ \<Rightarrow> None)
      else if 0xE0 \<le> (of_char b0 :: nat) \<and> (of_char b0 :: nat) \<le> 0xEF then
        (case bs of
           b1 # b2 # r \<Rightarrow>
             if continuation b1 \<and> continuation b2 \<and>
                (of_char b0 = (0xE0 :: nat) \<longrightarrow> 0xA0 \<le> (of_char b1 :: nat)) \<and>
                (of_char b0 = (0xED :: nat) \<longrightarrow> (of_char b1 :: nat) \<le> 0x9F)
             then map_option (Cons ((of_char b0 - 0xE0) * 4096 + (of_char b1 - 0x80) * 64 +
                                    (of_char b2 - 0x80))) (decode_utf8 r)
             else None
         | _ \<Rightarrow> None)
      else if 0xF0 \<le> (of_char b0 :: nat) \<and> (of_char b0 :: nat) \<le> 0xF4 then
        (case bs of
           b1 # b2 # b3 # r \<Rightarrow>
             if continuation b1 \<and> continuation b2 \<and> continuation b3 \<and>
                (of_char b0 = (0xF0 :: nat) \<longrightarrow> 0x90 \<le> (of_char b1 :: nat)) \<and>
                (of_char b0 = (0xF4 :: nat) \<longrightarrow> (of_char b1 :: nat) \<le> 0x8F)
             then map_option (Cons ((of_char b0 - 0xF0) * 262144 + (of_char b1 - 0x80) * 4096 +
                                    (of_char b2 - 0x80) * 64 + (of_char b3 - 0x80))) (decode_utf8 r)
             else None
         | _ \<Rightarrow> None)
      else None)"

text \<open>
  Reading in text mode turns \<open>\\r\\n\<close> and a lone \<open>\\r\<close> into \<open>\\n\<close> (universal newlines,
  the default of \<open>open\<close>).
\<close>

fun universal_newlines :: "nat list \<Rightarrow> nat list" where
  "universal_newlines [] = []"
| "universal_newlines [c] = [if c = 13 then 10 else c]"
| "universal_newlines (c # d # r) =
     (if c = 13 \<and> d = 10 then 10 # universal_newlines r
      else if c = 13 then 10 # universal_newlines (d # r)
      else c # universal_newlines (d # r))"

definition read_text :: "string \<Rightarrow> exn + nat list" where
  "read_text bytes =
     (case decode_utf8 bytes of
        None \<Rightarrow> Inl UnicodeDecodeError
      | Some points \<Rightarrow> Inr (universal_newlines points))"

text \<open>The code points of a str literal of the source (all of them ASCII).\<close>

definition code_points :: "string \<Rightarrow> nat list" where
  "code_points s = map of_char s"

text \<open>
  The literal part of \<open>EXIT_CODE_RE = re.compile(r"echo OMNIGRIL_EXIT_CODE=(\\d)")\<close>, and
  the code points \<open>\\d\<close> matches. The pattern is a str and carries no flag, so \<open>\\d\<close> is
  every decimal digit of Python's Unicode database: the ten ASCII digits, and further
  code points (U+0660 for one) whose set depends on the version of the database;
  \<open>nd\<close> is that set.
\<close>

definition EXIT_CODE_MARK :: "nat list" where
  "EXIT_CODE_MARK = code_points ''echo OMNIGRIL_EXIT_CODE=''"

definition is_digit :: "(nat \<Rightarrow> bool) \<Rightarrow> nat \<Rightarrow> bool" where
  "is_digit nd c = (48 \<le> c \<and> c \<le> 57 \<or> nd c)"

text \<open>
  A match of the regular expression anchored at the start of the text: the literal, then
  one digit; the value is group 1.
\<close>

definition match_here :: "(nat \<Rightarrow> bool) \<Rightarrow> nat list \<Rightarrow> nat option" where
  "match_here nd t =
     (if startswith t EXIT_CODE_MARK
      then (case drop (length EXIT_CODE_MARK) t of
              [] \<Rightarrow> None
            | d # rest \<Rightarrow> if is_digit nd d then Some d else None)
      else None)"

text \<open>\<open>EXIT_CODE_RE.search(text)\<close>: the leftmost match, or None.\<close>

fun exit_code_search :: "(nat \<Rightarrow> bool) \<Rightarrow> nat list \<Rightarrow> nat option" where
  "exit_code_search nd [] = None"
| "exit_code_search nd (c # cs) =
     (case match_here nd (c # cs) of
        Some d \<Rightarrow> Some d
      | None \<Rightarrow> exit_code_search nd cs)"

section \<open>Data\<close>

text \<open>
  A prediction is the dict the docstrings describe: "Prediction w/ model_name_or_path,
  model_patch, instance_id". \<open>model_patch = None\<close> is the JSON null.
\<close>

record prediction =
  pred_instance_id :: string
  model_patch :: "string option"
  model_name_or_path :: string

text \<open>The fields of TestSpec that run_evaluation.py reads.\<close>

record test_spec =
  ts_instance_id :: string
  instance_image_key :: string
  patch :: "string option"
  eval_script :: string

text \<open>An entry of the dataset.\<close>

record dataset_entry =
  inst_instance_id :: string
  version :: string

text \<open>The per-instance report of get_pred_report, and the dict from instance id to it.\<close>

record pred_report =
  patch_is_None :: bool
  patch_exists :: bool
  patch_successfully_applied :: bool
  resolved :: bool

type_synonym report_map = "(string \<times> pred_report) list"

section \<open>Grading: get_pred_report\<close>

definition warn_test_output_not_found :: "path \<Rightarrow> string" where
  "warn_test_output_not_found p = ''[WARN] Test output file not found: '' @ path_str p"

definition warn_log_not_found :: "path \<Rightarrow> string" where
  "warn_log_not_found p = ''[WARN] Run instance log file not found: '' @ path_str p"

definition warn_no_patch_status :: "string \<Rightarrow> string" where
  "warn_no_patch_status i = ''[WARN] No patch status found in run instance log for '' @ i"

definition warn_empty_log :: "string \<Rightarrow> string" where
  "warn_empty_log i = ''[WARN] Empty run instance log content for '' @ i"

definition warn_no_exit_code :: "string \<Rightarrow> string" where
  "warn_no_exit_code i = ''[WARN] No exit code found in test output for '' @ i"

definition warn_empty_test_output :: "string \<Rightarrow> string" where
  "warn_empty_test_output i = ''[WARN] Empty test output content for '' @ i"

text \<open>The bytes of a file, none when it does not exist.\<close>

definition file_text :: "(path \<rightharpoonup> string) \<Rightarrow> path \<Rightarrow> string" where
  "file_text fs p = (case fs p of Some s \<Rightarrow> s | None \<Rightarrow> [])"

text \<open>
  Reading a text file that may be missing (source lines 100-109): the content (the empty
  string when the file does not exist, as the source initialises it) and the warning
  printed when it is missing; the read raises when the bytes do not decode.
\<close>

definition read_or_warn :: "(path \<rightharpoonup> string) \<Rightarrow> path \<Rightarrow> string \<Rightarrow> exn + nat list \<times> string list" where
  "read_or_warn fs p w =
     (case fs p of
        Some bytes \<Rightarrow> (case read_text bytes of Inl x \<Rightarrow> Inl x | Inr content \<Rightarrow> Inr (content, []))
      | None \<Rightarrow> Inr ([], [w]))"

text \<open>The patch-status block of get_pred_report (source lines 111-119).\<close>

definition grade_patch_status :: "string \<Rightarrow> nat list \<Rightarrow> pred_report \<Rightarrow> pred_report \<times> string list" where
  "grade_patch_status instance_id run_instance_log_content r =
     (if run_instance_log_content \<noteq> []
      then (if str_in (code_points APPLY_PATCH_PASS) run_instance_log_content
            then (r\<lparr>patch_successfully_applied := True\<rparr>, [])
            else if str_in (code_points APPLY_PATCH_FAIL) run_instance_log_content
            then (r\<lparr>patch_successfully_applied := False\<rparr>, [])
            else (r, [warn_no_patch_status instance_id]))
      else (r, [warn_empty_log instance_id]))"

text \<open>
  The exit-code block of get_pred_report (source lines 122-135); \<open>exit_code == "0"\<close>
  compares with the ASCII digit, code point 48.
\<close>

definition grade_exit_code ::
  "(nat \<Rightarrow> bool) \<Rightarrow> string \<Rightarrow> nat list \<Rightarrow> pred_report \<Rightarrow> pred_report \<times> string list" where
  "grade_exit_code nd instance_id test_output_content r =
     (if test_output_content \<noteq> []
      then (case exit_code_search nd test_output_content of
              Some exit_code \<Rightarrow>
                (if exit_code = 48 then r\<lparr>resolved := True\<rparr> else r, [])
            | None \<Rightarrow> (r, [warn_no_exit_code instance_id]))
      else (r, [warn_empty_test_output instance_id]))"

text \<open>
  get_pred_report reads two files: the test output at \<open>test_output_path\<close>, then
  \<open>run_instance_after_apply.log\<close> beside it. The model takes the files of the file system
  and returns the report map, or the exception of a read, together with the warnings
  printed up to there, in order.
\<close>

definition get_pred_report ::
  "(nat \<Rightarrow> bool) \<Rightarrow> (path \<rightharpoonup> string) \<Rightarrow> test_spec \<Rightarrow> prediction \<Rightarrow> path \<Rightarrow>
     (exn + report_map) \<times> string list" where
  "get_pred_report nd fs test_spec prediction test_output_path =
     (let instance_id = pred_instance_id prediction;
          r0 = \<lparr>patch_is_None = False, patch_exists = False,
                patch_successfully_applied = False, resolved = False\<rparr>
      in if model_patch prediction = None
         then (Inr [(instance_id, r0\<lparr>patch_is_None := True\<rparr>)], [])
         else
           (let r1 = r0\<lparr>patch_exists := True\<rparr>
            in case read_or_warn fs test_output_path (warn_test_output_not_found test_output_path) of
                 Inl x \<Rightarrow> (Inl x, [])
               | Inr (test_output_content, w1) \<Rightarrow>
                   (let run_instance_log_path =
                          butlast test_output_path @ [''run_instance_after_apply.log'']
                    in case read_or_warn fs run_instance_log_path
                              (warn_log_not_found run_instance_log_path) of
                         Inl x \<Rightarrow> (Inl x, w1)
                       | Inr (run_instance_log_content, w2) \<Rightarrow>
                           (let (r2, w3) = grade_patch_status instance_id run_instance_log_content r1;
                                (r3, w4) = grade_exit_code nd instance_id test_output_content r2
                            in (Inr [(instance_id, r3)], w1 @ w2 @ w3 @ w4)))))"

text \<open>
  The reading of claim C7 as the spec words it: resolved exactly when the test output
  contains the exit-code marker with value 0 somewhere.
\<close>

definition contains_exit_code_zero :: "nat list \<Rightarrow> bool" where
  "contains_exit_code_zero out = str_in (EXIT_CODE_MARK @ [48]) out"

text \<open>
  What the code computes: the leftmost place of the test output where the marker is
  followed by a digit carries the digit 0.
\<close>

definition first_exit_code_is_zero :: "(nat \<Rightarrow> bool) \<Rightarrow> nat list \<Rightarrow> bool" where
  "first_exit_code_is_zero nd out =
     (\<exists>pre post. out = pre @ EXIT_CODE_MARK @ 48 # post \<and>
        (\<forall>p d q. is_digit nd d \<and> out = p @ EXIT_CODE_MARK @ d # q \<longrightarrow> length pre \<le> length p))"

text \<open>The text read from a file, the empty text when the file does not exist.\<close>

definition text_of :: "(path \<rightharpoonup> string) \<Rightarrow> path \<Rightarrow> exn + nat list" where
  "text_of fs p = (case fs p of Some bytes \<Rightarrow> read_text bytes | None \<Rightarrow> Inr [])"

section \<open>The file system and the container engine\<close>

text \<open>
  What a \<open>report.json\<close> holds: a report map as \<open>json.dumps\<close> wrote it, or content on which
  \<open>json.loads\<close> raises.
\<close>

datatype report_file = Report report_map | NotJson

text \<open>The calls into the container engine, with the arguments that matter here.\<close>

datatype call =
    BuildContainer string string bool bool
  | StartContainer string
  | CopyToContainer string string string
  | ExecRun string string
  | ExecRunWithTimeout string string "int option"
  | StopRemoveContainer string
  | RemoveImage string

text \<open>
  The state the harness acts on: the text files and the \<open>report.json\<close> documents by path,
  the engine calls made so far (oldest first), the containers and images the engine
  holds, the lines printed, and the progress bar.
\<close>

record world =
  files :: "path \<rightharpoonup> string"
  reports :: "path \<rightharpoonup> report_file"
  calls :: "call list"
  containers :: "string list"
  images :: "string list"
  stdout :: "string list"
  pbar :: nat

text \<open>
  The engine's answers to the calls of one pipeline invocation, and the text renderings
  that are Python's or the logger's own: what setup_logger leaves in the log file (from
  what was there), the line the logger writes for a message, \<open>traceback.format_exc()\<close>
  and \<open>str\<close> of a report dict; and the decimal digits of Python's Unicode database
  other than 0-9. Outputs are the decoded texts.
\<close>

record engine =
  build_result :: "exn + string"
  start_result :: "exn option"
  copy_patch_result :: "exn option"
  git_apply_result :: "exn + int \<times> string"
  patch_fuzz_result :: "exn + int \<times> string"
  git_diff_result :: "exn + string"
  copy_eval_result :: "exn option"
  eval_result :: "exn + string"
  log_open :: "string option \<Rightarrow> string"
  log_format :: "string \<Rightarrow> string"
  format_exc :: string
  dict_str :: "report_map \<Rightarrow> string"
  decimal_digit :: "nat \<Rightarrow> bool"

text \<open>Sequencing of steps that may raise: the first exception ends the sequence.\<close>

definition and_then ::
  "(exn + 'a) \<times> world \<Rightarrow> ('a \<Rightarrow> world \<Rightarrow> (exn + 'b) \<times> world) \<Rightarrow> (exn + 'b) \<times> world" where
  "and_then r k = (case r of (Inl e, w) \<Rightarrow> (Inl e, w) | (Inr x, w) \<Rightarrow> k x w)"

definition record_call :: "call \<Rightarrow> world \<Rightarrow> world" where
  "record_call c w = w\<lparr>calls := calls w @ [c]\<rparr>"

definition write_text :: "path \<Rightarrow> string \<Rightarrow> world \<Rightarrow> world" where
  "write_text p s w = w\<lparr>files := (files w)(p \<mapsto> s)\<rparr>"

definition print_line :: "string \<Rightarrow> world \<Rightarrow> world" where
  "print_line s w = w\<lparr>stdout := stdout w @ [s]\<rparr>"

text \<open>
  Modelled from the spec: setup_logger, the logger's \<open>info\<close> and close_logger live in
  docker_build, which is not under src/. The spec keeps one raw log text file per
  (task, mode); a logged message is appended to it.
\<close>

definition setup_logger :: "engine \<Rightarrow> path \<Rightarrow> world \<Rightarrow> world" where
  "setup_logger e log_file w = write_text log_file (log_open e (files w log_file)) w"

definition logger_info :: "engine \<Rightarrow> path \<Rightarrow> string \<Rightarrow> world \<Rightarrow> world" where
  "logger_info e log_file msg w =
     write_text log_file (file_text (files w) log_file @ log_format e msg) w"

definition close_logger :: "world \<Rightarrow> world" where
  "close_logger w = w"

text \<open>
  The gateway calls that may raise: each is recorded, then answers as the engine says.
  build_setup_container creates the container it returns.
\<close>

definition build_setup_container ::
  "engine \<Rightarrow> test_spec \<Rightarrow> string \<Rightarrow> bool \<Rightarrow> bool \<Rightarrow> world \<Rightarrow> (exn + string) \<times> world" where
  "build_setup_container e test_spec run_id rm_image force_rebuild w =
     (let w1 = record_call (BuildContainer (instance_image_key test_spec) run_id rm_image force_rebuild) w
      in case build_result e of
           Inl x \<Rightarrow> (Inl x, w1)
         | Inr c \<Rightarrow> (Inr c, w1\<lparr>containers := c # containers w1\<rparr>))"

definition container_start :: "engine \<Rightarrow> string \<Rightarrow> world \<Rightarrow> (exn + unit) \<times> world" where
  "container_start e container w =
     (case start_result e of
        Some x \<Rightarrow> (Inl x, record_call (StartContainer container) w)
      | None \<Rightarrow> (Inr (), record_call (StartContainer container) w))"

definition copy_to_container ::
  "exn option \<Rightarrow> string \<Rightarrow> string \<Rightarrow> string \<Rightarrow> world \<Rightarrow> (exn + unit) \<times> world" where
  "copy_to_container answer container src dst w =
     (case answer of
        Some x \<Rightarrow> (Inl x, record_call (CopyToContainer container src dst) w)
      | None \<Rightarrow> (Inr (), record_call (CopyToContainer container src dst) w))"

definition exec_run ::
  "(exn + 'a) \<Rightarrow> string \<Rightarrow> string \<Rightarrow> world \<Rightarrow> (exn + 'a) \<times> world" where
  "exec_run answer container cmd w = (answer, record_call (ExecRun container cmd) w)"

definition exec_run_with_timeout ::
  "(exn + string) \<Rightarrow> string \<Rightarrow> string \<Rightarrow> int option \<Rightarrow> world \<Rightarrow> (exn + string) \<times> world" where
  "exec_run_with_timeout answer container cmd timeout w =
     (answer, record_call (ExecRunWithTimeout container cmd timeout) w)"

text \<open>
  Modelled from the spec: cleanup_container and remove_image live in docker_utils, which
  is not under src/. Spec 4.1, release: "stops and removes the container unconditionally;
  additionally removes the backing image only if removeImage is true. Must be safe to
  call with a partially-initialized or null resource (no-op)."
\<close>

definition cleanup_container :: "string option \<Rightarrow> world \<Rightarrow> world" where
  "cleanup_container container w =
     (case container of
        None \<Rightarrow> w
      | Some c \<Rightarrow> (record_call (StopRemoveContainer c) w)\<lparr>containers := remove1 c (containers w)\<rparr>)"

definition remove_image :: "string \<Rightarrow> world \<Rightarrow> world" where
  "remove_image image_key w =
     (record_call (RemoveImage image_key) w)\<lparr>images := removeAll image_key (images w)\<rparr>"

section \<open>The per-instance pipeline\<close>

subsection \<open>Messages\<close>

definition msg_started :: "string \<Rightarrow> string \<Rightarrow> string" where
  "msg_started instance_id container = ''Container for '' @ instance_id @ '' started: '' @ container"

definition msg_patch_written :: "string \<Rightarrow> path \<Rightarrow> string" where
  "msg_patch_written instance_id patch_file =
     ''Intermediate patch for '' @ instance_id @ '' written to '' @ path_str patch_file @
     '', now applying to container...''"

definition msg_retry :: string where
  "msg_retry = ''Failed to apply patch to container, trying again...''"

definition msg_apply_fail :: "string \<Rightarrow> string" where
  "msg_apply_fail output = APPLY_PATCH_FAIL @ '':'' @ nl @ output"

definition msg_apply_pass :: "string \<Rightarrow> string" where
  "msg_apply_pass output = APPLY_PATCH_PASS @ '':'' @ nl @ output"

definition msg_eval_written :: "string \<Rightarrow> path \<Rightarrow> string" where
  "msg_eval_written instance_id eval_file =
     ''Eval script for '' @ instance_id @ '' written to '' @ path_str eval_file @
     '', now applying to container...''"

definition msg_test_output :: "string \<Rightarrow> path \<Rightarrow> string" where
  "msg_test_output instance_id test_output_path =
     ''Test output for '' @ instance_id @ '' written to '' @ path_str test_output_path"

definition msg_grading :: "string \<Rightarrow> string" where
  "msg_grading instance_id = ''Grading answer for '' @ instance_id @ ''...''"

definition msg_report :: "engine \<Rightarrow> string \<Rightarrow> report_map \<Rightarrow> bool \<Rightarrow> string" where
  "msg_report e instance_id report res =
     ''report: '' @ dict_str e report @ nl @ ''Result for '' @ instance_id @ '': resolved: '' @
     (if res then ''True'' else ''False'')"

definition msg_git_diff :: "string \<Rightarrow> string" where
  "msg_git_diff d = ''Git diff before:'' @ nl @ d"

definition check_log :: "path \<Rightarrow> string" where
  "check_log log_file = ''Check ('' @ path_str log_file @ '') for more information.''"

text \<open>\<open>EvaluationError.__str__\<close>.\<close>

definition evaluation_error_str :: "string \<Rightarrow> string \<Rightarrow> path \<Rightarrow> string" where
  "evaluation_error_str i m log_file = i @ '': '' @ m @ nl @ check_log log_file"

definition git_apply_cmd :: string where
  "git_apply_cmd = ''git apply --allow-empty -v /tmp/patch.diff''"

definition patch_fuzz_cmd :: string where
  "patch_fuzz_cmd = ''patch --batch --fuzz=5 -p1 -i /tmp/patch.diff''"

definition eval_cmd :: string where
  "eval_cmd = ''/bin/bash /eval.sh''"

text \<open>\<open>str.strip()\<close> on the ASCII white space.\<close>

definition is_space :: "char \<Rightarrow> bool" where
  "is_space c = (c \<in> {CHR '' '', CHR 0x09, CHR 0x0A, CHR 0x0B, CHR 0x0C, CHR 0x0D})"

definition str_strip :: "string \<Rightarrow> string" where
  "str_strip s = rev (dropWhile is_space (rev (dropWhile is_space s)))"

subsection \<open>Patch application (source lines 210-236 and 360-386)\<close>

text \<open>
  The strict attempt, then on a non-zero exit code the fuzzy attempt; when that fails too,
  EvaluationError is raised with the output of \<open>val\<close>, which by then is the fuzzy
  attempt's result.
\<close>

definition apply_patch ::
  "engine \<Rightarrow> string \<Rightarrow> path \<Rightarrow> string \<Rightarrow> world \<Rightarrow> (exn + unit) \<times> world" where
  "apply_patch e instance_id log_file container w =
     and_then (exec_run (git_apply_result e) container git_apply_cmd w) (\<lambda>val w.
       if fst val \<noteq> 0
       then and_then (exec_run (patch_fuzz_result e) container patch_fuzz_cmd
                        (logger_info e log_file msg_retry w)) (\<lambda>val w.
              if fst val \<noteq> 0
              then (Inl (EvaluationError instance_id (msg_apply_fail (snd val))),
                    logger_info e log_file (msg_apply_fail (snd val)) w)
              else (Inr (), logger_info e log_file (msg_apply_pass (snd val)) w))
       else (Inr (), logger_info e log_file (msg_apply_pass (snd val)) w))"

subsection \<open>run_instance_setup\<close>

text \<open>The names of the log and of the test output, by mode (source lines 185 and 249).\<close>

definition run_instance_log_name :: "string \<Rightarrow> string" where
  "run_instance_log_name mode =
     (if mode = ''not_apply_patch'' then ''run_instance_prev_apply.log''
      else ''run_instance_after_apply.log'')"

definition test_output_name :: "string \<Rightarrow> string" where
  "test_output_name mode =
     (if mode = ''not_apply_patch'' then ''test_output_prev_apply.txt''
      else ''test_output_after_apply.txt'')"

text \<open>
  The grading block (source lines 255-271): a read of get_pred_report may raise, and so
  may \<open>report[instance_id]\<close> (KeyError); the warnings printed before are on stdout.
\<close>

definition grade_and_write ::
  "engine \<Rightarrow> test_spec \<Rightarrow> prediction \<Rightarrow> path \<Rightarrow> path \<Rightarrow> path \<Rightarrow> world \<Rightarrow>
     (exn + string \<times> report_map option) \<times> world" where
  "grade_and_write e test_spec pred log_file report_path test_output_path w =
     (let instance_id = ts_instance_id test_spec;
          w1 = logger_info e log_file (msg_grading instance_id) w;
          (outcome, warnings) =
             get_pred_report (decimal_digit e) (files w1) test_spec pred test_output_path;
          w2 = w1\<lparr>stdout := stdout w1 @ warnings\<rparr>
      in case outcome of
           Inl x \<Rightarrow> (Inl x, w2)
         | Inr report \<Rightarrow>
             (case map_of report instance_id of
                None \<Rightarrow> (Inl (KeyError instance_id), w2)
              | Some r \<Rightarrow>
                  (let w3 = logger_info e log_file (msg_report e instance_id report (resolved r)) w2
                   in (Inr (instance_id, Some report),
                       w3\<lparr>reports := (reports w3)(report_path \<mapsto> Report report)\<rparr>))))"

text \<open>The try block after the container has been built (source lines 199-273).\<close>

definition setup_body ::
  "engine \<Rightarrow> test_spec \<Rightarrow> prediction \<Rightarrow> path \<Rightarrow> path \<Rightarrow> path \<Rightarrow> string \<Rightarrow> int option \<Rightarrow>
     string \<Rightarrow> world \<Rightarrow> (exn + string \<times> report_map option) \<times> world" where
  "setup_body e test_spec pred log_dir log_file report_path mode timeout container w =
     (let instance_id = ts_instance_id test_spec;
          patch_file = log_dir @ [''patch.diff''];
          eval_file = log_dir @ [''eval.sh''];
          test_output_path = log_dir @ [test_output_name mode]
      in
      and_then (container_start e container w) (\<lambda>_ w.
      and_then (copy_to_container (copy_patch_result e) container (path_str patch_file) ''/tmp/patch.diff''
                 (logger_info e log_file (msg_patch_written instance_id patch_file)
                   (write_text patch_file (case patch test_spec of None \<Rightarrow> [] | Some s \<Rightarrow> s)
                     (logger_info e log_file (msg_started instance_id container) w)))) (\<lambda>_ w.
      and_then (if mode \<noteq> ''not_apply_patch''
                then apply_patch e instance_id log_file container w
                else (Inr (), w)) (\<lambda>_ w.
      and_then (copy_to_container (copy_eval_result e) container (path_str eval_file) ''/eval.sh''
                 (logger_info e log_file (msg_eval_written instance_id eval_file)
                   (write_text eval_file (eval_script test_spec) w))) (\<lambda>_ w.
      and_then (exec_run_with_timeout (eval_result e) container eval_cmd timeout w) (\<lambda>test_output w.
        (let w1 = logger_info e log_file (msg_test_output instance_id test_output_path)
                    (write_text test_output_path test_output w)
         in if mode \<noteq> ''not_apply_patch''
            then grade_and_write e test_spec pred log_file report_path test_output_path w1
            else (Inr (instance_id, None), w1))))))))"

text \<open>
  The whole try block: the value of the variable \<open>container\<close> when the block is left
  (None when build_setup_container raised), the outcome and the state.
\<close>

definition setup_try ::
  "engine \<Rightarrow> test_spec \<Rightarrow> prediction \<Rightarrow> bool \<Rightarrow> bool \<Rightarrow> string \<Rightarrow> path \<Rightarrow> path \<Rightarrow> path \<Rightarrow>
     string \<Rightarrow> int option \<Rightarrow> world \<Rightarrow> string option \<times> (exn + string \<times> report_map option) \<times> world" where
  "setup_try e test_spec pred rm_image force_rebuild run_id log_dir log_file report_path mode timeout w =
     (case build_setup_container e test_spec run_id rm_image force_rebuild w of
        (Inl x, w1) \<Rightarrow> (None, Inl x, w1)
      | (Inr container, w1) \<Rightarrow>
          (Some container,
           setup_body e test_spec pred log_dir log_file report_path mode timeout container w1))"

text \<open>
  The two except clauses (source lines 274-285): both log and print a message and let the
  function go on to return None. Formatting an EvaluationError calls its \<open>__str__\<close>,
  which logs the traceback first.
\<close>

definition handle_exception :: "engine \<Rightarrow> string \<Rightarrow> path \<Rightarrow> exn \<Rightarrow> world \<Rightarrow> world" where
  "handle_exception e instance_id log_file x w =
     (case x of
        EvaluationError i m \<Rightarrow>
          (let error_msg = ''EvaluationError '' @ instance_id @ '': '' @
                 evaluation_error_str i m log_file @ nl @ format_exc e @ nl @ check_log log_file
           in print_line error_msg
                (logger_info e log_file error_msg (logger_info e log_file (format_exc e) w)))
      | _ \<Rightarrow>
          (let error_msg = ''Error in evaluating model for '' @ instance_id @ '': '' @
                 exn_str x @ nl @ format_exc e @ nl @ check_log log_file
           in print_line error_msg (logger_info e log_file error_msg w)))"

text \<open>The finally clause (source lines 286-291).\<close>

definition finally_cleanup :: "test_spec \<Rightarrow> bool \<Rightarrow> string option \<Rightarrow> world \<Rightarrow> world" where
  "finally_cleanup test_spec rm_image container w =
     close_logger
       ((if rm_image then remove_image (instance_image_key test_spec) else id)
          (cleanup_container container w))"

text \<open>
  run_instance_setup. The result is \<open>Inl\<close> for an exception that leaves the function,
  \<open>Inr None\<close> when it returns None after an except clause, and \<open>Inr (Some (id, report))\<close>
  for a return statement. Directories are not tracked: \<open>mkdir(parents=True,
  exist_ok=True)\<close> adds no file.
\<close>

definition run_instance_setup ::
  "engine \<Rightarrow> test_spec \<Rightarrow> prediction \<Rightarrow> bool \<Rightarrow> bool \<Rightarrow> string \<Rightarrow> string \<Rightarrow> string \<Rightarrow> int option \<Rightarrow>
     world \<Rightarrow> (exn + (string \<times> report_map option) option) \<times> world" where
  "run_instance_setup e test_spec pred rm_image force_rebuild run_id output_path mode timeout w =
     (let instance_id = ts_instance_id test_spec;
          log_dir = [output_path, run_id, replace_slash (model_name_or_path pred), instance_id];
          log_file = log_dir @ [run_instance_log_name mode];
          report_path = log_dir @ [''report.json'']
      in case reports w report_path of
           Some (Report r) \<Rightarrow> (Inr (Some (instance_id, Some r)), w)
         | Some NotJson \<Rightarrow> (Inl JSONDecodeError, w)
         | None \<Rightarrow>
             (case setup_try e test_spec pred rm_image force_rebuild run_id log_dir log_file
                     report_path mode timeout (setup_logger e log_file w) of
                (container, Inr v, w1) \<Rightarrow>
                  (Inr (Some v), finally_cleanup test_spec rm_image container w1)
              | (container, Inl x, w1) \<Rightarrow>
                  (Inr None,
                   finally_cleanup test_spec rm_image container
                     (handle_exception e instance_id log_file x w1))))"

text \<open>
  run_instance_fail_to_pass: the baseline run with rm_image False, then the patched run
  with force_rebuild False. An exception leaving the first call skips the second.
\<close>

definition run_instance_fail_to_pass ::
  "engine \<Rightarrow> engine \<Rightarrow> test_spec \<Rightarrow> prediction \<Rightarrow> bool \<Rightarrow> bool \<Rightarrow> string \<Rightarrow> string \<Rightarrow> int option \<Rightarrow>
     world \<Rightarrow> (exn + unit) \<times> world" where
  "run_instance_fail_to_pass e_prev e_after test_spec pred rm_image force_rebuild run_id output_path timeout w =
     and_then (run_instance_setup e_prev test_spec pred False force_rebuild run_id output_path
                 ''not_apply_patch'' timeout w) (\<lambda>_ w.
     and_then (run_instance_setup e_after test_spec pred rm_image False run_id output_path
                 ''apply_patch'' timeout w) (\<lambda>_ w. (Inr (), w)))"

subsection \<open>run_instance\<close>

text \<open>
  run_instance joins its \<open>output_path\<close> argument with \<open>/\<close> directly, which raises
  TypeError on a str and works on a Path object.
\<close>

datatype path_arg = StrArg string | PathArg string

text \<open>
  The try block of run_instance after the build (source lines 346-436). The call of
  get_pred_report passes the keywords \<open>log_path\<close> and \<open>include_tests_status\<close>, which
  the function of this file does not take: the call raises TypeError, and the lines after
  it (the report.json write and the return) are never reached.
\<close>

definition instance_body ::
  "engine \<Rightarrow> test_spec \<Rightarrow> prediction \<Rightarrow> path \<Rightarrow> path \<Rightarrow> int option \<Rightarrow> string \<Rightarrow> world \<Rightarrow>
     (exn + string \<times> report_map option) \<times> world" where
  "instance_body e test_spec pred log_dir log_file timeout container w =
     (let instance_id = ts_instance_id test_spec;
          patch_file = log_dir @ [''patch.diff''];
          eval_file = log_dir @ [''eval.sh''];
          test_output_path = log_dir @ [''test_output.txt'']
      in
      and_then (container_start e container w) (\<lambda>_ w.
      and_then (copy_to_container (copy_patch_result e) container (path_str patch_file) ''/tmp/patch.diff''
                 (logger_info e log_file (msg_patch_written instance_id patch_file)
                   (write_text patch_file (case patch test_spec of None \<Rightarrow> [] | Some s \<Rightarrow> s)
                     (logger_info e log_file (msg_started instance_id container) w)))) (\<lambda>_ w.
      and_then (if model_patch pred \<noteq> Some ''none''
                then apply_patch e instance_id log_file container w
                else (Inr (), w)) (\<lambda>_ w.
      and_then (exec_run (git_diff_result e) container ''git diff'' w) (\<lambda>git_diff w.
      and_then (copy_to_container (copy_eval_result e) container (eval_script test_spec) ''/eval.sh''
                 (logger_info e log_file (msg_eval_written instance_id patch_file)
                   (write_text eval_file (eval_script test_spec)
                     (logger_info e log_file (msg_git_diff (str_strip git_diff)) w)))) (\<lambda>_ w.
      and_then (exec_run_with_timeout (eval_result e) container eval_cmd timeout w) (\<lambda>test_output w.
        (Inl (TypeError ''get_pred_report() got an unexpected keyword argument''),
         logger_info e log_file (msg_grading instance_id)
           (logger_info e log_file (msg_test_output instance_id test_output_path)
             (write_text test_output_path test_output w))))))))))"

definition instance_try ::
  "engine \<Rightarrow> test_spec \<Rightarrow> prediction \<Rightarrow> bool \<Rightarrow> bool \<Rightarrow> string \<Rightarrow> path \<Rightarrow> path \<Rightarrow> int option \<Rightarrow>
     world \<Rightarrow> string option \<times> (exn + string \<times> report_map option) \<times> world" where
  "instance_try e test_spec pred rm_image force_rebuild run_id log_dir log_file timeout w =
     (case build_setup_container e test_spec run_id rm_image force_rebuild w of
        (Inl x, w1) \<Rightarrow> (None, Inl x, w1)
      | (Inr container, w1) \<Rightarrow>
          (Some container, instance_body e test_spec pred log_dir log_file timeout container w1))"

definition run_instance ::
  "engine \<Rightarrow> test_spec \<Rightarrow> prediction \<Rightarrow> bool \<Rightarrow> bool \<Rightarrow> string \<Rightarrow> path_arg \<Rightarrow> int option \<Rightarrow>
     world \<Rightarrow> (exn + (string \<times> report_map option) option) \<times> world" where
  "run_instance e test_spec pred rm_image force_rebuild run_id output_path timeout w =
     (case output_path of
        StrArg s \<Rightarrow> (Inl (TypeError ''unsupported operand type(s) for /''), w)
      | PathArg out \<Rightarrow>
          (let instance_id = ts_instance_id test_spec;
               log_dir = [out, run_id, replace_slash (model_name_or_path pred), instance_id];
               log_file = log_dir @ [''run_instance.log''];
               report_path = log_dir @ [''report.json'']
           in case reports w report_path of
                Some (Report r) \<Rightarrow> (Inr (Some (instance_id, Some r)), w)
              | Some NotJson \<Rightarrow> (Inl JSONDecodeError, w)
              | None \<Rightarrow>
                  (case instance_try e test_spec pred rm_image force_rebuild run_id log_dir log_file
                          timeout (setup_logger e log_file w) of
                     (container, Inr v, w1) \<Rightarrow>
                       (Inr (Some v), finally_cleanup test_spec rm_image container w1)
                   | (container, Inl x, w1) \<Rightarrow>
                       (Inr None,
                        finally_cleanup test_spec rm_image container
                          (handle_exception e instance_id log_file x w1)))))"

section \<open>Observations on a run\<close>

text \<open>How often the engine has been asked to stop and remove the container \<open>c\<close>.\<close>

definition releases :: "string \<Rightarrow> world \<Rightarrow> nat" where
  "releases c w = count_list (calls w) (StopRemoveContainer c)"

text \<open>The engine calls made between the states \<open>w\<close> and \<open>w'\<close>.\<close>

definition new_calls :: "world \<Rightarrow> world \<Rightarrow> call list" where
  "new_calls w w' = drop (length (calls w)) (calls w')"

text \<open>How often the engine has been asked to remove the image \<open>k\<close>.\<close>

definition removals :: "string \<Rightarrow> world \<Rightarrow> nat" where
  "removals k w = count_list (calls w) (RemoveImage k)"

text \<open>
  Two states hold the same files and the same report.json documents at the paths of \<open>S\<close>.
\<close>

definition agree :: "path set \<Rightarrow> world \<Rightarrow> world \<Rightarrow> bool" where
  "agree S w1 w2 = (\<forall>p \<in> S. files w1 p = files w2 p \<and> reports w1 p = reports w2 p)"

section \<open>The run report: make_run_report\<close>

text \<open>
  The predictions dict is an association list (Python keeps the insertion order, which
  \<open>list(predictions.values())[0]\<close> reads); a key is looked up with \<open>map_of\<close>.
\<close>

type_synonym predictions = "(string \<times> prediction) list"

text \<open>The six sets of ids the loop fills.\<close>

record buckets =
  completed_ids :: "string set"
  resolved_ids :: "string set"
  error_ids :: "string set"
  unresolved_ids :: "string set"
  incomplete_ids :: "string set"
  empty_patch_ids :: "string set"

definition no_ids :: buckets where
  "no_ids = \<lparr>completed_ids = {}, resolved_ids = {}, error_ids = {}, unresolved_ids = {},
             incomplete_ids = {}, empty_patch_ids = {}\<rparr>"

text \<open>\<open>instance_id+"_version-"+str(instance['version'])\<close>: what the sets hold.\<close>

definition id_version :: "dataset_entry \<Rightarrow> string" where
  "id_version instance = inst_instance_id instance @ ''_version-'' @ version instance"

text \<open>One round of the loop over full_dataset (source lines 702-732).\<close>

definition report_step ::
  "predictions \<Rightarrow> string \<Rightarrow> string \<Rightarrow> world \<Rightarrow> dataset_entry \<Rightarrow> buckets \<Rightarrow> exn + buckets" where
  "report_step predictions run_id output_path w instance b =
     (let instance_id = inst_instance_id instance in
      case map_of predictions instance_id of
        None \<Rightarrow> Inr (b\<lparr>incomplete_ids := insert (id_version instance) (incomplete_ids b)\<rparr>)
      | Some prediction \<Rightarrow>
          if model_patch prediction = Some [] \<or> model_patch prediction = None
          then Inr (b\<lparr>empty_patch_ids := insert (id_version instance) (empty_patch_ids b)\<rparr>)
          else
            (let report_file = [output_path, run_id, replace_slash (model_name_or_path prediction),
                                instance_id, ''report.json'']
             in case reports w report_file of
                  Some f \<Rightarrow>
                    (case f of
                       NotJson \<Rightarrow> Inl JSONDecodeError
                     | Report report \<Rightarrow>
                         (case map_of report instance_id of
                            None \<Rightarrow> Inl (KeyError instance_id)
                          | Some r \<Rightarrow>
                              (let b1 = b\<lparr>completed_ids := insert (id_version instance) (completed_ids b)\<rparr>
                               in if resolved r
                                  then Inr (b1\<lparr>resolved_ids := insert (id_version instance) (resolved_ids b1)\<rparr>)
                                  else Inr (b1\<lparr>unresolved_ids := insert (id_version instance) (unresolved_ids b1)\<rparr>))))
                | None \<Rightarrow> Inr (b\<lparr>error_ids := insert (id_version instance) (error_ids b)\<rparr>)))"

fun report_loop ::
  "predictions \<Rightarrow> string \<Rightarrow> string \<Rightarrow> world \<Rightarrow> dataset_entry list \<Rightarrow> buckets \<Rightarrow> exn + buckets" where
  "report_loop predictions run_id output_path w [] b = Inr b"
| "report_loop predictions run_id output_path w (instance # rest) b =
     (case report_step predictions run_id output_path w instance b of
        Inl x \<Rightarrow> Inl x
      | Inr b1 \<Rightarrow> report_loop predictions run_id output_path w rest b1)"

text \<open>
  The images still present among those of the test specs (source lines 735-746);
  make_test_spec is not under src/ and is a parameter, None for a spec it could not make.
\<close>

fun unremoved ::
  "(dataset_entry \<Rightarrow> prediction \<Rightarrow> test_spec option) \<Rightarrow> predictions \<Rightarrow> world \<Rightarrow>
     dataset_entry list \<Rightarrow> exn + string set" where
  "unremoved make_test_spec predictions w [] = Inr {}"
| "unremoved make_test_spec predictions w (instance # rest) =
     (case map_of predictions (inst_instance_id instance) of
        None \<Rightarrow> unremoved make_test_spec predictions w rest
      | Some prediction \<Rightarrow>
          (case make_test_spec instance prediction of
             None \<Rightarrow> Inl AttributeError
           | Some spec \<Rightarrow>
               (case unremoved make_test_spec predictions w rest of
                  Inl x \<Rightarrow> Inl x
                | Inr s \<Rightarrow>
                    Inr (if instance_image_key spec \<in> set (images w)
                         then insert (instance_image_key spec) s else s))))"

text \<open>
  The document make_run_report writes: the counts are the cardinalities of these sets and
  the id lists are the sets sorted, so the sets are kept; \<open>report_name\<close> is the file name.
\<close>

record run_report =
  total_instances :: nat
  submitted_instances :: nat
  ids :: buckets
  unstopped_containers :: "string set"
  unremoved_images :: "string set"
  report_name :: string

definition make_run_report ::
  "(dataset_entry \<Rightarrow> prediction \<Rightarrow> test_spec option) \<Rightarrow> predictions \<Rightarrow> dataset_entry list \<Rightarrow>
     string \<Rightarrow> string \<Rightarrow> world \<Rightarrow> exn + run_report" where
  "make_run_report make_test_spec predictions full_dataset run_id output_path w =
     (case report_loop predictions run_id output_path w full_dataset no_ids of
        Inl x \<Rightarrow> Inl x
      | Inr b \<Rightarrow>
          (case unremoved make_test_spec predictions w full_dataset of
             Inl x \<Rightarrow> Inl x
           | Inr imgs \<Rightarrow>
               (case predictions of
                  [] \<Rightarrow> Inl IndexError
                | first # others \<Rightarrow>
                    Inr \<lparr>total_instances = length full_dataset,
                         submitted_instances = length predictions,
                         ids = b,
                         unstopped_containers = {c \<in> set (containers w). str_in run_id c},
                         unremoved_images = imgs,
                         report_name = replace_slash (model_name_or_path (snd first)) @ ''.'' @
                                       run_id @ ''.json''\<rparr>)))"

text \<open>
  The claim of a partition, as the spec words it: the five buckets are pairwise disjoint
  and their union is the full target set.
\<close>

definition five_buckets :: "buckets \<Rightarrow> string set list" where
  "five_buckets b = [incomplete_ids b, empty_patch_ids b, resolved_ids b, unresolved_ids b, error_ids b]"

definition partitions :: "buckets \<Rightarrow> string set \<Rightarrow> bool" where
  "partitions b target =
     (\<Union> (set (five_buckets b)) = target \<and>
      incomplete_ids b \<inter> empty_patch_ids b = {} \<and> incomplete_ids b \<inter> resolved_ids b = {} \<and>
      incomplete_ids b \<inter> unresolved_ids b = {} \<and> incomplete_ids b \<inter> error_ids b = {} \<and>
      empty_patch_ids b \<inter> resolved_ids b = {} \<and> empty_patch_ids b \<inter> unresolved_ids b = {} \<and>
      empty_patch_ids b \<inter> error_ids b = {} \<and> resolved_ids b \<inter> unresolved_ids b = {} \<and>
      resolved_ids b \<inter> error_ids b = {} \<and> unresolved_ids b \<inter> error_ids b = {})"

section \<open>Admission: get_dataset_from_preds\<close>

text \<open>
  The loop that collects completed_ids (source lines 632-653); \<open>predictions\<close> is the
  dict after the filtering of line 618, \<open>prediction_ids\<close> the key set taken before it.
\<close>

fun completed_loop ::
  "predictions \<Rightarrow> string set \<Rightarrow> string \<Rightarrow> string \<Rightarrow> world \<Rightarrow> dataset_entry list \<Rightarrow>
     string set \<Rightarrow> exn + string set" where
  "completed_loop predictions prediction_ids run_id output_path w [] completed = Inr completed"
| "completed_loop predictions prediction_ids run_id output_path w (instance # rest) completed =
     (if inst_instance_id instance \<notin> prediction_ids
      then completed_loop predictions prediction_ids run_id output_path w rest completed
      else
        (case map_of predictions (inst_instance_id instance) of
           None \<Rightarrow> Inl (KeyError (inst_instance_id instance))
         | Some prediction \<Rightarrow>
             (let dir = [output_path, run_id, replace_slash (model_name_or_path prediction),
                         pred_instance_id prediction];
                  prev_apply_file = dir @ [''test_output_prev_apply.txt''];
                  after_apply_file = dir @ [''test_output_after_apply.txt'']
              in completed_loop predictions prediction_ids run_id output_path w rest
                   (if files w prev_apply_file \<noteq> None \<and> files w after_apply_file \<noteq> None
                    then insert (inst_instance_id instance) completed else completed))))"

text \<open>
  get_dataset_from_preds; \<open>dataset\<close> is what load_omnigirl_dataset returns, and
  \<open>instance_ids = []\<close> stands for an absent or empty list (both are false in Python).
\<close>

definition get_dataset_from_preds ::
  "dataset_entry list \<Rightarrow> string list \<Rightarrow> predictions \<Rightarrow> string \<Rightarrow> string \<Rightarrow> string \<Rightarrow> bool \<Rightarrow>
     world \<Rightarrow> exn + dataset_entry list" where
  "get_dataset_from_preds dataset instance_ids predictions run_id version_spec output_path
     exclude_completed w =
     (let dataset_ids =
            (if version_spec = ''all'' then set (map inst_instance_id dataset)
             else set (map inst_instance_id (filter (\<lambda>i. version i = version_spec) dataset)))
      in if instance_ids \<noteq> [] \<and> \<not> set instance_ids \<subseteq> dataset_ids
         then Inl (ValueError ''Some instance IDs not found in dataset!'')
         else
           (let prediction_ids = set (map fst predictions);
                predictions1 =
                  (if \<not> prediction_ids \<subseteq> dataset_ids
                   then filter (\<lambda>kv. fst kv \<in> dataset_ids) predictions else predictions);
                dataset1 =
                  (if instance_ids \<noteq> []
                   then filter (\<lambda>i. inst_instance_id i \<in> set instance_ids) dataset else dataset)
            in case completed_loop predictions1 prediction_ids run_id output_path w dataset1 {} of
                 Inl x \<Rightarrow> Inl x
               | Inr completed \<Rightarrow>
                   (let dataset2 =
                          (if completed \<noteq> {} \<and> exclude_completed
                           then filter (\<lambda>i. inst_instance_id i \<notin> completed) dataset1
                           else dataset1);
                        empty_setup_ids =
                          set (map fst (filter (\<lambda>kv. model_patch (snd kv) = Some [] \<or>
                                                      model_patch (snd kv) = None) predictions1))
                    in Inr (filter (\<lambda>i. inst_instance_id i \<in> prediction_ids \<and>
                                         inst_instance_id i \<notin> empty_setup_ids) dataset2))))"

section \<open>The scheduler: run_instances\<close>

text \<open>
  The test specs of line 484, with the None entries dropped (line 487); a missing
  prediction raises KeyError.
\<close>

fun make_test_specs ::
  "(dataset_entry \<Rightarrow> prediction \<Rightarrow> test_spec option) \<Rightarrow> predictions \<Rightarrow> dataset_entry list \<Rightarrow>
     exn + test_spec list" where
  "make_test_specs make_test_spec predictions [] = Inr []"
| "make_test_specs make_test_spec predictions (instance # rest) =
     (case map_of predictions (inst_instance_id instance) of
        None \<Rightarrow> Inl (KeyError (inst_instance_id instance))
      | Some prediction \<Rightarrow>
          (case make_test_specs make_test_spec predictions rest of
             Inl x \<Rightarrow> Inl x
           | Inr specs \<Rightarrow>
               Inr (case make_test_spec instance prediction of
                      None \<Rightarrow> specs
                    | Some spec \<Rightarrow> spec # specs)))"

text \<open>
  One unit of work as the worker runs it, with the outcome its future holds. The
  argument for rm_image is the constant True of lines 515 and 548 (the call of
  should_remove is commented out there). \<open>engines\<close> gives the engine's answers for an
  instance id and a mode.
\<close>

definition run_unit ::
  "(string \<Rightarrow> string \<Rightarrow> engine) \<Rightarrow> bool \<Rightarrow> bool \<Rightarrow> string \<Rightarrow> string \<Rightarrow> int option \<Rightarrow>
     test_spec \<Rightarrow> prediction \<Rightarrow> world \<Rightarrow> (exn + unit) \<times> world" where
  "run_unit engines is_judge_fail2pass force_rebuild run_id output_path timeout test_spec pred w =
     (if is_judge_fail2pass
      then run_instance_fail_to_pass
             (engines (ts_instance_id test_spec) ''not_apply_patch'')
             (engines (ts_instance_id test_spec) ''apply_patch'')
             test_spec pred True force_rebuild run_id output_path timeout w
      else and_then (run_instance_setup (engines (ts_instance_id test_spec) ''apply_patch'')
                       test_spec pred True force_rebuild run_id output_path ''apply_patch'' timeout w)
             (\<lambda>_ w. (Inr (), w)))"

text \<open>
  Submission (lines 504-523 and 537-557): \<open>predictions[test_spec.instance_id]\<close> is
  evaluated for each spec in turn and raises KeyError when the key is missing. The
  worker pool is modelled by one of its schedules: each unit runs when it is submitted.
  The result is the futures' outcomes in submission order.
\<close>

fun submit_all ::
  "(string \<Rightarrow> string \<Rightarrow> engine) \<Rightarrow> predictions \<Rightarrow> bool \<Rightarrow> bool \<Rightarrow> string \<Rightarrow> string \<Rightarrow>
     int option \<Rightarrow> test_spec list \<Rightarrow> world \<Rightarrow> (exn + (exn + unit) list) \<times> world" where
  "submit_all engines predictions f2p force_rebuild run_id output_path timeout [] w = (Inr [], w)"
| "submit_all engines predictions f2p force_rebuild run_id output_path timeout (test_spec # rest) w =
     (case map_of predictions (ts_instance_id test_spec) of
        None \<Rightarrow> (Inl (KeyError (ts_instance_id test_spec)), w)
      | Some pred \<Rightarrow>
          (case run_unit engines f2p force_rebuild run_id output_path timeout test_spec pred w of
             (outcome, w1) \<Rightarrow>
               (case submit_all engines predictions f2p force_rebuild run_id output_path timeout rest w1 of
                  (Inl x, w2) \<Rightarrow> (Inl x, w2)
                | (Inr outcomes, w2) \<Rightarrow> (Inr (outcome # outcomes), w2))))"

text \<open>
  The loop over as_completed (lines 525-532 and 559-566): the bar advances, and an
  exception held by the future is printed (\<open>print_exc\<close> gives the traceback text) and
  dropped.
\<close>

fun drain :: "(exn \<Rightarrow> string) \<Rightarrow> (exn + unit) list \<Rightarrow> world \<Rightarrow> world" where
  "drain print_exc [] w = w"
| "drain print_exc (future # rest) w =
     (let w1 = w\<lparr>pbar := pbar w + 1\<rparr>
      in case future of
           Inl x \<Rightarrow> drain print_exc rest (print_line (print_exc x) w1)
         | Inr u \<Rightarrow> drain print_exc rest w1)"

text \<open>\<open>str\<close> of a non-negative int.\<close>

fun str_nat :: "nat \<Rightarrow> string" where
  "str_nat n =
     (if n < 10 then [char_of (48 + n)] else str_nat (n div 10) @ [char_of (48 + n mod 10)])"

text \<open>
  The tags of the images present that are instance images of the test specs (source
  lines 489-493); \<open>images\<close> holds the tags of all images of the engine.
\<close>

definition existing_images :: "test_spec list \<Rightarrow> world \<Rightarrow> string list" where
  "existing_images test_specs w =
     remdups (filter (\<lambda>tag. tag \<in> set (map instance_image_key test_specs)) (images w))"

text \<open>The two lines printed before the pool starts (source lines 494-498).\<close>

definition announce :: "bool \<Rightarrow> test_spec list \<Rightarrow> dataset_entry list \<Rightarrow> world \<Rightarrow> world" where
  "announce force_rebuild test_specs instances w =
     (let existing = existing_images test_specs w;
          w1 = (if \<not> force_rebuild \<and> existing \<noteq> []
                then print_line (''Found '' @ str_nat (length existing) @
                                 '' existing instance images. Will reuse them.'') w
                else w)
      in print_line (''Running '' @ str_nat (length instances) @ '' instances...'') w1)"

text \<open>
  run_instances. \<open>cache_level\<close>, \<open>clean\<close> and \<open>max_workers\<close> are parameters of the
  source; the first two are not read by its body, the third sizes the worker pool.
\<close>

definition run_instances ::
  "(string \<Rightarrow> string \<Rightarrow> engine) \<Rightarrow> (exn \<Rightarrow> string) \<Rightarrow> (dataset_entry \<Rightarrow> prediction \<Rightarrow> test_spec option) \<Rightarrow>
     predictions \<Rightarrow> dataset_entry list \<Rightarrow> string \<Rightarrow> bool \<Rightarrow> bool \<Rightarrow> nat \<Rightarrow> string \<Rightarrow> string \<Rightarrow>
     int option \<Rightarrow> bool \<Rightarrow> world \<Rightarrow> (exn + unit) \<times> world" where
  "run_instances engines print_exc make_test_spec predictions instances cache_level clean force_rebuild
     max_workers run_id output_path timeout is_judge_fail2pass w =
     (case make_test_specs make_test_spec predictions instances of
        Inl x \<Rightarrow> (Inl x, w)
      | Inr test_specs \<Rightarrow>
          and_then (submit_all engines predictions is_judge_fail2pass force_rebuild run_id
                      output_path timeout test_specs
                      ((announce force_rebuild test_specs instances w)\<lparr>pbar := 0\<rparr>))
            (\<lambda>futures w. (Inr (), print_line ''All instances run.'' (drain print_exc futures w))))"

section \<open>The branch a round of the report loop takes\<close>

text \<open>
  The five outcomes of a round of the loop of make_run_report, named after the set the
  round adds to, and the branch the round takes for an instance id: the same tests in the
  same order as \<open>report_step\<close>. It is used to state what the loop computes.
\<close>

datatype bucket = Incomplete | EmptyPatch | Resolved | Unresolved | Error

definition bucket_of :: "predictions \<Rightarrow> string \<Rightarrow> string \<Rightarrow> world \<Rightarrow> string \<Rightarrow> exn + bucket" where
  "bucket_of predictions run_id output_path w instance_id =
     (case map_of predictions instance_id of
        None \<Rightarrow> Inr Incomplete
      | Some prediction \<Rightarrow>
          if model_patch prediction = Some [] \<or> model_patch prediction = None
          then Inr EmptyPatch
          else
            (case reports w [output_path, run_id, replace_slash (model_name_or_path prediction),
                             instance_id, ''report.json''] of
               None \<Rightarrow> Inr Error
             | Some NotJson \<Rightarrow> Inl JSONDecodeError
             | Some (Report report) \<Rightarrow>
                 (case map_of report instance_id of
                    None \<Rightarrow> Inl (KeyError instance_id)
                  | Some r \<Rightarrow> Inr (if resolved r then Resolved else Unresolved))))"

fun bucket_ids :: "bucket \<Rightarrow> buckets \<Rightarrow> string set" where
  "bucket_ids Incomplete b = incomplete_ids b"
| "bucket_ids EmptyPatch b = empty_patch_ids b"
| "bucket_ids Resolved b = resolved_ids b"
| "bucket_ids Unresolved b = unresolved_ids b"
| "bucket_ids Error b = error_ids b"

text \<open>
  Two entries of the dataset with different instance ids never share the label
  \<open>id_version\<close> under which the sets hold them.
\<close>

definition labels_identify :: "dataset_entry list \<Rightarrow> bool" where
  "labels_identify dataset =
     (\<forall>i \<in> set dataset. \<forall>j \<in> set dataset.
        id_version i = id_version j \<longrightarrow> inst_instance_id i = inst_instance_id j)"

section \<open>Concrete inputs\<close>

text \<open>A task \<open>t1\<close> of submitter \<open>m\<close> in run \<open>r1\<close>, with a non-empty candidate patch.\<close>

definition ex_pred :: prediction where
  "ex_pred = \<lparr>pred_instance_id = ''t1'', model_patch = Some ''diff'', model_name_or_path = ''m''\<rparr>"

definition ex_spec :: test_spec where
  "ex_spec = \<lparr>ts_instance_id = ''t1'', instance_image_key = ''img:t1'', patch = Some ''diff'',
              eval_script = ''run tests''\<rparr>"

definition ex_dir :: path where
  "ex_dir = [''out'', ''r1'', ''m'', ''t1'']"

definition ex_out_path :: path where
  "ex_out_path = ex_dir @ [''test_output_after_apply.txt'']"

definition ex_log_path :: path where
  "ex_log_path = ex_dir @ [''run_instance_after_apply.log'']"

text \<open>A test output whose first exit-code marker carries 1 and whose second carries 0.\<close>

definition ex_out_10 :: string where
  "ex_out_10 = ''+ echo OMNIGRIL_EXIT_CODE=1'' @ nl @ ''+ echo OMNIGRIL_EXIT_CODE=0'' @ nl"

definition ex_fs_10 :: "path \<rightharpoonup> string" where
  "ex_fs_10 = [ex_out_path \<mapsto> ex_out_10]"

text \<open>
  A test output whose first exit-code marker carries the digit U+0660 (the bytes D9 A0)
  and whose second carries 0, beside a log with the patch-applied marker; and a test
  output that is not UTF-8.
\<close>

definition ex_fs_arabic :: "path \<rightharpoonup> string" where
  "ex_fs_arabic = [ex_out_path \<mapsto> ''+ echo OMNIGRIL_EXIT_CODE='' @ [CHR 0xD9, CHR 0xA0] @ nl @
                                    ''+ echo OMNIGRIL_EXIT_CODE=0'' @ nl,
                  ex_log_path \<mapsto> APPLY_PATCH_PASS @ '':'' @ nl]"

definition ex_fs_bytes :: "path \<rightharpoonup> string" where
  "ex_fs_bytes = [ex_out_path \<mapsto> [CHR 0xFF]]"

text \<open>A passing run: the log holds the patch-applied marker, the output the exit code 0.\<close>

definition ex_fs_pass :: "path \<rightharpoonup> string" where
  "ex_fs_pass = [ex_out_path \<mapsto> ''+ echo OMNIGRIL_EXIT_CODE=0'' @ nl,
                ex_log_path \<mapsto> APPLY_PATCH_PASS @ '':'' @ nl @ ''Checking patch a.py...'' @ nl]"

text \<open>An empty state in which the image of \<open>t1\<close> is present.\<close>

definition ex_world :: world where
  "ex_world = \<lparr>files = Map.empty, reports = Map.empty, calls = [], containers = [],
               images = [''img:t1''], stdout = [], pbar = 0\<rparr>"

text \<open>
  An engine on which everything succeeds: the build returns the container \<open>c1\<close>, the
  strict apply exits 0 and the test script prints the exit-code marker with value 0. Of
  the decimal digits beyond 0-9 it knows the Arabic-Indic ones, U+0660 to U+0669.
\<close>

definition ex_engine :: engine where
  "ex_engine = \<lparr>build_result = Inr ''c1'', start_result = None, copy_patch_result = None,
                git_apply_result = Inr (0, ''Applied patch a.py cleanly.''),
                patch_fuzz_result = Inr (0, ''patching file a.py''),
                git_diff_result = Inr ''diff'', copy_eval_result = None,
                eval_result = Inr (''+ echo OMNIGRIL_EXIT_CODE=0'' @ nl),
                log_open = (\<lambda>old. []), log_format = (\<lambda>msg. msg @ nl),
                format_exc = ''Traceback (most recent call last)'',
                dict_str = (\<lambda>r. ''{}''),
                decimal_digit = (\<lambda>c. 0x660 \<le> c \<and> c \<le> 0x669)\<rparr>"

text \<open>Both apply attempts exit 1, each with a diagnostic of its own.\<close>

definition ex_strict_output :: string where
  "ex_strict_output = ''error: patch failed: a.py:1''"

definition ex_fuzzy_output :: string where
  "ex_fuzzy_output = ''Hunk #1 FAILED at 1.''"

definition ex_engine_both_fail :: engine where
  "ex_engine_both_fail =
     ex_engine\<lparr>git_apply_result := Inr (1, ex_strict_output),
                patch_fuzz_result := Inr (1, ex_fuzzy_output)\<rparr>"

text \<open>The strict attempt exits 1 and the fuzzy one 0.\<close>

definition ex_engine_fuzzy :: engine where
  "ex_engine_fuzzy = ex_engine\<lparr>git_apply_result := Inr (1, ex_strict_output)\<rparr>"

text \<open>The build raises.\<close>

definition ex_engine_no_build :: engine where
  "ex_engine_no_build = ex_engine\<lparr>build_result := Inl (EngineError ''build failed'')\<rparr>"

text \<open>A state in which the report of \<open>t1\<close> has been written.\<close>

definition ex_report :: report_map where
  "ex_report = [(''t1'', \<lparr>patch_is_None = False, patch_exists = True,
                          patch_successfully_applied = True, resolved = True\<rparr>)]"

definition ex_world_done :: world where
  "ex_world_done = ex_world\<lparr>reports := [ex_dir @ [''report.json''] \<mapsto> Report ex_report]\<rparr>"

text \<open>
  The message printed and the log file written when both apply attempts fail on
  \<open>ex_engine_both_fail\<close>.
\<close>

definition ex_error_msg :: string where
  "ex_error_msg =
     ''EvaluationError t1: '' @
     evaluation_error_str ''t1'' (msg_apply_fail ex_fuzzy_output) ex_log_path @ nl @
     format_exc ex_engine @ nl @ check_log ex_log_path"

definition ex_failed_log :: string where
  "ex_failed_log =
     msg_started ''t1'' ''c1'' @ nl @
     msg_patch_written ''t1'' (ex_dir @ [''patch.diff'']) @ nl @
     msg_retry @ nl @
     msg_apply_fail ex_fuzzy_output @ nl @
     format_exc ex_engine @ nl @
     ex_error_msg @ nl"

text \<open>A dataset of two tasks, of which only \<open>t1\<close> has a prediction.\<close>

definition ex_dataset :: "dataset_entry list" where
  "ex_dataset = [\<lparr>inst_instance_id = ''t1'', version = ''1.0''\<rparr>,
                 \<lparr>inst_instance_id = ''t2'', version = ''1.0''\<rparr>]"

definition ex_preds :: predictions where
  "ex_preds = [(''t1'', ex_pred)]"

definition ex_make_spec :: "dataset_entry \<Rightarrow> prediction \<Rightarrow> test_spec option" where
  "ex_make_spec i p =
     Some \<lparr>ts_instance_id = inst_instance_id i, instance_image_key = ''img:'' @ inst_instance_id i,
           patch = model_patch p, eval_script = ''run tests''\<rparr>"

text \<open>
  Two tasks with different ids and the same label \<open>a_version-1_version-2\<close>; only the
  first has a prediction.
\<close>

definition ex_dataset_collide :: "dataset_entry list" where
  "ex_dataset_collide = [\<lparr>inst_instance_id = ''a'', version = ''1_version-2''\<rparr>,
                         \<lparr>inst_instance_id = ''a_version-1'', version = ''2''\<rparr>]"

definition ex_preds_a :: predictions where
  "ex_preds_a = [(''a'', \<lparr>pred_instance_id = ''a'', model_patch = Some ''diff'',
                          model_name_or_path = ''m''\<rparr>)]"

text \<open>A state in which the report.json of \<open>t1\<close> holds the empty JSON object.\<close>

definition ex_world_empty_report :: world where
  "ex_world_empty_report = ex_world\<lparr>reports := [ex_dir @ [''report.json''] \<mapsto> Report []]\<rparr>"

text \<open>
  A state in which both test outputs of \<open>t1\<close> are on disk and no report.json is.
\<close>

definition ex_world_outputs :: world where
  "ex_world_outputs =
     ex_world\<lparr>files := [ex_dir @ [''test_output_prev_apply.txt''] \<mapsto> ''+ echo OMNIGRIL_EXIT_CODE=1'' @ nl,
                         ex_dir @ [''test_output_after_apply.txt''] \<mapsto> ''+ echo OMNIGRIL_EXIT_CODE=0'' @ nl]\<rparr>"

text \<open>The task \<open>t1\<close> alone, as the list of instances to run, and an engine table.\<close>

definition ex_instances :: "dataset_entry list" where
  "ex_instances = [\<lparr>inst_instance_id = ''t1'', version = ''1.0''\<rparr>]"

definition ex_engines :: "string \<Rightarrow> string \<Rightarrow> engine" where
  "ex_engines instance_id mode = ex_engine"



section \<open>Grading\<close>

lemma startswith_iff: "startswith t s \<longleftrightarrow> (\<exists>r. t = s @ r)"
  by (induction t s rule: startswith.induct) auto

lemma str_in_iff: "str_in s t \<longleftrightarrow> (\<exists>pre post. t = pre @ s @ post)"
proof (induction t)
  case Nil
  then show ?case by simp
next
  case (Cons c cs)
  show ?case
  proof
    assume "str_in s (c # cs)"
    then consider "startswith (c # cs) s" | "str_in s cs" by auto
    then show "\<exists>pre post. c # cs = pre @ s @ post"
    proof cases
      case 1
      then obtain r where "c # cs = s @ r" by (auto simp: startswith_iff)
      then have "c # cs = [] @ s @ r" by simp
      then show ?thesis by blast
    next
      case 2
      then obtain pre post where "cs = pre @ s @ post" using Cons.IH by blast
      then have "c # cs = (c # pre) @ s @ post" by simp
      then show ?thesis by blast
    qed
  next
    assume "\<exists>pre post. c # cs = pre @ s @ post"
    then obtain pre post where e: "c # cs = pre @ s @ post" by blast
    show "str_in s (c # cs)"
    proof (cases pre)
      case Nil
      then have "startswith (c # cs) s" using e by (auto simp: startswith_iff)
      then show ?thesis by simp
    next
      case (Cons a pre')
      then have "cs = pre' @ s @ post" using e by simp
      then have "str_in s cs" using Cons.IH by blast
      then show ?thesis by simp
    qed
  qed
qed

lemma match_here_iff:
  "match_here nd t = Some d \<longleftrightarrow> is_digit nd d \<and> (\<exists>post. t = EXIT_CODE_MARK @ d # post)"
  by (auto simp: match_here_def startswith_iff split: list.splits)

lemma match_here_None_iff:
  "match_here nd t = None \<longleftrightarrow> (\<forall>d post. is_digit nd d \<longrightarrow> t \<noteq> EXIT_CODE_MARK @ d # post)"
  using match_here_iff [of nd t] by (metis not_Some_eq)

lemma exit_code_search_Some:
  "exit_code_search nd out = Some d \<longleftrightarrow>
     is_digit nd d \<and> (\<exists>pre post. out = pre @ EXIT_CODE_MARK @ d # post \<and>
        (\<forall>p d' q. is_digit nd d' \<and> out = p @ EXIT_CODE_MARK @ d' # q \<longrightarrow> length pre \<le> length p))"
  (is "?L out \<longleftrightarrow> ?R out")
proof (induction out)
  case Nil
  then show ?case by simp
next
  case (Cons c cs)
  show ?case
  proof (cases "match_here nd (c # cs)")
    case (Some e)
    then have dig: "is_digit nd e" and "\<exists>post. c # cs = EXIT_CODE_MARK @ e # post"
      by (auto simp: match_here_iff)
    then obtain post where eq: "c # cs = EXIT_CODE_MARK @ e # post" by blast
    have L: "exit_code_search nd (c # cs) = Some e" using Some by simp
    show ?thesis
    proof
      assume "?L (c # cs)"
      then have "d = e" using L by simp
      moreover have "c # cs = [] @ EXIT_CODE_MARK @ e # post" using eq by simp
      ultimately show "?R (c # cs)" using dig by (metis le0 list.size(3))
    next
      assume R: "?R (c # cs)"
      then obtain pre post' where
        e2: "c # cs = pre @ EXIT_CODE_MARK @ d # post'" and
        mn: "\<forall>p d' q. is_digit nd d' \<and> c # cs = p @ EXIT_CODE_MARK @ d' # q \<longrightarrow> length pre \<le> length p"
        by blast
      have "c # cs = [] @ EXIT_CODE_MARK @ e # post" using eq by simp
      then have "length pre \<le> length ([]::nat list)" using mn dig by blast
      then have "pre = []" by simp
      then have "d = e" using e2 eq by simp
      then show "?L (c # cs)" using L by simp
    qed
  next
    case None
    then have nomatch: "\<And>d post. is_digit nd d \<Longrightarrow> c # cs \<noteq> EXIT_CODE_MARK @ d # post"
      by (simp add: match_here_None_iff)
    have L: "exit_code_search nd (c # cs) = exit_code_search nd cs" using None by simp
    show ?thesis
    proof
      assume "?L (c # cs)"
      then have "?R cs" using L Cons.IH by simp
      then obtain pre post where dig: "is_digit nd d" and
        e2: "cs = pre @ EXIT_CODE_MARK @ d # post" and
        mn: "\<forall>p d' q. is_digit nd d' \<and> cs = p @ EXIT_CODE_MARK @ d' # q \<longrightarrow> length pre \<le> length p"
        by blast
      have e3: "c # cs = (c # pre) @ EXIT_CODE_MARK @ d # post" using e2 by simp
      have "\<forall>p d' q. is_digit nd d' \<and> c # cs = p @ EXIT_CODE_MARK @ d' # q \<longrightarrow> length (c # pre) \<le> length p"
      proof (intro allI impI)
        fix p d' q assume a: "is_digit nd d' \<and> c # cs = p @ EXIT_CODE_MARK @ d' # q"
        show "length (c # pre) \<le> length p"
        proof (cases p)
          case Nil
          then show ?thesis using a nomatch by auto
        next
          case (Cons a p')
          then have "cs = p' @ EXIT_CODE_MARK @ d' # q" using a by simp
          then have "length pre \<le> length p'" using mn a by blast
          then show ?thesis using Cons by simp
        qed
      qed
      then show "?R (c # cs)" using dig e3 by blast
    next
      assume R: "?R (c # cs)"
      then obtain pre post where dig: "is_digit nd d" and
        e2: "c # cs = pre @ EXIT_CODE_MARK @ d # post" and
        mn: "\<forall>p d' q. is_digit nd d' \<and> c # cs = p @ EXIT_CODE_MARK @ d' # q \<longrightarrow> length pre \<le> length p"
        by blast
      have "pre \<noteq> []" using e2 nomatch dig by auto
      then obtain pre' where pre: "pre = c # pre'" using e2 by (cases pre) auto
      then have e3: "cs = pre' @ EXIT_CODE_MARK @ d # post" using e2 by simp
      have "\<forall>p d' q. is_digit nd d' \<and> cs = p @ EXIT_CODE_MARK @ d' # q \<longrightarrow> length pre' \<le> length p"
      proof (intro allI impI)
        fix p d' q assume a: "is_digit nd d' \<and> cs = p @ EXIT_CODE_MARK @ d' # q"
        then have "c # cs = (c # p) @ EXIT_CODE_MARK @ d' # q" by simp
        then have "length pre \<le> length (c # p)" using mn a by blast
        then show "length pre' \<le> length p" using pre by simp
      qed
      then have "?R cs" using dig e3 by blast
      then show "?L (c # cs)" using L Cons.IH by simp
    qed
  qed
qed

lemma is_digit_0: "is_digit nd 48"
  by (simp add: is_digit_def)

lemma first_exit_code_is_zero_iff:
  "first_exit_code_is_zero nd out \<longleftrightarrow> exit_code_search nd out = Some 48"
  unfolding first_exit_code_is_zero_def exit_code_search_Some using is_digit_0 by simp

lemma exit_code_search_None:
  "exit_code_search nd out = None \<longleftrightarrow> (\<forall>p d q. is_digit nd d \<longrightarrow> out \<noteq> p @ EXIT_CODE_MARK @ d # q)"
proof -
  have "exit_code_search nd out = None \<longleftrightarrow> (\<forall>d. exit_code_search nd out \<noteq> Some d)" by auto
  also have "\<dots> \<longleftrightarrow> (\<forall>p d q. is_digit nd d \<longrightarrow> out \<noteq> p @ EXIT_CODE_MARK @ d # q)"
  proof
    assume a: "\<forall>d. exit_code_search nd out \<noteq> Some d"
    show "\<forall>p d q. is_digit nd d \<longrightarrow> out \<noteq> p @ EXIT_CODE_MARK @ d # q"
    proof (intro allI impI notI)
      fix p d q assume dg: "is_digit nd d" and e: "out = p @ EXIT_CODE_MARK @ d # q"
      show False using a e dg
      proof (induction p arbitrary: out)
        case Nil
        then have "match_here nd out = Some d" by (simp add: match_here_iff)
        moreover have "out \<noteq> []" using Nil by simp
        then obtain a l where "out = a # l" by (cases out) auto
        ultimately have "exit_code_search nd out = Some d" by simp
        then show ?case using Nil.prems(1) by simp
      next
        case (Cons c p)
        let ?cs = "p @ EXIT_CODE_MARK @ d # q"
        have o: "out = c # ?cs" using Cons by simp
        have "\<forall>d. exit_code_search nd ?cs \<noteq> Some d"
          using Cons.prems(1) o by (auto split: option.splits)
        then show ?case using Cons.IH [of ?cs] Cons.prems(3) by blast
      qed
    qed
  next
    assume "\<forall>p d q. is_digit nd d \<longrightarrow> out \<noteq> p @ EXIT_CODE_MARK @ d # q"
    then show "\<forall>d. exit_code_search nd out \<noteq> Some d"
      unfolding exit_code_search_Some by blast
  qed
  finally show ?thesis .
qed

lemma grade_patch_status_applied:
  "patch_successfully_applied (fst (grade_patch_status i log r)) =
     (if str_in (code_points APPLY_PATCH_PASS) log then True
      else if log \<noteq> [] \<and> str_in (code_points APPLY_PATCH_FAIL) log then False
      else patch_successfully_applied r)"
  by (cases log) (auto simp: grade_patch_status_def APPLY_PATCH_PASS_def code_points_def)

lemma grade_patch_status_other:
  "patch_is_None (fst (grade_patch_status i log r)) = patch_is_None r"
  "patch_exists (fst (grade_patch_status i log r)) = patch_exists r"
  "resolved (fst (grade_patch_status i log r)) = resolved r"
  by (auto simp: grade_patch_status_def)

lemma grade_patch_status_warn:
  "\<not> str_in (code_points APPLY_PATCH_PASS) log \<Longrightarrow> \<not> str_in (code_points APPLY_PATCH_FAIL) log \<Longrightarrow>
     snd (grade_patch_status i log r) = [if log = [] then warn_empty_log i else warn_no_patch_status i]"
  by (auto simp: grade_patch_status_def)

lemma grade_exit_code_resolved:
  "resolved (fst (grade_exit_code nd i out r)) = (resolved r \<or> exit_code_search nd out = Some 48)"
  by (cases out) (auto simp: grade_exit_code_def split: option.splits)

lemma grade_exit_code_other:
  "patch_is_None (fst (grade_exit_code nd i out r)) = patch_is_None r"
  "patch_exists (fst (grade_exit_code nd i out r)) = patch_exists r"
  "patch_successfully_applied (fst (grade_exit_code nd i out r)) = patch_successfully_applied r"
  by (auto simp: grade_exit_code_def split: option.splits)

lemma grade_exit_code_warn:
  "exit_code_search nd out = None \<Longrightarrow>
     snd (grade_exit_code nd i out r) = [if out = [] then warn_empty_test_output i else warn_no_exit_code i]"
  by (auto simp: grade_exit_code_def)

lemma read_or_warn_eq:
  "read_or_warn fs p w =
     (case text_of fs p of
        Inl x \<Rightarrow> Inl x
      | Inr content \<Rightarrow> Inr (content, if fs p = None then [w] else []))"
  by (auto simp: read_or_warn_def text_of_def split: option.splits sum.splits)

lemma text_of_raises:
  "text_of fs p = Inl x \<longleftrightarrow> x = UnicodeDecodeError \<and> (\<exists>bytes. fs p = Some bytes \<and> decode_utf8 bytes = None)"
  by (auto simp: text_of_def read_text_def split: option.splits)

lemma get_pred_report_None:
  "model_patch pred = None \<Longrightarrow>
   get_pred_report nd fs ts pred p =
     (Inr [(pred_instance_id pred,
        \<lparr>patch_is_None = True, patch_exists = False,
           patch_successfully_applied = False, resolved = False\<rparr>)], [])"
  by (simp add: get_pred_report_def)

lemma get_pred_report_raises_output:
  assumes "model_patch pred \<noteq> None" "text_of fs p = Inl x"
  shows "get_pred_report nd fs ts pred p = (Inl x, [])"
proof -
  from assms(1) obtain y where "model_patch pred = Some y" by auto
  with assms(2) show ?thesis
    by (simp add: get_pred_report_def Let_def read_or_warn_eq)
qed

lemma get_pred_report_raises_log:
  assumes "model_patch pred \<noteq> None" "text_of fs p = Inr out"
    "text_of fs (butlast p @ [''run_instance_after_apply.log'']) = Inl x"
  shows "get_pred_report nd fs ts pred p =
           (Inl x, if fs p = None then [warn_test_output_not_found p] else [])"
proof -
  from assms(1) obtain y where "model_patch pred = Some y" by auto
  with assms(2,3) show ?thesis
    by (simp add: get_pred_report_def Let_def read_or_warn_eq)
qed

lemma get_pred_report_Some:
  assumes "model_patch pred \<noteq> None" "text_of fs p = Inr out"
    "text_of fs (butlast p @ [''run_instance_after_apply.log'']) = Inr log"
  shows "get_pred_report nd fs ts pred p =
     (let i = pred_instance_id pred;
          lp = butlast p @ [''run_instance_after_apply.log''];
          r1 = \<lparr>patch_is_None = False, patch_exists = True,
                 patch_successfully_applied = False, resolved = False\<rparr>;
          g1 = grade_patch_status i log r1;
          g2 = grade_exit_code nd i out (fst g1)
      in (Inr [(i, fst g2)],
          (if fs p = None then [warn_test_output_not_found p] else []) @
          (if fs lp = None then [warn_log_not_found lp] else []) @ snd g1 @ snd g2))"
proof -
  from assms(1) obtain y where "model_patch pred = Some y" by auto
  with assms(2,3) show ?thesis
    by (simp add: get_pred_report_def Let_def split_beta read_or_warn_eq)
qed

text \<open>
  Claim C7, as amended. When \<open>model_patch\<close> is None, get_pred_report reports
  \<open>patch_is_None\<close> and nothing else, with no warning and without a read. Otherwise it
  reads the test output, then the run log, a missing file reading as the empty text: it
  raises UnicodeDecodeError when the first of them that does not decode as UTF-8 is met
  (a file raises exactly when it exists and its bytes are not well-formed UTF-8), and
  returns when both decode. Its single entry then has \<open>patch_exists\<close>;
  \<open>patch_successfully_applied\<close> holds exactly when the run log contains the patch-applied
  marker; \<open>resolved\<close> holds exactly when the leftmost place of the test output where the
  exit-code marker is followed by a decimal digit (of Unicode, not only 0-9) carries the
  ASCII digit 0; when the log holds neither patch marker, or the output no exit-code
  marker, the result is negative and a warning is printed.
\<close>

theorem get_pred_report_grades:
  "(model_patch pred = None \<longrightarrow>
      get_pred_report nd fs ts pred p =
        (Inr [(pred_instance_id pred,
           \<lparr>patch_is_None = True, patch_exists = False,
              patch_successfully_applied = False, resolved = False\<rparr>)], [])) \<and>
   (model_patch pred \<noteq> None \<and> text_of fs p = Inl x \<longrightarrow>
      get_pred_report nd fs ts pred p = (Inl x, [])) \<and>
   (model_patch pred \<noteq> None \<and> text_of fs p = Inr out \<and>
    text_of fs (butlast p @ [''run_instance_after_apply.log'']) = Inl x \<longrightarrow>
      fst (get_pred_report nd fs ts pred p) = Inl x) \<and>
   (model_patch pred \<noteq> None \<and> text_of fs p = Inr out \<and>
    text_of fs (butlast p @ [''run_instance_after_apply.log'']) = Inr log \<longrightarrow>
      (\<exists>r ws. get_pred_report nd fs ts pred p = (Inr [(pred_instance_id pred, r)], ws) \<and>
         \<not> patch_is_None r \<and> patch_exists r \<and>
         (patch_successfully_applied r \<longleftrightarrow> str_in (code_points APPLY_PATCH_PASS) log) \<and>
         (resolved r \<longleftrightarrow> first_exit_code_is_zero nd out) \<and>
         (\<not> str_in (code_points APPLY_PATCH_PASS) log \<and> \<not> str_in (code_points APPLY_PATCH_FAIL) log
            \<longrightarrow> \<not> patch_successfully_applied r \<and>
                (warn_empty_log (pred_instance_id pred) \<in> set ws \<or>
                 warn_no_patch_status (pred_instance_id pred) \<in> set ws)) \<and>
         ((\<forall>pre d post. is_digit nd d \<longrightarrow> out \<noteq> pre @ EXIT_CODE_MARK @ d # post)
            \<longrightarrow> \<not> resolved r \<and>
                (warn_empty_test_output (pred_instance_id pred) \<in> set ws \<or>
                 warn_no_exit_code (pred_instance_id pred) \<in> set ws)))) \<and>
   (text_of fs q = Inl y \<longleftrightarrow>
      y = UnicodeDecodeError \<and> (\<exists>bytes. fs q = Some bytes \<and> decode_utf8 bytes = None))"
proof (intro conjI impI)
  assume "model_patch pred = None"
  then show "get_pred_report nd fs ts pred p =
        (Inr [(pred_instance_id pred,
           \<lparr>patch_is_None = True, patch_exists = False,
              patch_successfully_applied = False, resolved = False\<rparr>)], [])"
    by (rule get_pred_report_None)
next
  assume "model_patch pred \<noteq> None \<and> text_of fs p = Inl x"
  then show "get_pred_report nd fs ts pred p = (Inl x, [])"
    by (simp add: get_pred_report_raises_output)
next
  assume "model_patch pred \<noteq> None \<and> text_of fs p = Inr out \<and>
    text_of fs (butlast p @ [''run_instance_after_apply.log'']) = Inl x"
  then show "fst (get_pred_report nd fs ts pred p) = Inl x"
    by (simp add: get_pred_report_raises_log)
next
  show "text_of fs q = Inl y \<longleftrightarrow>
      y = UnicodeDecodeError \<and> (\<exists>bytes. fs q = Some bytes \<and> decode_utf8 bytes = None)"
    by (rule text_of_raises)
next
  assume h: "model_patch pred \<noteq> None \<and> text_of fs p = Inr out \<and>
    text_of fs (butlast p @ [''run_instance_after_apply.log'']) = Inr log"
  let ?i = "pred_instance_id pred"
  let ?lp = "butlast p @ [''run_instance_after_apply.log'']"
  let ?r1 = "\<lparr>patch_is_None = False, patch_exists = True,
                 patch_successfully_applied = False, resolved = False\<rparr>"
  let ?g1 = "grade_patch_status ?i log ?r1"
  let ?g2 = "grade_exit_code nd ?i out (fst ?g1)"
  let ?ws = "(if fs p = None then [warn_test_output_not_found p] else []) @
          (if fs ?lp = None then [warn_log_not_found ?lp] else []) @ snd ?g1 @ snd ?g2"
  have eq: "get_pred_report nd fs ts pred p = (Inr [(?i, fst ?g2)], ?ws)"
    using get_pred_report_Some [of pred fs p out log nd ts] h by (simp add: Let_def)
  have a: "\<not> patch_is_None (fst ?g2)" "patch_exists (fst ?g2)"
    by (simp_all add: grade_exit_code_other grade_patch_status_other)
  have b: "patch_successfully_applied (fst ?g2) \<longleftrightarrow> str_in (code_points APPLY_PATCH_PASS) log"
    by (simp add: grade_exit_code_other grade_patch_status_applied)
  have c: "resolved (fst ?g2) \<longleftrightarrow> first_exit_code_is_zero nd out"
    by (simp add: grade_exit_code_resolved grade_patch_status_other first_exit_code_is_zero_iff)
  have d: "\<not> str_in (code_points APPLY_PATCH_PASS) log \<and> \<not> str_in (code_points APPLY_PATCH_FAIL) log
            \<longrightarrow> \<not> patch_successfully_applied (fst ?g2) \<and>
                (warn_empty_log ?i \<in> set ?ws \<or> warn_no_patch_status ?i \<in> set ?ws)"
    using b by (auto simp: grade_patch_status_warn)
  have e: "(\<forall>pre d post. is_digit nd d \<longrightarrow> out \<noteq> pre @ EXIT_CODE_MARK @ d # post)
            \<longrightarrow> \<not> resolved (fst ?g2) \<and>
                (warn_empty_test_output ?i \<in> set ?ws \<or> warn_no_exit_code ?i \<in> set ?ws)"
  proof
    assume "\<forall>pre d post. is_digit nd d \<longrightarrow> out \<noteq> pre @ EXIT_CODE_MARK @ d # post"
    then have n: "exit_code_search nd out = None" by (simp add: exit_code_search_None)
    then have "\<not> resolved (fst ?g2)"
      by (simp add: grade_exit_code_resolved grade_patch_status_other)
    then show "\<not> resolved (fst ?g2) \<and>
                (warn_empty_test_output ?i \<in> set ?ws \<or> warn_no_exit_code ?i \<in> set ?ws)"
      using n by (auto simp: grade_exit_code_warn)
  qed
  show "\<exists>r ws. get_pred_report nd fs ts pred p = (Inr [(pred_instance_id pred, r)], ws) \<and>
         \<not> patch_is_None r \<and> patch_exists r \<and>
         (patch_successfully_applied r \<longleftrightarrow> str_in (code_points APPLY_PATCH_PASS) log) \<and>
         (resolved r \<longleftrightarrow> first_exit_code_is_zero nd out) \<and>
         (\<not> str_in (code_points APPLY_PATCH_PASS) log \<and> \<not> str_in (code_points APPLY_PATCH_FAIL) log
            \<longrightarrow> \<not> patch_successfully_applied r \<and>
                (warn_empty_log (pred_instance_id pred) \<in> set ws \<or>
                 warn_no_patch_status (pred_instance_id pred) \<in> set ws)) \<and>
         ((\<forall>pre d post. is_digit nd d \<longrightarrow> out \<noteq> pre @ EXIT_CODE_MARK @ d # post)
            \<longrightarrow> \<not> resolved r \<and>
                (warn_empty_test_output (pred_instance_id pred) \<in> set ws \<or>
                 warn_no_exit_code (pred_instance_id pred) \<in> set ws))"
    using eq a b c d e by blast
qed

lemmas ex_grading_defs =
  get_pred_report_def read_or_warn_def read_text_def text_of_def grade_patch_status_def
  grade_exit_code_def match_here_def EXIT_CODE_MARK_def is_digit_def code_points_def
  continuation_def APPLY_PATCH_PASS_def APPLY_PATCH_FAIL_def nl_def Let_def
  ex_pred_def ex_out_path_def ex_log_path_def ex_dir_def ex_engine_def

text \<open>
  Claim C7 as stated fails. The test output holds the exit-code marker with value 0 after
  one with value 1, and \<open>resolved\<close> is false; it holds the marker with value 0 after one
  with the digit U+0660, and \<open>resolved\<close> is false with no warning printed; and a test
  output that is not UTF-8 makes get_pred_report raise.
\<close>

theorem get_pred_report_counterexample:
  "text_of ex_fs_10 ex_out_path = Inr (code_points ex_out_10) \<and>
   contains_exit_code_zero (code_points ex_out_10) \<and>
   fst (get_pred_report (decimal_digit ex_engine) ex_fs_10 ex_spec ex_pred ex_out_path) =
     Inr [(''t1'', \<lparr>patch_is_None = False, patch_exists = True,
                 patch_successfully_applied = False, resolved = False\<rparr>)] \<and>
   get_pred_report (decimal_digit ex_engine) ex_fs_arabic ex_spec ex_pred ex_out_path =
     (Inr [(''t1'', \<lparr>patch_is_None = False, patch_exists = True,
                 patch_successfully_applied = True, resolved = False\<rparr>)], []) \<and>
   get_pred_report (decimal_digit ex_engine) ex_fs_bytes ex_spec ex_pred ex_out_path =
     (Inl UnicodeDecodeError, [])"
proof (intro conjI)
  show "text_of ex_fs_10 ex_out_path = Inr (code_points ex_out_10)"
    by (simp add: ex_grading_defs ex_fs_10_def ex_out_10_def)
  show "contains_exit_code_zero (code_points ex_out_10)"
    by (simp add: contains_exit_code_zero_def ex_grading_defs ex_out_10_def)
  show "fst (get_pred_report (decimal_digit ex_engine) ex_fs_10 ex_spec ex_pred ex_out_path) =
     Inr [(''t1'', \<lparr>patch_is_None = False, patch_exists = True,
                 patch_successfully_applied = False, resolved = False\<rparr>)]"
    by (simp add: ex_grading_defs ex_fs_10_def ex_out_10_def)
  show "get_pred_report (decimal_digit ex_engine) ex_fs_arabic ex_spec ex_pred ex_out_path =
     (Inr [(''t1'', \<lparr>patch_is_None = False, patch_exists = True,
                 patch_successfully_applied = True, resolved = False\<rparr>)], [])"
    by (simp add: ex_grading_defs ex_fs_arabic_def)
  show "get_pred_report (decimal_digit ex_engine) ex_fs_bytes ex_spec ex_pred ex_out_path =
     (Inl UnicodeDecodeError, [])"
    by (simp add: ex_grading_defs ex_fs_bytes_def)
qed

theorem get_pred_report_grades_witness:
  "model_patch ex_pred \<noteq> None \<and>
   first_exit_code_is_zero (decimal_digit ex_engine)
     (code_points (''+ echo OMNIGRIL_EXIT_CODE=0'' @ nl)) \<and>
   fst (get_pred_report (decimal_digit ex_engine) ex_fs_pass ex_spec ex_pred ex_out_path) =
     Inr [(''t1'', \<lparr>patch_is_None = False, patch_exists = True,
                 patch_successfully_applied = True, resolved = True\<rparr>)]"
proof -
  have some: "model_patch ex_pred \<noteq> None" by (simp add: ex_pred_def)
  have o: "text_of ex_fs_pass ex_out_path = Inr (code_points (''+ echo OMNIGRIL_EXIT_CODE=0'' @ nl))"
    by (simp add: ex_grading_defs ex_fs_pass_def)
  have l: "text_of ex_fs_pass (butlast ex_out_path @ [''run_instance_after_apply.log'']) =
      Inr (code_points (APPLY_PATCH_PASS @ '':'' @ nl @ ''Checking patch a.py...'' @ nl))"
    by (simp add: ex_grading_defs ex_fs_pass_def)
  have val: "fst (get_pred_report (decimal_digit ex_engine) ex_fs_pass ex_spec ex_pred ex_out_path) =
     Inr [(''t1'', \<lparr>patch_is_None = False, patch_exists = True,
                 patch_successfully_applied = True, resolved = True\<rparr>)]"
    by (simp add: ex_grading_defs ex_fs_pass_def)
  note g = get_pred_report_grades [where pred = ex_pred and nd = "decimal_digit ex_engine"
      and fs = ex_fs_pass and ts = ex_spec and p = ex_out_path
      and out = "code_points (''+ echo OMNIGRIL_EXIT_CODE=0'' @ nl)"
      and log = "code_points (APPLY_PATCH_PASS @ '':'' @ nl @ ''Checking patch a.py...'' @ nl)"]
  note g4 = g [THEN conjunct2, THEN conjunct2, THEN conjunct2, THEN conjunct1, THEN mp,
      OF conjI [OF some conjI [OF o l]]]
  from g4 obtain r ws where
    eq: "get_pred_report (decimal_digit ex_engine) ex_fs_pass ex_spec ex_pred ex_out_path =
           (Inr [(pred_instance_id ex_pred, r)], ws)" and
    res: "resolved r \<longleftrightarrow> first_exit_code_is_zero (decimal_digit ex_engine)
            (code_points (''+ echo OMNIGRIL_EXIT_CODE=0'' @ nl))"
    by (elim exE conjE)
  from eq val have "resolved r" by simp
  with res have "first_exit_code_is_zero (decimal_digit ex_engine)
            (code_points (''+ echo OMNIGRIL_EXIT_CODE=0'' @ nl))" by (simp only:)
  with some val show ?thesis by (intro conjI)
qed

section \<open>The pipeline: frame lemmas, release and idempotence\<close>

lemma and_then_pair [simp]:
  "and_then (a, w) k = (case a of Inl x \<Rightarrow> (Inl x, w) | Inr v \<Rightarrow> k v w)"
  by (simp add: and_then_def split: sum.splits)

lemma container_start_eq:
  "container_start e c w =
     (case start_result e of Some x \<Rightarrow> Inl x | None \<Rightarrow> Inr (), record_call (StartContainer c) w)"
  by (simp add: container_start_def split: option.splits)

lemma copy_to_container_eq:
  "copy_to_container a c s d w =
     (case a of Some x \<Rightarrow> Inl x | None \<Rightarrow> Inr (), record_call (CopyToContainer c s d) w)"
  by (simp add: copy_to_container_def split: option.splits)

lemma record_call_proj [simp]:
  "files (record_call k w) = files w"
  "reports (record_call k w) = reports w"
  "calls (record_call k w) = calls w @ [k]"
  "containers (record_call k w) = containers w"
  "images (record_call k w) = images w"
  "stdout (record_call k w) = stdout w"
  "pbar (record_call k w) = pbar w"
  by (simp_all add: record_call_def)

lemma write_text_proj [simp]:
  "files (write_text p s w) = (files w)(p \<mapsto> s)"
  "reports (write_text p s w) = reports w"
  "calls (write_text p s w) = calls w"
  "containers (write_text p s w) = containers w"
  "images (write_text p s w) = images w"
  "stdout (write_text p s w) = stdout w"
  "pbar (write_text p s w) = pbar w"
  by (simp_all add: write_text_def)

lemma print_line_proj [simp]:
  "files (print_line s w) = files w"
  "reports (print_line s w) = reports w"
  "calls (print_line s w) = calls w"
  "containers (print_line s w) = containers w"
  "images (print_line s w) = images w"
  "stdout (print_line s w) = stdout w @ [s]"
  "pbar (print_line s w) = pbar w"
  by (simp_all add: print_line_def)

lemma logger_info_proj [simp]:
  "files (logger_info e lf m w) = (files w)(lf \<mapsto> file_text (files w) lf @ log_format e m)"
  "reports (logger_info e lf m w) = reports w"
  "calls (logger_info e lf m w) = calls w"
  "containers (logger_info e lf m w) = containers w"
  "images (logger_info e lf m w) = images w"
  "stdout (logger_info e lf m w) = stdout w"
  "pbar (logger_info e lf m w) = pbar w"
  by (simp_all add: logger_info_def)

lemma setup_logger_proj [simp]:
  "files (setup_logger e lf w) = (files w)(lf \<mapsto> log_open e (files w lf))"
  "reports (setup_logger e lf w) = reports w"
  "calls (setup_logger e lf w) = calls w"
  "containers (setup_logger e lf w) = containers w"
  "images (setup_logger e lf w) = images w"
  "stdout (setup_logger e lf w) = stdout w"
  "pbar (setup_logger e lf w) = pbar w"
  by (simp_all add: setup_logger_def)

lemma apply_patch_frame:
  "calls (snd (apply_patch e i lf c w)) \<in>
     {calls w @ [ExecRun c git_apply_cmd], calls w @ [ExecRun c git_apply_cmd, ExecRun c patch_fuzz_cmd]}"
  "containers (snd (apply_patch e i lf c w)) = containers w"
  "images (snd (apply_patch e i lf c w)) = images w"
  "reports (snd (apply_patch e i lf c w)) = reports w"
  "stdout (snd (apply_patch e i lf c w)) = stdout w"
  "pbar (snd (apply_patch e i lf c w)) = pbar w"
  by (auto simp: apply_patch_def exec_run_def split: sum.splits)

lemma releases_simps [simp]:
  "releases c (record_call k w) = releases c w + (if k = StopRemoveContainer c then 1 else 0)"
  "releases c (write_text p s w) = releases c w"
  "releases c (logger_info e lf m w) = releases c w"
  "releases c (setup_logger e lf w) = releases c w"
  "releases c (print_line s w) = releases c w"
  by (simp_all add: releases_def)

lemma releases_upd [simp]:
  "releases c (w\<lparr>stdout := x\<rparr>) = releases c w"
  "releases c (w\<lparr>reports := y\<rparr>) = releases c w"
  "releases c (w\<lparr>containers := z\<rparr>) = releases c w"
  "releases c (w\<lparr>images := u\<rparr>) = releases c w"
  by (simp_all add: releases_def)

lemma apply_patch_releases [simp]:
  "releases c' (snd (apply_patch e i lf c w)) = releases c' w"
  by (auto simp: apply_patch_def exec_run_def split: sum.splits)

lemma grade_and_write_frame [simp]:
  "releases c (snd (grade_and_write e ts pred lf rp tp w)) = releases c w"
  "containers (snd (grade_and_write e ts pred lf rp tp w)) = containers w"
  "images (snd (grade_and_write e ts pred lf rp tp w)) = images w"
  by (auto simp: grade_and_write_def Let_def split: prod.splits option.splits sum.splits)

lemma snd_and_then:
  "snd (and_then r k) = (case fst r of Inl x \<Rightarrow> snd r | Inr v \<Rightarrow> snd (k v (snd r)))"
  by (cases r) (simp split: sum.splits)

lemma fst_and_then:
  "fst (and_then r k) = (case fst r of Inl x \<Rightarrow> Inl x | Inr v \<Rightarrow> fst (k v (snd r)))"
  by (cases r) (simp split: sum.splits)

lemma setup_body_releases:
  "releases c' (snd (setup_body e ts pred ld lf rp mode t c w)) = releases c' w"
  "containers (snd (setup_body e ts pred ld lf rp mode t c w)) = containers w"
  "images (snd (setup_body e ts pred ld lf rp mode t c w)) = images w"
  by (auto simp: setup_body_def Let_def container_start_eq copy_to_container_eq
        exec_run_with_timeout_def apply_patch_frame snd_and_then
      split: sum.splits option.splits prod.splits)

lemma instance_body_releases:
  "releases c' (snd (instance_body e ts pred ld lf t c w)) = releases c' w"
  "containers (snd (instance_body e ts pred ld lf t c w)) = containers w"
  "images (snd (instance_body e ts pred ld lf t c w)) = images w"
  by (auto simp: instance_body_def Let_def container_start_eq copy_to_container_eq
        exec_run_with_timeout_def exec_run_def apply_patch_frame snd_and_then
      split: sum.splits option.splits prod.splits)

lemma handle_exception_frame [simp]:
  "releases c (handle_exception e i lf x w) = releases c w"
  "containers (handle_exception e i lf x w) = containers w"
  "images (handle_exception e i lf x w) = images w"
  "reports (handle_exception e i lf x w) = reports w"
  "calls (handle_exception e i lf x w) = calls w"
  by (auto simp: handle_exception_def Let_def split: exn.splits)

lemma finally_cleanup_releases:
  "releases c (finally_cleanup ts rm container w) =
     releases c w + (if container = Some c then 1 else 0)"
  by (auto simp: finally_cleanup_def close_logger_def cleanup_container_def remove_image_def
      split: option.splits)

lemma finally_cleanup_containers:
  "containers (finally_cleanup ts rm container w) =
     (case container of None \<Rightarrow> containers w | Some c \<Rightarrow> remove1 c (containers w))"
  by (auto simp: finally_cleanup_def close_logger_def cleanup_container_def remove_image_def
      split: option.splits)

lemma setup_try_frame:
  "fst (setup_try e ts pred rm fr run ld lf rp mode t w) =
     (case build_result e of Inl x \<Rightarrow> None | Inr k \<Rightarrow> Some k)"
  "releases c (snd (snd (setup_try e ts pred rm fr run ld lf rp mode t w))) = releases c w"
  "containers (snd (snd (setup_try e ts pred rm fr run ld lf rp mode t w))) =
     (case build_result e of Inl x \<Rightarrow> containers w | Inr k \<Rightarrow> k # containers w)"
  by (simp_all add: setup_try_def build_setup_container_def Let_def setup_body_releases
      split: sum.splits)

lemma instance_try_frame:
  "fst (instance_try e ts pred rm fr run ld lf t w) =
     (case build_result e of Inl x \<Rightarrow> None | Inr k \<Rightarrow> Some k)"
  "releases c (snd (snd (instance_try e ts pred rm fr run ld lf t w))) = releases c w"
  "containers (snd (snd (instance_try e ts pred rm fr run ld lf t w))) =
     (case build_result e of Inl x \<Rightarrow> containers w | Inr k \<Rightarrow> k # containers w)"
  by (simp_all add: instance_try_def build_setup_container_def Let_def instance_body_releases
      split: sum.splits)

text \<open>run_instance_setup when no report.json exists, in terms of its try block.\<close>

lemma run_instance_setup_fresh:
  assumes "reports w [out, run, replace_slash (model_name_or_path pred), ts_instance_id ts, ''report.json''] = None"
  shows "run_instance_setup e ts pred rm fr run out mode t w =
     (let ld = [out, run, replace_slash (model_name_or_path pred), ts_instance_id ts];
          lf = ld @ [run_instance_log_name mode];
          T = setup_try e ts pred rm fr run ld lf (ld @ [''report.json'']) mode t (setup_logger e lf w)
      in (case fst (snd T) of Inr v \<Rightarrow> Inr (Some v) | Inl x \<Rightarrow> Inr None,
          finally_cleanup ts rm (fst T)
            (case fst (snd T) of Inr v \<Rightarrow> snd (snd T)
             | Inl x \<Rightarrow> handle_exception e (ts_instance_id ts) lf x (snd (snd T)))))"
  using assms
  by (simp add: run_instance_setup_def Let_def split: prod.splits sum.splits)

lemma run_instance_setup_stored:
  assumes "reports w [out, run, replace_slash (model_name_or_path pred), ts_instance_id ts, ''report.json''] = Some f"
  shows "run_instance_setup e ts pred rm fr run out mode t w =
     (case f of Report r \<Rightarrow> Inr (Some (ts_instance_id ts, Some r)) | NotJson \<Rightarrow> Inl JSONDecodeError, w)"
  using assms
  by (simp add: run_instance_setup_def Let_def split: report_file.splits)

lemma run_instance_setup_releases:
  "releases c (snd (run_instance_setup e ts pred rm fr run out mode t w)) =
     releases c w +
     (if reports w [out, run, replace_slash (model_name_or_path pred), ts_instance_id ts, ''report.json''] = None
         \<and> build_result e = Inr c then 1 else 0)"
proof (cases "reports w [out, run, replace_slash (model_name_or_path pred), ts_instance_id ts, ''report.json'']")
  case None
  show ?thesis
    unfolding run_instance_setup_fresh [OF None]
    using None
    by (simp add: Let_def finally_cleanup_releases setup_try_frame split: sum.splits)
next
  case (Some f)
  show ?thesis
    unfolding run_instance_setup_stored [OF Some]
    using Some by (simp split: report_file.splits)
qed

lemma run_instance_setup_containers:
  "containers (snd (run_instance_setup e ts pred rm fr run out mode t w)) = containers w"
proof (cases "reports w [out, run, replace_slash (model_name_or_path pred), ts_instance_id ts, ''report.json'']")
  case None
  show ?thesis
    unfolding run_instance_setup_fresh [OF None]
    by (simp add: Let_def finally_cleanup_containers setup_try_frame split: sum.splits)
next
  case (Some f)
  show ?thesis
    unfolding run_instance_setup_stored [OF Some]
    by (simp split: report_file.splits)
qed

lemma run_instance_fresh:
  assumes "reports w [out, run, replace_slash (model_name_or_path pred), ts_instance_id ts, ''report.json''] = None"
  shows "run_instance e ts pred rm fr run (PathArg out) t w =
     (let ld = [out, run, replace_slash (model_name_or_path pred), ts_instance_id ts];
          lf = ld @ [''run_instance.log''];
          T = instance_try e ts pred rm fr run ld lf t (setup_logger e lf w)
      in (case fst (snd T) of Inr v \<Rightarrow> Inr (Some v) | Inl x \<Rightarrow> Inr None,
          finally_cleanup ts rm (fst T)
            (case fst (snd T) of Inr v \<Rightarrow> snd (snd T)
             | Inl x \<Rightarrow> handle_exception e (ts_instance_id ts) lf x (snd (snd T)))))"
  using assms
  by (simp add: run_instance_def Let_def split: prod.splits sum.splits)

lemma run_instance_stored:
  assumes "reports w [out, run, replace_slash (model_name_or_path pred), ts_instance_id ts, ''report.json''] = Some f"
  shows "run_instance e ts pred rm fr run (PathArg out) t w =
     (case f of Report r \<Rightarrow> Inr (Some (ts_instance_id ts, Some r)) | NotJson \<Rightarrow> Inl JSONDecodeError, w)"
  using assms
  by (simp add: run_instance_def Let_def split: report_file.splits)

lemma run_instance_releases:
  "releases c (snd (run_instance e ts pred rm fr run (PathArg out) t w)) =
     releases c w +
     (if reports w [out, run, replace_slash (model_name_or_path pred), ts_instance_id ts, ''report.json''] = None
         \<and> build_result e = Inr c then 1 else 0)"
proof (cases "reports w [out, run, replace_slash (model_name_or_path pred), ts_instance_id ts, ''report.json'']")
  case None
  show ?thesis
    unfolding run_instance_fresh [OF None]
    using None
    by (simp add: Let_def finally_cleanup_releases instance_try_frame split: sum.splits)
next
  case (Some f)
  show ?thesis
    unfolding run_instance_stored [OF Some]
    using Some by (simp split: report_file.splits)
qed

lemma run_instance_containers:
  "containers (snd (run_instance e ts pred rm fr run (PathArg out) t w)) = containers w"
proof (cases "reports w [out, run, replace_slash (model_name_or_path pred), ts_instance_id ts, ''report.json'']")
  case None
  show ?thesis
    unfolding run_instance_fresh [OF None]
    by (simp add: Let_def finally_cleanup_containers instance_try_frame split: sum.splits)
next
  case (Some f)
  show ?thesis
    unfolding run_instance_stored [OF Some]
    by (simp split: report_file.splits)
qed

lemma run_instance_str: "run_instance e ts pred rm fr run (StrArg s) t w = (Inl (TypeError ''unsupported operand type(s) for /''), w)"
  by (simp add: run_instance_def)

text \<open>
  Claim C1. Whatever the engine answers (so on every exit path: success, a failed patch,
  a raising or timed-out execution, a failed grading, a failed build or start), an
  invocation of run_instance_setup or of run_instance asks the engine to stop and remove
  the container it built exactly once, and no other container: the number of releases of
  a container \<open>c\<close> grows by one when no report.json was there and the build returned
  \<open>c\<close>, and stays as it was otherwise. The containers the engine holds are the same
  after the invocation as before it. cleanup_container on the null resource changes
  nothing.
\<close>

theorem container_released_exactly_once:
  "releases c (snd (run_instance_setup e ts pred rm fr run out mode t w)) =
     releases c w +
     (if reports w [out, run, replace_slash (model_name_or_path pred), ts_instance_id ts, ''report.json''] = None
         \<and> build_result e = Inr c then 1 else 0) \<and>
   containers (snd (run_instance_setup e ts pred rm fr run out mode t w)) = containers w \<and>
   releases c (snd (run_instance e ts pred rm fr run (PathArg out) t w)) =
     releases c w +
     (if reports w [out, run, replace_slash (model_name_or_path pred), ts_instance_id ts, ''report.json''] = None
         \<and> build_result e = Inr c then 1 else 0) \<and>
   containers (snd (run_instance e ts pred rm fr run (PathArg out) t w)) = containers w \<and>
   snd (run_instance e ts pred rm fr run (StrArg s) t w) = w \<and>
   cleanup_container None w = w"
  by (simp add: run_instance_setup_releases run_instance_setup_containers run_instance_releases
      run_instance_containers run_instance_str cleanup_container_def)

lemma apply_patch_reports [simp]:
  "reports (snd (apply_patch e i lf c w)) = reports w"
  by (rule apply_patch_frame)

lemma grade_and_write_result:
  "fst (grade_and_write e ts pred lf rp tp w) =
     (case fst (get_pred_report (decimal_digit e)
                  ((files w)(lf \<mapsto> file_text (files w) lf @ log_format e (msg_grading (ts_instance_id ts))))
                  ts pred tp) of
        Inl x \<Rightarrow> Inl x
      | Inr report \<Rightarrow>
          (case map_of report (ts_instance_id ts) of
             None \<Rightarrow> Inl (KeyError (ts_instance_id ts))
           | Some r \<Rightarrow> Inr (ts_instance_id ts, Some report)))"
  by (simp add: grade_and_write_def Let_def split_beta split: option.splits sum.splits)

lemma grade_and_write_reports:
  "reports (snd (grade_and_write e ts pred lf rp tp w)) =
     (case fst (grade_and_write e ts pred lf rp tp w) of
        Inl x \<Rightarrow> reports w
      | Inr v \<Rightarrow> (case snd v of None \<Rightarrow> reports w | Some r \<Rightarrow> (reports w)(rp \<mapsto> Report r)))"
  by (simp add: grade_and_write_def Let_def split_beta split: option.splits sum.splits)

lemma grade_and_write_calls [simp]:
  "calls (snd (grade_and_write e ts pred lf rp tp w)) = calls w"
  by (simp add: grade_and_write_def Let_def split_beta split: option.splits sum.splits)

lemma setup_body_reports:
  "reports (snd (setup_body e ts pred ld lf rp mode t c w)) =
     (case fst (setup_body e ts pred ld lf rp mode t c w) of
        Inl x \<Rightarrow> reports w
      | Inr v \<Rightarrow> (case snd v of None \<Rightarrow> reports w | Some r \<Rightarrow> (reports w)(rp \<mapsto> Report r)))"
  by (auto simp: setup_body_def Let_def container_start_eq copy_to_container_eq
        exec_run_with_timeout_def snd_and_then fst_and_then grade_and_write_reports
      split: sum.splits option.splits)

lemma setup_body_result:
  "fst (setup_body e ts pred ld lf rp mode t c w) = Inr v \<Longrightarrow>
     fst v = ts_instance_id ts \<and> (snd v = None \<longleftrightarrow> mode = ''not_apply_patch'')"
  by (auto simp: setup_body_def Let_def container_start_eq copy_to_container_eq
        exec_run_with_timeout_def snd_and_then fst_and_then grade_and_write_result
      split: sum.splits option.splits if_splits)

lemma finally_cleanup_keeps [simp]:
  "reports (finally_cleanup ts rm container w) = reports w"
  "files (finally_cleanup ts rm container w) = files w"
  "stdout (finally_cleanup ts rm container w) = stdout w"
  "pbar (finally_cleanup ts rm container w) = pbar w"
  by (auto simp: finally_cleanup_def close_logger_def cleanup_container_def remove_image_def
      split: option.splits)

lemma setup_try_reports:
  "reports (snd (snd (setup_try e ts pred rm fr run ld lf rp mode t w))) =
     (case fst (snd (setup_try e ts pred rm fr run ld lf rp mode t w)) of
        Inl x \<Rightarrow> reports w
      | Inr v \<Rightarrow> (case snd v of None \<Rightarrow> reports w | Some r \<Rightarrow> (reports w)(rp \<mapsto> Report r)))"
  by (simp add: setup_try_def build_setup_container_def Let_def setup_body_reports
      split: sum.splits option.splits)

lemma setup_try_result:
  "fst (snd (setup_try e ts pred rm fr run ld lf rp mode t w)) = Inr v \<Longrightarrow>
     fst v = ts_instance_id ts \<and> (snd v = None \<longleftrightarrow> mode = ''not_apply_patch'')"
  by (auto simp: setup_try_def build_setup_container_def Let_def
      split: sum.splits dest: setup_body_result)

lemma run_instance_setup_reports:
  "reports (snd (run_instance_setup e ts pred rm fr run out mode t w)) =
     (case fst (run_instance_setup e ts pred rm fr run out mode t w) of
        Inr (Some (i, Some r)) \<Rightarrow>
          (reports w)([out, run, replace_slash (model_name_or_path pred), ts_instance_id ts, ''report.json'']
                       \<mapsto> Report r)
      | _ \<Rightarrow> reports w)"
proof (cases "reports w [out, run, replace_slash (model_name_or_path pred), ts_instance_id ts, ''report.json'']")
  case None
  show ?thesis
    unfolding run_instance_setup_fresh [OF None]
    by (simp add: Let_def setup_try_reports split_beta split: sum.splits option.splits)
next
  case (Some f)
  show ?thesis
    unfolding run_instance_setup_stored [OF Some]
    using Some by (auto split: report_file.splits)
qed

lemma run_instance_setup_graded:
  assumes "fst (run_instance_setup e ts pred rm fr run out mode t w) = Inr (Some (i, Some r))"
  shows "i = ts_instance_id ts \<and>
         reports (snd (run_instance_setup e ts pred rm fr run out mode t w))
           [out, run, replace_slash (model_name_or_path pred), ts_instance_id ts, ''report.json''] = Some (Report r)"
proof (cases "reports w [out, run, replace_slash (model_name_or_path pred), ts_instance_id ts, ''report.json'']")
  case None
  let ?ld = "[out, run, replace_slash (model_name_or_path pred), ts_instance_id ts]"
  let ?lf = "?ld @ [run_instance_log_name mode]"
  let ?T = "setup_try e ts pred rm fr run ?ld ?lf (?ld @ [''report.json'']) mode t (setup_logger e ?lf w)"
  from assms have r: "fst (snd ?T) = Inr (i, Some r)"
    unfolding run_instance_setup_fresh [OF None]
    by (simp add: Let_def split: sum.splits)
  from setup_try_result [OF r] have "i = ts_instance_id ts" by simp
  moreover have "reports (snd (run_instance_setup e ts pred rm fr run out mode t w))
           [out, run, replace_slash (model_name_or_path pred), ts_instance_id ts, ''report.json''] = Some (Report r)"
    unfolding run_instance_setup_reports using assms by simp
  ultimately show ?thesis by simp
next
  case (Some f)
  from assms show ?thesis
    unfolding run_instance_setup_stored [OF Some]
    using Some by (auto split: report_file.splits)
qed

text \<open>
  Claim C2. When report.json holds a report map, run_instance_setup returns it at once
  and leaves the whole state as it was (no engine call, no file written); no invocation
  changes a report.json that exists; and an invocation that returned a graded report
  returns the same report, with no effect, when it is run again (with whatever engine
  answers, flags and mode).
\<close>

theorem stored_report_is_returned_and_kept:
  "(reports w [out, run, replace_slash (model_name_or_path pred), ts_instance_id ts, ''report.json'']
      = Some (Report r) \<longrightarrow>
      run_instance_setup e ts pred rm fr run out mode t w = (Inr (Some (ts_instance_id ts, Some r)), w)) \<and>
   (reports w p = Some f \<longrightarrow>
      reports (snd (run_instance_setup e ts pred rm fr run out mode t w)) p = Some f) \<and>
   (run_instance_setup e ts pred rm fr run out mode t w = (Inr (Some (i, Some r')), w1) \<longrightarrow>
      run_instance_setup e' ts pred rm' fr' run out mode' t' w1 = (Inr (Some (i, Some r')), w1))"
proof (intro conjI impI)
  assume "reports w [out, run, replace_slash (model_name_or_path pred), ts_instance_id ts, ''report.json'']
      = Some (Report r)"
  then show "run_instance_setup e ts pred rm fr run out mode t w = (Inr (Some (ts_instance_id ts, Some r)), w)"
    by (simp add: run_instance_setup_stored)
next
  assume p: "reports w p = Some f"
  show "reports (snd (run_instance_setup e ts pred rm fr run out mode t w)) p = Some f"
  proof (cases "reports w [out, run, replace_slash (model_name_or_path pred), ts_instance_id ts, ''report.json'']")
    case None
    then have "p \<noteq> [out, run, replace_slash (model_name_or_path pred), ts_instance_id ts, ''report.json'']"
      using p by auto
    then show ?thesis
      unfolding run_instance_setup_reports using p
      by (simp split: sum.splits option.splits prod.splits)
  next
    case (Some g)
    show ?thesis
      unfolding run_instance_setup_stored [OF Some] using p by (simp split: report_file.splits)
  qed
next
  assume a: "run_instance_setup e ts pred rm fr run out mode t w = (Inr (Some (i, Some r')), w1)"
  then have "fst (run_instance_setup e ts pred rm fr run out mode t w) = Inr (Some (i, Some r'))"
    and w1: "w1 = snd (run_instance_setup e ts pred rm fr run out mode t w)" by simp_all
  from run_instance_setup_graded [OF this(1)] w1
  have "i = ts_instance_id ts" and
    "reports w1 [out, run, replace_slash (model_name_or_path pred), ts_instance_id ts, ''report.json''] = Some (Report r')"
    by simp_all
  then show "run_instance_setup e' ts pred rm' fr' run out mode' t' w1 = (Inr (Some (i, Some r')), w1)"
    by (simp add: run_instance_setup_stored)
qed

text \<open>The two theorems above at the concrete task \<open>t1\<close>.\<close>

theorem container_released_exactly_once_witness:
  "releases ''c1'' (snd (run_instance_setup ex_engine_both_fail ex_spec ex_pred True False ''r1'' ''out''
      ''apply_patch'' None ex_world)) = 1 \<and>
   releases ''c1'' (snd (run_instance_setup ex_engine_no_build ex_spec ex_pred True False ''r1'' ''out''
      ''apply_patch'' None ex_world)) = 0 \<and>
   releases ''c1'' (snd (run_instance ex_engine_both_fail ex_spec ex_pred True False ''r1'' (PathArg ''out'') None
      ex_world)) = 1"
  using container_released_exactly_once [where c = "''c1''" and e = ex_engine_both_fail and ts = ex_spec
          and pred = ex_pred and rm = True and fr = False and run = "''r1''" and out = "''out''"
          and mode = "''apply_patch''" and t = None and w = ex_world]
        container_released_exactly_once [where c = "''c1''" and e = ex_engine_no_build and ts = ex_spec
          and pred = ex_pred and rm = True and fr = False and run = "''r1''" and out = "''out''"
          and mode = "''apply_patch''" and t = None and w = ex_world]
  by (simp add: ex_world_def ex_engine_both_fail_def ex_engine_no_build_def ex_engine_def releases_def)

theorem stored_report_is_returned_and_kept_witness:
  "reports ex_world_done [''out'', ''r1'', ''m'', ''t1'', ''report.json''] = Some (Report ex_report) \<and>
   run_instance_setup ex_engine_no_build ex_spec ex_pred True False ''r1'' ''out'' ''apply_patch'' None
     ex_world_done = (Inr (Some (''t1'', Some ex_report)), ex_world_done) \<and>
   run_instance_setup ex_engine ex_spec ex_pred False True ''r1'' ''out'' ''not_apply_patch'' None
     ex_world_done = (Inr (Some (''t1'', Some ex_report)), ex_world_done)"
proof -
  have a: "reports ex_world_done [''out'', ''r1'', ''m'', ''t1'', ''report.json''] = Some (Report ex_report)"
    by (simp add: ex_world_done_def ex_dir_def)
  have s: "replace_slash (model_name_or_path ex_pred) = ''m''" "ts_instance_id ex_spec = ''t1''"
    by (simp_all add: ex_pred_def ex_spec_def)
  note inst = stored_report_is_returned_and_kept [where w = ex_world_done and out = "''out''"
        and run = "''r1''" and pred = ex_pred and ts = ex_spec and r = ex_report
        and e = ex_engine_no_build and rm = True and fr = False and mode = "''apply_patch''" and t = None
        and i = "''t1''" and r' = ex_report and ?w1.0 = ex_world_done
        and e' = ex_engine and rm' = False and fr' = True and mode' = "''not_apply_patch''" and t' = None]
  have b: "run_instance_setup ex_engine_no_build ex_spec ex_pred True False ''r1'' ''out'' ''apply_patch'' None
     ex_world_done = (Inr (Some (''t1'', Some ex_report)), ex_world_done)"
    using inst a s by simp
  then have "run_instance_setup ex_engine ex_spec ex_pred False True ''r1'' ''out'' ''not_apply_patch'' None
     ex_world_done = (Inr (Some (''t1'', Some ex_report)), ex_world_done)"
    using inst by blast
  then show ?thesis using a b by simp
qed

section \<open>Patch application\<close>

lemma apply_patch_calls:
  "calls (snd (apply_patch e i lf c w)) =
     calls w @ ExecRun c git_apply_cmd #
       (case git_apply_result e of
          Inl x \<Rightarrow> []
        | Inr v \<Rightarrow> if fst v \<noteq> 0 then [ExecRun c patch_fuzz_cmd] else [])"
  by (auto simp: apply_patch_def exec_run_def split: sum.splits)

lemma apply_patch_result:
  "fst (apply_patch e i lf c w) =
     (case git_apply_result e of
        Inl x \<Rightarrow> Inl x
      | Inr v \<Rightarrow>
          if fst v \<noteq> 0
          then (case patch_fuzz_result e of
                  Inl x \<Rightarrow> Inl x
                | Inr v2 \<Rightarrow> if fst v2 \<noteq> 0 then Inl (EvaluationError i (msg_apply_fail (snd v2)))
                            else Inr ())
          else Inr ())"
  by (auto simp: apply_patch_def exec_run_def split: sum.splits)

lemma setup_body_strict:
  assumes "mode \<noteq> ''not_apply_patch''" "start_result e = None" "copy_patch_result e = None"
    "git_apply_result e = Inr (0, o1)" "copy_eval_result e = None"
  shows "calls (snd (setup_body e ts pred ld lf rp mode t c w)) =
     calls w @ [StartContainer c,
                CopyToContainer c (path_str (ld @ [''patch.diff''])) ''/tmp/patch.diff'',
                ExecRun c git_apply_cmd,
                CopyToContainer c (path_str (ld @ [''eval.sh''])) ''/eval.sh'',
                ExecRunWithTimeout c eval_cmd t]"
  using assms
  by (simp add: setup_body_def Let_def container_start_eq copy_to_container_eq
        exec_run_with_timeout_def snd_and_then fst_and_then apply_patch_calls apply_patch_result
      split: sum.splits)

lemma setup_body_fuzzy:
  assumes "mode \<noteq> ''not_apply_patch''" "start_result e = None" "copy_patch_result e = None"
    "git_apply_result e = Inr (rc1, o1)" "rc1 \<noteq> 0" "patch_fuzz_result e = Inr (0, o2)"
    "copy_eval_result e = None"
  shows "calls (snd (setup_body e ts pred ld lf rp mode t c w)) =
     calls w @ [StartContainer c,
                CopyToContainer c (path_str (ld @ [''patch.diff''])) ''/tmp/patch.diff'',
                ExecRun c git_apply_cmd, ExecRun c patch_fuzz_cmd,
                CopyToContainer c (path_str (ld @ [''eval.sh''])) ''/eval.sh'',
                ExecRunWithTimeout c eval_cmd t]"
  using assms
  by (simp add: setup_body_def Let_def container_start_eq copy_to_container_eq
        exec_run_with_timeout_def snd_and_then fst_and_then apply_patch_calls apply_patch_result
      split: sum.splits)

lemma setup_body_not_applied:
  assumes "mode \<noteq> ''not_apply_patch''" "start_result e = None" "copy_patch_result e = None"
    "git_apply_result e = Inr (rc1, o1)" "rc1 \<noteq> 0" "patch_fuzz_result e = Inr (rc2, o2)" "rc2 \<noteq> 0"
  shows "calls (snd (setup_body e ts pred ld lf rp mode t c w)) =
     calls w @ [StartContainer c,
                CopyToContainer c (path_str (ld @ [''patch.diff''])) ''/tmp/patch.diff'',
                ExecRun c git_apply_cmd, ExecRun c patch_fuzz_cmd]"
    and "fst (setup_body e ts pred ld lf rp mode t c w) =
           Inl (EvaluationError (ts_instance_id ts) (msg_apply_fail o2))"
  using assms
  by (simp_all add: setup_body_def Let_def container_start_eq copy_to_container_eq
        exec_run_with_timeout_def snd_and_then fst_and_then apply_patch_calls apply_patch_result)

lemma finally_cleanup_calls:
  "calls (finally_cleanup ts rm container w) =
     calls w @ (case container of None \<Rightarrow> [] | Some c \<Rightarrow> [StopRemoveContainer c]) @
     (if rm then [RemoveImage (instance_image_key ts)] else [])"
  by (auto simp: finally_cleanup_def close_logger_def cleanup_container_def remove_image_def
      split: option.splits)

lemma setup_try_built:
  assumes "build_result e = Inr c"
  shows "setup_try e ts pred rm fr run ld lf rp mode t w =
     (Some c, setup_body e ts pred ld lf rp mode t c
        ((record_call (BuildContainer (instance_image_key ts) run rm fr) w)
           \<lparr>containers := c # containers w\<rparr>))"
  using assms by (simp add: setup_try_def build_setup_container_def Let_def)

lemma setup_try_not_built:
  assumes "build_result e = Inl x"
  shows "setup_try e ts pred rm fr run ld lf rp mode t w =
     (None, Inl x, record_call (BuildContainer (instance_image_key ts) run rm fr) w)"
  using assms by (simp add: setup_try_def build_setup_container_def Let_def)

lemma new_calls_append [simp]: "calls w' = calls w @ xs \<Longrightarrow> new_calls w w' = xs"
  by (simp add: new_calls_def)

lemma run_instance_setup_calls:
  assumes "reports w [out, run, replace_slash (model_name_or_path pred), ts_instance_id ts, ''report.json''] = None"
    and "build_result e = Inr c"
  shows "calls (snd (run_instance_setup e ts pred rm fr run out mode t w)) =
     calls (snd (setup_body e ts pred
        [out, run, replace_slash (model_name_or_path pred), ts_instance_id ts]
        ([out, run, replace_slash (model_name_or_path pred), ts_instance_id ts] @ [run_instance_log_name mode])
        ([out, run, replace_slash (model_name_or_path pred), ts_instance_id ts] @ [''report.json''])
        mode t c
        ((record_call (BuildContainer (instance_image_key ts) run rm fr)
            (setup_logger e ([out, run, replace_slash (model_name_or_path pred), ts_instance_id ts] @
                             [run_instance_log_name mode]) w))
           \<lparr>containers := c # containers w\<rparr>))) @
     StopRemoveContainer c # (if rm then [RemoveImage (instance_image_key ts)] else [])"
  unfolding run_instance_setup_fresh [OF assms(1)]
  by (simp add: Let_def setup_try_built [OF assms(2)] finally_cleanup_calls split: sum.splits)

lemma run_instance_setup_outcome:
  assumes "reports w [out, run, replace_slash (model_name_or_path pred), ts_instance_id ts, ''report.json''] = None"
  shows "fst (run_instance_setup e ts pred rm fr run out mode t w) =
     (case fst (snd (setup_try e ts pred rm fr run
                  [out, run, replace_slash (model_name_or_path pred), ts_instance_id ts]
                  ([out, run, replace_slash (model_name_or_path pred), ts_instance_id ts] @ [run_instance_log_name mode])
                  ([out, run, replace_slash (model_name_or_path pred), ts_instance_id ts] @ [''report.json''])
                  mode t
                  (setup_logger e ([out, run, replace_slash (model_name_or_path pred), ts_instance_id ts] @
                             [run_instance_log_name mode]) w))) of
        Inl x \<Rightarrow> Inr None | Inr v \<Rightarrow> Inr (Some v))"
  unfolding run_instance_setup_fresh [OF assms]
  by (simp add: Let_def split: sum.splits)

text \<open>
  Claim C5, as amended. In patched mode, once the container is built and started and the
  patch file copied, the engine calls of an invocation are exactly these. When the strict
  apply (git apply) exits 0: that one attempt, then the copy of the eval script and its
  execution. When it exits non-zero and the fuzzy apply (patch --batch --fuzz=5) exits 0:
  one strict and one fuzzy attempt, then the copy and the execution. When both exit
  non-zero: one strict and one fuzzy attempt and no execution; the try block raises
  EvaluationError whose message is the patch-failed marker followed by the output of the
  fuzzy attempt alone, and the function returns None. The container is released last on
  each path.
\<close>

theorem patch_strict_then_fuzzy:
  assumes fresh: "reports w [out, run, replace_slash (model_name_or_path pred), ts_instance_id ts, ''report.json''] = None"
    and patched: "mode \<noteq> ''not_apply_patch''"
    and built: "build_result e = Inr c"
    and started: "start_result e = None"
    and copied: "copy_patch_result e = None"
  shows
    "(git_apply_result e = Inr (0, o1) \<and> copy_eval_result e = None \<longrightarrow>
        new_calls w (snd (run_instance_setup e ts pred rm fr run out mode t w)) =
          [BuildContainer (instance_image_key ts) run rm fr, StartContainer c,
           CopyToContainer c (path_str [out, run, replace_slash (model_name_or_path pred), ts_instance_id ts, ''patch.diff''])
             ''/tmp/patch.diff'',
           ExecRun c git_apply_cmd,
           CopyToContainer c (path_str [out, run, replace_slash (model_name_or_path pred), ts_instance_id ts, ''eval.sh''])
             ''/eval.sh'',
           ExecRunWithTimeout c eval_cmd t,
           StopRemoveContainer c] @ (if rm then [RemoveImage (instance_image_key ts)] else [])) \<and>
     (git_apply_result e = Inr (rc1, o1) \<and> rc1 \<noteq> 0 \<and> patch_fuzz_result e = Inr (0, o2) \<and>
      copy_eval_result e = None \<longrightarrow>
        new_calls w (snd (run_instance_setup e ts pred rm fr run out mode t w)) =
          [BuildContainer (instance_image_key ts) run rm fr, StartContainer c,
           CopyToContainer c (path_str [out, run, replace_slash (model_name_or_path pred), ts_instance_id ts, ''patch.diff''])
             ''/tmp/patch.diff'',
           ExecRun c git_apply_cmd, ExecRun c patch_fuzz_cmd,
           CopyToContainer c (path_str [out, run, replace_slash (model_name_or_path pred), ts_instance_id ts, ''eval.sh''])
             ''/eval.sh'',
           ExecRunWithTimeout c eval_cmd t,
           StopRemoveContainer c] @ (if rm then [RemoveImage (instance_image_key ts)] else [])) \<and>
     (git_apply_result e = Inr (rc1, o1) \<and> rc1 \<noteq> 0 \<and> patch_fuzz_result e = Inr (rc2, o2) \<and> rc2 \<noteq> 0 \<longrightarrow>
        new_calls w (snd (run_instance_setup e ts pred rm fr run out mode t w)) =
          [BuildContainer (instance_image_key ts) run rm fr, StartContainer c,
           CopyToContainer c (path_str [out, run, replace_slash (model_name_or_path pred), ts_instance_id ts, ''patch.diff''])
             ''/tmp/patch.diff'',
           ExecRun c git_apply_cmd, ExecRun c patch_fuzz_cmd,
           StopRemoveContainer c] @ (if rm then [RemoveImage (instance_image_key ts)] else []) \<and>
        fst (snd (setup_try e ts pred rm fr run
               [out, run, replace_slash (model_name_or_path pred), ts_instance_id ts]
               [out, run, replace_slash (model_name_or_path pred), ts_instance_id ts, run_instance_log_name mode]
               [out, run, replace_slash (model_name_or_path pred), ts_instance_id ts, ''report.json'']
               mode t
               (setup_logger e [out, run, replace_slash (model_name_or_path pred), ts_instance_id ts,
                                run_instance_log_name mode] w))) =
          Inl (EvaluationError (ts_instance_id ts) (APPLY_PATCH_FAIL @ '':'' @ nl @ o2)) \<and>
        fst (run_instance_setup e ts pred rm fr run out mode t w) = Inr None)"
proof (intro conjI impI)
  assume a: "git_apply_result e = Inr (0, o1) \<and> copy_eval_result e = None"
  show "new_calls w (snd (run_instance_setup e ts pred rm fr run out mode t w)) =
          [BuildContainer (instance_image_key ts) run rm fr, StartContainer c,
           CopyToContainer c (path_str [out, run, replace_slash (model_name_or_path pred), ts_instance_id ts, ''patch.diff''])
             ''/tmp/patch.diff'',
           ExecRun c git_apply_cmd,
           CopyToContainer c (path_str [out, run, replace_slash (model_name_or_path pred), ts_instance_id ts, ''eval.sh''])
             ''/eval.sh'',
           ExecRunWithTimeout c eval_cmd t,
           StopRemoveContainer c] @ (if rm then [RemoveImage (instance_image_key ts)] else [])"
    using a by (intro new_calls_append)
      (simp add: run_instance_setup_calls [OF fresh built]
         setup_body_strict [OF patched started copied])
next
  assume a: "git_apply_result e = Inr (rc1, o1) \<and> rc1 \<noteq> 0 \<and> patch_fuzz_result e = Inr (0, o2) \<and>
      copy_eval_result e = None"
  show "new_calls w (snd (run_instance_setup e ts pred rm fr run out mode t w)) =
          [BuildContainer (instance_image_key ts) run rm fr, StartContainer c,
           CopyToContainer c (path_str [out, run, replace_slash (model_name_or_path pred), ts_instance_id ts, ''patch.diff''])
             ''/tmp/patch.diff'',
           ExecRun c git_apply_cmd, ExecRun c patch_fuzz_cmd,
           CopyToContainer c (path_str [out, run, replace_slash (model_name_or_path pred), ts_instance_id ts, ''eval.sh''])
             ''/eval.sh'',
           ExecRunWithTimeout c eval_cmd t,
           StopRemoveContainer c] @ (if rm then [RemoveImage (instance_image_key ts)] else [])"
    using a by (intro new_calls_append)
      (simp add: run_instance_setup_calls [OF fresh built]
         setup_body_fuzzy [OF patched started copied])
next
  assume a: "git_apply_result e = Inr (rc1, o1) \<and> rc1 \<noteq> 0 \<and> patch_fuzz_result e = Inr (rc2, o2) \<and> rc2 \<noteq> 0"
  then have g: "git_apply_result e = Inr (rc1, o1)" "rc1 \<noteq> 0" "patch_fuzz_result e = Inr (rc2, o2)" "rc2 \<noteq> 0"
    by simp_all
  note na = setup_body_not_applied [OF patched started copied g]
  show "new_calls w (snd (run_instance_setup e ts pred rm fr run out mode t w)) =
          [BuildContainer (instance_image_key ts) run rm fr, StartContainer c,
           CopyToContainer c (path_str [out, run, replace_slash (model_name_or_path pred), ts_instance_id ts, ''patch.diff''])
             ''/tmp/patch.diff'',
           ExecRun c git_apply_cmd, ExecRun c patch_fuzz_cmd,
           StopRemoveContainer c] @ (if rm then [RemoveImage (instance_image_key ts)] else [])"
    by (intro new_calls_append) (simp add: run_instance_setup_calls [OF fresh built] na)
  show e: "fst (snd (setup_try e ts pred rm fr run
               [out, run, replace_slash (model_name_or_path pred), ts_instance_id ts]
               [out, run, replace_slash (model_name_or_path pred), ts_instance_id ts, run_instance_log_name mode]
               [out, run, replace_slash (model_name_or_path pred), ts_instance_id ts, ''report.json'']
               mode t
               (setup_logger e [out, run, replace_slash (model_name_or_path pred), ts_instance_id ts,
                                run_instance_log_name mode] w))) =
          Inl (EvaluationError (ts_instance_id ts) (APPLY_PATCH_FAIL @ '':'' @ nl @ o2))"
    by (simp add: setup_try_built [OF built] na msg_apply_fail_def)
  show "fst (run_instance_setup e ts pred rm fr run out mode t w) = Inr None"
    using e by (simp add: run_instance_setup_outcome [OF fresh])
qed

lemma ex_both_fail_log:
  "files (snd (run_instance_setup ex_engine_both_fail ex_spec ex_pred True False ''r1'' ''out''
      ''apply_patch'' None ex_world)) ex_log_path = Some ex_failed_log"
  by (simp add: run_instance_setup_def Let_def ex_world_def ex_pred_def ex_spec_def
      ex_engine_both_fail_def ex_engine_def setup_try_def build_setup_container_def setup_body_def
      container_start_eq copy_to_container_eq apply_patch_def exec_run_def handle_exception_def
      run_instance_log_name_def ex_log_path_def ex_dir_def file_text_def
      ex_failed_log_def ex_error_msg_def)

lemma ex_both_fail_stdout:
  "stdout (snd (run_instance_setup ex_engine_both_fail ex_spec ex_pred True False ''r1'' ''out''
      ''apply_patch'' None ex_world)) = [ex_error_msg]"
  by (simp add: run_instance_setup_def Let_def ex_world_def ex_pred_def ex_spec_def
      ex_engine_both_fail_def ex_engine_def setup_try_def build_setup_container_def setup_body_def
      container_start_eq copy_to_container_eq apply_patch_def exec_run_def handle_exception_def
      run_instance_log_name_def ex_log_path_def ex_dir_def file_text_def
      ex_failed_log_def ex_error_msg_def)

lemma ex_strict_nowhere:
  "\<not> str_in ex_strict_output ex_failed_log" "\<not> str_in ex_strict_output ex_error_msg"
  "str_in ex_fuzzy_output ex_failed_log"
  by code_simp+

lemma apply_patch_extends:
  "\<exists>evs. calls (snd (apply_patch e i lf c w)) = calls w @ evs"
  by (simp add: apply_patch_calls)

lemma setup_body_extends:
  "\<exists>evs. calls (snd (setup_body e ts pred ld lf rp mode t c w)) = calls w @ evs"
  by (auto simp: setup_body_def Let_def container_start_eq copy_to_container_eq
        exec_run_with_timeout_def snd_and_then fst_and_then apply_patch_calls
      split: sum.splits option.splits)

text \<open>
  Claim C5 as stated fails: when both attempts fail, the diagnostic of the strict attempt
  is in neither the exception, nor the log file, nor the printed message.
\<close>

theorem patch_diagnostic_counterexample:
  "fst (snd (setup_try ex_engine_both_fail ex_spec ex_pred True False ''r1'' ex_dir ex_log_path
               (ex_dir @ [''report.json'']) ''apply_patch'' None
               (setup_logger ex_engine_both_fail ex_log_path ex_world))) =
     Inl (EvaluationError ''t1'' (APPLY_PATCH_FAIL @ '':'' @ nl @ ex_fuzzy_output)) \<and>
   \<not> str_in ex_strict_output (APPLY_PATCH_FAIL @ '':'' @ nl @ ex_fuzzy_output) \<and>
   files (snd (run_instance_setup ex_engine_both_fail ex_spec ex_pred True False ''r1'' ''out''
      ''apply_patch'' None ex_world)) ex_log_path = Some ex_failed_log \<and>
   \<not> str_in ex_strict_output ex_failed_log \<and>
   stdout (snd (run_instance_setup ex_engine_both_fail ex_spec ex_pred True False ''r1'' ''out''
      ''apply_patch'' None ex_world)) = [ex_error_msg] \<and>
   \<not> str_in ex_strict_output ex_error_msg"
proof -
  have b: "build_result ex_engine_both_fail = Inr ''c1''"
    by (simp add: ex_engine_both_fail_def ex_engine_def)
  have "fst (snd (setup_try ex_engine_both_fail ex_spec ex_pred True False ''r1'' ex_dir ex_log_path
               (ex_dir @ [''report.json'']) ''apply_patch'' None
               (setup_logger ex_engine_both_fail ex_log_path ex_world))) =
     Inl (EvaluationError ''t1'' (APPLY_PATCH_FAIL @ '':'' @ nl @ ex_fuzzy_output))"
    unfolding setup_try_built [OF b]
    by (simp add: setup_body_not_applied(2) [where ?rc1.0 = 1 and ?o1.0 = ex_strict_output
          and ?rc2.0 = 1 and ?o2.0 = ex_fuzzy_output]
        ex_engine_both_fail_def ex_engine_def ex_spec_def msg_apply_fail_def)
  moreover have "\<not> str_in ex_strict_output (APPLY_PATCH_FAIL @ '':'' @ nl @ ex_fuzzy_output)"
    by code_simp
  ultimately show ?thesis
    using ex_both_fail_log ex_both_fail_stdout ex_strict_nowhere by simp
qed

theorem patch_strict_then_fuzzy_witness:
  "new_calls ex_world (snd (run_instance_setup ex_engine_fuzzy ex_spec ex_pred True False ''r1'' ''out''
      ''apply_patch'' None ex_world)) =
     [BuildContainer ''img:t1'' ''r1'' True False, StartContainer ''c1'',
      CopyToContainer ''c1'' ''out/r1/m/t1/patch.diff'' ''/tmp/patch.diff'',
      ExecRun ''c1'' git_apply_cmd, ExecRun ''c1'' patch_fuzz_cmd,
      CopyToContainer ''c1'' ''out/r1/m/t1/eval.sh'' ''/eval.sh'',
      ExecRunWithTimeout ''c1'' eval_cmd None,
      StopRemoveContainer ''c1'', RemoveImage ''img:t1'']"
  using patch_strict_then_fuzzy [where w = ex_world and out = "''out''" and run = "''r1''"
      and pred = ex_pred and ts = ex_spec and mode = "''apply_patch''" and e = ex_engine_fuzzy
      and c = "''c1''" and ?rc1.0 = 1 and ?o1.0 = ex_strict_output and ?o2.0 = "''patching file a.py''"
      and rm = True and fr = False and t = None]
  by (simp add: ex_world_def ex_engine_fuzzy_def ex_engine_def ex_pred_def ex_spec_def)

section \<open>The run report\<close>

lemma report_step_bucket:
  "report_step predictions run out w instance b =
     (case bucket_of predictions run out w (inst_instance_id instance) of
        Inl x \<Rightarrow> Inl x
      | Inr Incomplete \<Rightarrow> Inr (b\<lparr>incomplete_ids := insert (id_version instance) (incomplete_ids b)\<rparr>)
      | Inr EmptyPatch \<Rightarrow> Inr (b\<lparr>empty_patch_ids := insert (id_version instance) (empty_patch_ids b)\<rparr>)
      | Inr Resolved \<Rightarrow>
          Inr (b\<lparr>completed_ids := insert (id_version instance) (completed_ids b),
                  resolved_ids := insert (id_version instance) (resolved_ids b)\<rparr>)
      | Inr Unresolved \<Rightarrow>
          Inr (b\<lparr>completed_ids := insert (id_version instance) (completed_ids b),
                  unresolved_ids := insert (id_version instance) (unresolved_ids b)\<rparr>)
      | Inr Error \<Rightarrow> Inr (b\<lparr>error_ids := insert (id_version instance) (error_ids b)\<rparr>))"
  by (simp add: report_step_def bucket_of_def Let_def
      split: option.splits report_file.splits)

lemma report_step_ids:
  assumes "report_step predictions run out w instance b = Inr b'"
  shows "\<exists>k. bucket_of predictions run out w (inst_instance_id instance) = Inr k \<and>
           (\<forall>k'. bucket_ids k' b' = bucket_ids k' b \<union> (if k' = k then {id_version instance} else {}))"
proof -
  from assms obtain k where k: "bucket_of predictions run out w (inst_instance_id instance) = Inr k"
    by (auto simp: report_step_bucket split: sum.splits)
  have "\<forall>k'. bucket_ids k' b' = bucket_ids k' b \<union> (if k' = k then {id_version instance} else {})"
  proof
    fix k' show "bucket_ids k' b' = bucket_ids k' b \<union> (if k' = k then {id_version instance} else {})"
      using assms k by (cases k; cases k') (auto simp: report_step_bucket)
  qed
  with k show ?thesis by blast
qed

lemma report_loop_ids:
  "report_loop predictions run out w ds b = Inr b' \<Longrightarrow>
     (\<forall>i \<in> set ds. \<exists>k. bucket_of predictions run out w (inst_instance_id i) = Inr k) \<and>
     (\<forall>k. bucket_ids k b' = bucket_ids k b \<union>
            {id_version i | i. i \<in> set ds \<and> bucket_of predictions run out w (inst_instance_id i) = Inr k})"
proof (induction ds arbitrary: b)
  case Nil
  then show ?case by simp
next
  case (Cons d ds)
  from Cons.prems obtain b1 where
    s: "report_step predictions run out w d b = Inr b1" and
    l: "report_loop predictions run out w ds b1 = Inr b'"
    by (auto split: sum.splits)
  from report_step_ids [OF s] obtain k0 where
    k0: "bucket_of predictions run out w (inst_instance_id d) = Inr k0" and
    b1: "\<And>k'. bucket_ids k' b1 = bucket_ids k' b \<union> (if k' = k0 then {id_version d} else {})"
    by blast
  from Cons.IH [OF l] have
    ih1: "\<forall>i \<in> set ds. \<exists>k. bucket_of predictions run out w (inst_instance_id i) = Inr k" and
    ih2: "\<And>k. bucket_ids k b' = bucket_ids k b1 \<union>
            {id_version i | i. i \<in> set ds \<and> bucket_of predictions run out w (inst_instance_id i) = Inr k}"
    by blast+
  have "\<forall>k. bucket_ids k b' = bucket_ids k b \<union>
            {id_version i | i. i \<in> set (d # ds) \<and> bucket_of predictions run out w (inst_instance_id i) = Inr k}"
  proof
    fix k show "bucket_ids k b' = bucket_ids k b \<union>
            {id_version i | i. i \<in> set (d # ds) \<and> bucket_of predictions run out w (inst_instance_id i) = Inr k}"
      unfolding ih2 [of k] b1 [of k] using k0 by auto
  qed
  with ih1 k0 show ?case by auto
qed

lemma report_loop_returns:
  "(\<forall>i \<in> set ds. \<exists>k. bucket_of predictions run out w (inst_instance_id i) = Inr k) \<Longrightarrow>
     \<exists>b'. report_loop predictions run out w ds b = Inr b'"
proof (induction ds arbitrary: b)
  case Nil
  then show ?case by simp
next
  case (Cons d ds)
  then obtain k where "bucket_of predictions run out w (inst_instance_id d) = Inr k" by auto
  then obtain b1 where "report_step predictions run out w d b = Inr b1"
    by (cases k) (auto simp: report_step_bucket)
  then show ?case using Cons.IH [of b1] Cons.prems by auto
qed

lemma unremoved_returns:
  "(\<forall>i \<in> set ds. \<forall>p. map_of predictions (inst_instance_id i) = Some p \<longrightarrow> mts i p \<noteq> None) \<Longrightarrow>
     \<exists>s. unremoved mts predictions w ds = Inr s"
  by (induction ds) (auto split: option.splits)

lemma make_run_report_ids:
  "make_run_report mts predictions full_dataset run out w = Inr rep \<Longrightarrow>
     report_loop predictions run out w full_dataset no_ids = Inr (ids rep)"
  by (auto simp: make_run_report_def split: sum.splits list.splits)

lemma bucket_ids_no_ids [simp]: "bucket_ids k no_ids = {}"
  by (cases k) (simp_all add: no_ids_def)

lemma partitions_iff:
  "partitions b target \<longleftrightarrow>
     (\<Union>k. bucket_ids k b) = target \<and> (\<forall>k k'. k \<noteq> k' \<longrightarrow> bucket_ids k b \<inter> bucket_ids k' b = {})"
proof -
  have U: "(UNIV :: bucket set) = {Incomplete, EmptyPatch, Resolved, Unresolved, Error}"
    using bucket.exhaust by auto
  have "(\<Union>k. bucket_ids k b) = \<Union> (set (five_buckets b))"
    unfolding U by (auto simp: five_buckets_def)
  moreover have "(\<forall>k k'. k \<noteq> k' \<longrightarrow> bucket_ids k b \<inter> bucket_ids k' b = {}) \<longleftrightarrow>
     (incomplete_ids b \<inter> empty_patch_ids b = {} \<and> incomplete_ids b \<inter> resolved_ids b = {} \<and>
      incomplete_ids b \<inter> unresolved_ids b = {} \<and> incomplete_ids b \<inter> error_ids b = {} \<and>
      empty_patch_ids b \<inter> resolved_ids b = {} \<and> empty_patch_ids b \<inter> unresolved_ids b = {} \<and>
      empty_patch_ids b \<inter> error_ids b = {} \<and> resolved_ids b \<inter> unresolved_ids b = {} \<and>
      resolved_ids b \<inter> error_ids b = {} \<and> unresolved_ids b \<inter> error_ids b = {})"
    (is "?A \<longleftrightarrow> ?B")
  proof
    assume a: ?A
    show ?B
      using a [rule_format, of Incomplete EmptyPatch] a [rule_format, of Incomplete Resolved]
        a [rule_format, of Incomplete Unresolved] a [rule_format, of Incomplete Error]
        a [rule_format, of EmptyPatch Resolved] a [rule_format, of EmptyPatch Unresolved]
        a [rule_format, of EmptyPatch Error] a [rule_format, of Resolved Unresolved]
        a [rule_format, of Resolved Error] a [rule_format, of Unresolved Error]
      by simp
  next
    assume b: ?B
    show ?A
    proof (intro allI impI)
      fix k k' :: bucket assume "k \<noteq> k'"
      then show "bucket_ids k b \<inter> bucket_ids k' b = {}"
        using b by (cases k; cases k') (simp_all add: Int_commute)
    qed
  qed
  ultimately show ?thesis by (simp add: partitions_def)
qed

lemma report_loop_disjoint:
  assumes "labels_identify ds"
    and "report_loop predictions run out w ds no_ids = Inr b"
    and "k \<noteq> k'"
  shows "bucket_ids k b \<inter> bucket_ids k' b = {}"
proof (rule ccontr)
  let ?B = "\<lambda>i. bucket_of predictions run out w (inst_instance_id i)"
  from report_loop_ids [OF assms(2)] have
    eq: "\<And>k. bucket_ids k b = {id_version i | i. i \<in> set ds \<and> ?B i = Inr k}"
    by simp
  assume "bucket_ids k b \<inter> bucket_ids k' b \<noteq> {}"
  then obtain l where "l \<in> bucket_ids k b" "l \<in> bucket_ids k' b" by auto
  then obtain i j where
    i: "i \<in> set ds" "?B i = Inr k" "l = id_version i" and
    j: "j \<in> set ds" "?B j = Inr k'" "l = id_version j"
    unfolding eq by auto
  from assms(1) i j have "inst_instance_id i = inst_instance_id j"
    unfolding labels_identify_def by metis
  with i j assms(3) show False by simp
qed

lemma report_step_completed:
  assumes "report_step predictions run out w instance b = Inr b'"
  shows "completed_ids b' = completed_ids b \<union>
           (if bucket_of predictions run out w (inst_instance_id instance) \<in> {Inr Resolved, Inr Unresolved}
            then {id_version instance} else {})"
  using assms by (auto simp: report_step_bucket split: sum.splits bucket.splits)

lemma report_loop_completed:
  "report_loop predictions run out w ds b = Inr b' \<Longrightarrow>
     completed_ids b' = completed_ids b \<union>
       {id_version i | i. i \<in> set ds \<and>
          bucket_of predictions run out w (inst_instance_id i) \<in> {Inr Resolved, Inr Unresolved}}"
proof (induction ds arbitrary: b)
  case Nil
  then show ?case by simp
next
  case (Cons d ds)
  from Cons.prems obtain b1 where
    s: "report_step predictions run out w d b = Inr b1" and
    l: "report_loop predictions run out w ds b1 = Inr b'"
    by (auto split: sum.splits)
  show ?case
    unfolding Cons.IH [OF l] report_step_completed [OF s] by auto
qed

lemma make_run_report_returns:
  assumes "predictions \<noteq> []"
    and "\<forall>i \<in> set full_dataset. \<exists>k. bucket_of predictions run out w (inst_instance_id i) = Inr k"
    and "\<forall>i \<in> set full_dataset. \<forall>p. map_of predictions (inst_instance_id i) = Some p \<longrightarrow> mts i p \<noteq> None"
  shows "\<exists>rep. make_run_report mts predictions full_dataset run out w = Inr rep"
proof -
  from assms(2) obtain b where "report_loop predictions run out w full_dataset no_ids = Inr b"
    using report_loop_returns by blast
  moreover from assms(3) obtain s where "unremoved mts predictions w full_dataset = Inr s"
    using unremoved_returns by blast
  moreover from assms(1) obtain p ps where "predictions = p # ps" by (cases predictions) auto
  ultimately show ?thesis by (simp add: make_run_report_def)
qed

lemma bucket_of_reports:
  "reports w' = reports w \<Longrightarrow>
     bucket_of predictions run out w' i = bucket_of predictions run out w i"
  by (auto simp: bucket_of_def split: option.splits report_file.splits)

text \<open>
  Claim C3, as amended. Provided that different task ids of the full dataset never share
  the label instance_id + "_version-" + version under which the sets hold them: whenever
  make_run_report returns, the five sets incomplete, empty_patch, resolved, unresolved and
  error are pairwise disjoint and their union is the set of labels of the full dataset.
  It returns when the predictions are not empty, every report.json it reads parses and
  holds an entry for the instance id, and make_test_spec yields a spec for every task with
  a prediction.
\<close>

theorem run_report_partitions:
  assumes "labels_identify full_dataset"
  shows
    "(make_run_report mts predictions full_dataset run out w = Inr rep \<longrightarrow>
        partitions (ids rep) (id_version ` set full_dataset)) \<and>
     (predictions \<noteq> [] \<and>
      (\<forall>i \<in> set full_dataset. \<exists>k. bucket_of predictions run out w (inst_instance_id i) = Inr k) \<and>
      (\<forall>i \<in> set full_dataset. \<forall>p. map_of predictions (inst_instance_id i) = Some p \<longrightarrow> mts i p \<noteq> None)
        \<longrightarrow> (\<exists>rep'. make_run_report mts predictions full_dataset run out w = Inr rep'))"
proof (intro conjI impI)
  assume r: "make_run_report mts predictions full_dataset run out w = Inr rep"
  let ?B = "\<lambda>i. bucket_of predictions run out w (inst_instance_id i)"
  note loop = make_run_report_ids [OF r]
  from report_loop_ids [OF loop] have
    all: "\<forall>i \<in> set full_dataset. \<exists>k. ?B i = Inr k" and
    eq: "\<And>k. bucket_ids k (ids rep) = {id_version i | i. i \<in> set full_dataset \<and> ?B i = Inr k}"
    by simp_all
  have "(\<Union>k. bucket_ids k (ids rep)) = id_version ` set full_dataset"
    unfolding eq using all by fastforce
  moreover have "\<forall>k k'. k \<noteq> k' \<longrightarrow> bucket_ids k (ids rep) \<inter> bucket_ids k' (ids rep) = {}"
    using report_loop_disjoint [OF assms loop] by blast
  ultimately show "partitions (ids rep) (id_version ` set full_dataset)"
    by (simp add: partitions_iff)
next
  assume "predictions \<noteq> [] \<and>
      (\<forall>i \<in> set full_dataset. \<exists>k. bucket_of predictions run out w (inst_instance_id i) = Inr k) \<and>
      (\<forall>i \<in> set full_dataset. \<forall>p. map_of predictions (inst_instance_id i) = Some p \<longrightarrow> mts i p \<noteq> None)"
  then show "\<exists>rep'. make_run_report mts predictions full_dataset run out w = Inr rep'"
    using make_run_report_returns by blast
qed

text \<open>
  Claim C3 as stated fails: two tasks with different ids and the same label land in two
  sets, incomplete and error, which then overlap; and make_run_report raises, so that
  there is no report, on an empty predictions dict (IndexError) and on a report.json that
  lacks the entry of its instance (KeyError).
\<close>

theorem run_report_partitions_counterexample:
  "map_sum id ids (make_run_report ex_make_spec ex_preds_a ex_dataset_collide ''r1'' ''out'' ex_world) =
     Inr \<lparr>completed_ids = {}, resolved_ids = {}, error_ids = {''a_version-1_version-2''},
          unresolved_ids = {}, incomplete_ids = {''a_version-1_version-2''}, empty_patch_ids = {}\<rparr> \<and>
   make_run_report ex_make_spec [] ex_dataset ''r1'' ''out'' ex_world = Inl IndexError \<and>
   make_run_report ex_make_spec ex_preds ex_dataset ''r1'' ''out'' ex_world_empty_report =
     Inl (KeyError ''t1'')"
  by (simp add: make_run_report_def report_step_def no_ids_def id_version_def Let_def
      ex_make_spec_def ex_preds_a_def ex_dataset_collide_def ex_world_def ex_dataset_def
      ex_preds_def ex_pred_def ex_world_empty_report_def ex_dir_def)

theorem run_report_partitions_witness:
  "labels_identify ex_dataset \<and>
   (\<exists>rep. make_run_report ex_make_spec ex_preds ex_dataset ''r1'' ''out'' ex_world_done = Inr rep \<and>
      partitions (ids rep) {''t1_version-1.0'', ''t2_version-1.0''})"
proof -
  have l: "labels_identify ex_dataset"
    by (simp add: labels_identify_def ex_dataset_def id_version_def)
  have b: "\<forall>i \<in> set ex_dataset. \<exists>k. bucket_of ex_preds ''r1'' ''out'' ex_world_done (inst_instance_id i) = Inr k"
    by (simp add: ex_dataset_def bucket_of_def ex_preds_def ex_pred_def ex_world_done_def ex_dir_def
        ex_report_def)
  have m: "\<forall>i \<in> set ex_dataset. \<forall>p. map_of ex_preds (inst_instance_id i) = Some p \<longrightarrow> ex_make_spec i p \<noteq> None"
    by (simp add: ex_make_spec_def)
  have n: "ex_preds \<noteq> []" by (simp add: ex_preds_def)
  have t: "id_version ` set ex_dataset = {''t1_version-1.0'', ''t2_version-1.0''}"
    by (simp add: ex_dataset_def id_version_def)
  note inst = run_report_partitions [OF l, where mts = ex_make_spec and predictions = ex_preds
      and run = "''r1''" and out = "''out''" and w = ex_world_done]
  from inst b m n obtain rep where
    r: "make_run_report ex_make_spec ex_preds ex_dataset ''r1'' ''out'' ex_world_done = Inr rep"
    by blast
  with inst [where rep = rep] t have "partitions (ids rep) {''t1_version-1.0'', ''t2_version-1.0''}"
    by simp
  with l r show ?thesis by blast
qed

section \<open>Exceptions inside the pipeline, and what the reconciler makes of them\<close>


lemma names_differ [simp]:
  "test_output_name mode \<noteq> run_instance_log_name mode"
  "test_output_name mode \<noteq> ''patch.diff''"
  "test_output_name mode \<noteq> ''eval.sh''"
  "run_instance_log_name mode \<noteq> ''report.json''"
  by (simp_all add: test_output_name_def run_instance_log_name_def)

lemma handle_exception_files:
  "p \<noteq> lf \<Longrightarrow> files (handle_exception e i lf x w) p = files w p"
  by (auto simp: handle_exception_def Let_def split: exn.splits)

lemma run_instance_setup_rebuilds:
  assumes "reports w [out, run, replace_slash (model_name_or_path pred), ts_instance_id ts, ''report.json''] = None"
  shows "\<exists>rest. new_calls w (snd (run_instance_setup e ts pred rm fr run out mode t w)) =
           BuildContainer (instance_image_key ts) run rm fr # rest"
proof (cases "build_result e")
  case (Inl x)
  show ?thesis
    unfolding run_instance_setup_fresh [OF assms]
    by (simp add: Let_def setup_try_not_built [OF Inl] finally_cleanup_calls new_calls_def)
next
  case (Inr c)
  let ?ld = "[out, run, replace_slash (model_name_or_path pred), ts_instance_id ts]"
  let ?W = "(record_call (BuildContainer (instance_image_key ts) run rm fr)
            (setup_logger e (?ld @ [run_instance_log_name mode]) w))\<lparr>containers := c # containers w\<rparr>"
  obtain evs where
    "calls (snd (setup_body e ts pred ?ld (?ld @ [run_instance_log_name mode]) (?ld @ [''report.json''])
        mode t c ?W)) = calls ?W @ evs"
    using setup_body_extends by blast
  then show ?thesis
    by (simp add: run_instance_setup_calls [OF assms Inr] new_calls_def)
qed

lemma error_bucket:
  assumes "reports w [out, run, replace_slash (model_name_or_path pred), inst_instance_id inst, ''report.json''] = None"
    and "inst \<in> set full_dataset"
    and "map_of predictions (inst_instance_id inst) = Some pred"
    and "model_patch pred \<noteq> None" "model_patch pred \<noteq> Some []"
    and "make_run_report mts predictions full_dataset run out w = Inr rep"
  shows "id_version inst \<in> error_ids (ids rep)"
proof -
  have "bucket_of predictions run out w (inst_instance_id inst) = Inr Error"
    using assms(1,3,4,5) by (simp add: bucket_of_def)
  with report_loop_ids [OF make_run_report_ids [OF assms(6)], THEN conjunct2, rule_format, of Error]
    assms(2)
  show ?thesis by auto
qed

lemma error_bucket_only:
  assumes "labels_identify full_dataset"
    and "make_run_report mts predictions full_dataset run out w = Inr rep"
    and "l \<in> error_ids (ids rep)"
  shows "l \<notin> unresolved_ids (ids rep) \<and> l \<notin> resolved_ids (ids rep) \<and> l \<notin> completed_ids (ids rep)"
proof -
  note loop = make_run_report_ids [OF assms(2)]
  have u: "bucket_ids Error (ids rep) \<inter> bucket_ids Unresolved (ids rep) = {}"
    and r: "bucket_ids Error (ids rep) \<inter> bucket_ids Resolved (ids rep) = {}"
    using report_loop_disjoint [OF assms(1) loop, of Error Unresolved]
      report_loop_disjoint [OF assms(1) loop, of Error Resolved] by simp_all
  have c: "completed_ids (ids rep) = resolved_ids (ids rep) \<union> unresolved_ids (ids rep)"
    using report_loop_completed [OF loop]
      report_loop_ids [OF loop, THEN conjunct2, rule_format, of Resolved]
      report_loop_ids [OF loop, THEN conjunct2, rule_format, of Unresolved]
    by (auto simp: no_ids_def)
  from u r c assms(3) show ?thesis by auto
qed

text \<open>
  Claim C6, as amended. When both the strict and the fuzzy application exit non-zero,
  run_instance_setup returns None and writes no report.json; make_run_report then counts
  the task in the error set, and in neither the unresolved nor the completed set; and a
  later invocation for the same (task, submitter) builds the container again, so the
  failure is retried.
\<close>

theorem not_applied_counts_as_error:
  assumes fresh: "reports w [out, run, replace_slash (model_name_or_path pred), ts_instance_id ts, ''report.json''] = None"
    and patched: "mode \<noteq> ''not_apply_patch''"
    and built: "build_result e = Inr c"
    and started: "start_result e = None"
    and copied: "copy_patch_result e = None"
    and strict: "git_apply_result e = Inr (rc1, o1)" "rc1 \<noteq> 0"
    and fuzzy: "patch_fuzz_result e = Inr (rc2, o2)" "rc2 \<noteq> 0"
  shows
    "fst (run_instance_setup e ts pred rm fr run out mode t w) = Inr None \<and>
     reports (snd (run_instance_setup e ts pred rm fr run out mode t w)) = reports w \<and>
     (labels_identify full_dataset \<and> inst \<in> set full_dataset \<and>
      inst_instance_id inst = ts_instance_id ts \<and>
      map_of predictions (ts_instance_id ts) = Some pred \<and>
      model_patch pred \<noteq> None \<and> model_patch pred \<noteq> Some [] \<and>
      make_run_report mts predictions full_dataset run out
        (snd (run_instance_setup e ts pred rm fr run out mode t w)) = Inr rep
        \<longrightarrow> id_version inst \<in> error_ids (ids rep) \<and>
            id_version inst \<notin> unresolved_ids (ids rep) \<and>
            id_version inst \<notin> completed_ids (ids rep)) \<and>
     (\<exists>rest. new_calls (snd (run_instance_setup e ts pred rm fr run out mode t w))
               (snd (run_instance_setup e' ts pred rm' fr' run out mode' t'
                  (snd (run_instance_setup e ts pred rm fr run out mode t w)))) =
             BuildContainer (instance_image_key ts) run rm' fr' # rest)"
proof -
  let ?w' = "snd (run_instance_setup e ts pred rm fr run out mode t w)"
  let ?ld = "[out, run, replace_slash (model_name_or_path pred), ts_instance_id ts]"
  have raised: "fst (snd (setup_try e ts pred rm fr run ?ld (?ld @ [run_instance_log_name mode])
      (?ld @ [''report.json'']) mode t (setup_logger e (?ld @ [run_instance_log_name mode]) w))) =
      Inl (EvaluationError (ts_instance_id ts) (msg_apply_fail o2))"
    by (simp add: setup_try_built [OF built]
        setup_body_not_applied(2) [OF patched started copied strict fuzzy])
  have r: "fst (run_instance_setup e ts pred rm fr run out mode t w) = Inr None"
    using raised by (simp add: run_instance_setup_outcome [OF fresh])
  have k: "reports ?w' = reports w"
    unfolding run_instance_setup_reports r by simp
  have b: "labels_identify full_dataset \<and> inst \<in> set full_dataset \<and>
      inst_instance_id inst = ts_instance_id ts \<and>
      map_of predictions (ts_instance_id ts) = Some pred \<and>
      model_patch pred \<noteq> None \<and> model_patch pred \<noteq> Some [] \<and>
      make_run_report mts predictions full_dataset run out ?w' = Inr rep
        \<longrightarrow> id_version inst \<in> error_ids (ids rep) \<and>
            id_version inst \<notin> unresolved_ids (ids rep) \<and>
            id_version inst \<notin> completed_ids (ids rep)"
  proof
    assume h: "labels_identify full_dataset \<and> inst \<in> set full_dataset \<and>
      inst_instance_id inst = ts_instance_id ts \<and>
      map_of predictions (ts_instance_id ts) = Some pred \<and>
      model_patch pred \<noteq> None \<and> model_patch pred \<noteq> Some [] \<and>
      make_run_report mts predictions full_dataset run out ?w' = Inr rep"
    then have "id_version inst \<in> error_ids (ids rep)"
      using error_bucket [of ?w' out run pred inst full_dataset predictions mts rep] fresh k by auto
    with h error_bucket_only [of full_dataset mts predictions run out ?w' rep "id_version inst"]
    show "id_version inst \<in> error_ids (ids rep) \<and>
            id_version inst \<notin> unresolved_ids (ids rep) \<and>
            id_version inst \<notin> completed_ids (ids rep)"
      by blast
  qed
  have c: "\<exists>rest. new_calls ?w' (snd (run_instance_setup e' ts pred rm' fr' run out mode' t' ?w')) =
             BuildContainer (instance_image_key ts) run rm' fr' # rest"
    using run_instance_setup_rebuilds [of ?w' out run pred ts e' rm' fr' mode' t'] fresh k by simp
  from r k b c show ?thesis by blast
qed

lemma ex_both_fail_outcome:
  "fst (run_instance_setup ex_engine_both_fail ex_spec ex_pred True False ''r1'' ''out'' ''apply_patch''
          None ex_world) = Inr None"
  "reports (snd (run_instance_setup ex_engine_both_fail ex_spec ex_pred True False ''r1'' ''out''
          ''apply_patch'' None ex_world)) = reports ex_world"
proof -
  let ?ld = "[''out'', ''r1'', replace_slash (model_name_or_path ex_pred), ts_instance_id ex_spec]"
  have fresh: "reports ex_world (?ld @ [''report.json'']) = None"
    by (simp add: ex_world_def)
  have b: "build_result ex_engine_both_fail = Inr ''c1''"
    by (simp add: ex_engine_both_fail_def ex_engine_def)
  have raised: "fst (snd (setup_try ex_engine_both_fail ex_spec ex_pred True False ''r1'' ?ld
      (?ld @ [run_instance_log_name ''apply_patch'']) (?ld @ [''report.json'']) ''apply_patch'' None
      (setup_logger ex_engine_both_fail (?ld @ [run_instance_log_name ''apply_patch'']) ex_world))) =
      Inl (EvaluationError (ts_instance_id ex_spec) (msg_apply_fail ex_fuzzy_output))"
    unfolding setup_try_built [OF b]
    by (simp add: setup_body_not_applied(2) [where ?rc1.0 = 1 and ?o1.0 = ex_strict_output
          and ?rc2.0 = 1 and ?o2.0 = ex_fuzzy_output]
        ex_engine_both_fail_def ex_engine_def)
  show r: "fst (run_instance_setup ex_engine_both_fail ex_spec ex_pred True False ''r1'' ''out'' ''apply_patch''
          None ex_world) = Inr None"
    using raised fresh run_instance_setup_outcome [of ex_world "''out''" "''r1''" ex_pred ex_spec
        ex_engine_both_fail True False "''apply_patch''" None]
    by simp
  show "reports (snd (run_instance_setup ex_engine_both_fail ex_spec ex_pred True False ''r1'' ''out''
          ''apply_patch'' None ex_world)) = reports ex_world"
    unfolding run_instance_setup_reports r by simp
qed

lemma report_step_reports:
  "reports w' = reports w \<Longrightarrow>
     report_step predictions run out w' d b = report_step predictions run out w d b"
  by (auto simp: report_step_def Let_def split: option.splits report_file.splits)

lemma report_loop_reports:
  "reports w' = reports w \<Longrightarrow>
     report_loop predictions run out w' ds b = report_loop predictions run out w ds b"
  by (induction ds arbitrary: b) (simp_all add: report_step_reports [of w' w] split: sum.splits)

text \<open>
  Claim C6 as stated fails: with both applications exiting 1 the example task ends in the
  error set and the unresolved set is empty.
\<close>

theorem not_applied_counterexample:
  "fst (run_instance_setup ex_engine_both_fail ex_spec ex_pred True False ''r1'' ''out'' ''apply_patch''
          None ex_world) = Inr None \<and>
   map_sum id ids (make_run_report ex_make_spec ex_preds ex_dataset ''r1'' ''out''
      (snd (run_instance_setup ex_engine_both_fail ex_spec ex_pred True False ''r1'' ''out''
          ''apply_patch'' None ex_world))) =
     Inr \<lparr>completed_ids = {}, resolved_ids = {}, error_ids = {''t1_version-1.0''},
          unresolved_ids = {}, incomplete_ids = {''t2_version-1.0''}, empty_patch_ids = {}\<rparr>"
proof -
  let ?w' = "snd (run_instance_setup ex_engine_both_fail ex_spec ex_pred True False ''r1'' ''out''
          ''apply_patch'' None ex_world)"
  note k = ex_both_fail_outcome(2)
  have "\<forall>i \<in> set ex_dataset. \<exists>k. bucket_of ex_preds ''r1'' ''out'' ?w' (inst_instance_id i) = Inr k"
    unfolding bucket_of_reports [OF k]
    by (simp add: ex_dataset_def bucket_of_def ex_preds_def ex_pred_def ex_world_def)
  moreover have "\<forall>i \<in> set ex_dataset. \<forall>p. map_of ex_preds (inst_instance_id i) = Some p \<longrightarrow>
      ex_make_spec i p \<noteq> None"
    by (simp add: ex_make_spec_def)
  moreover have "ex_preds \<noteq> []" by (simp add: ex_preds_def)
  ultimately obtain rep where
    rep: "make_run_report ex_make_spec ex_preds ex_dataset ''r1'' ''out'' ?w' = Inr rep"
    using make_run_report_returns by blast
  have "report_loop ex_preds ''r1'' ''out'' ex_world ex_dataset no_ids = Inr (ids rep)"
    using make_run_report_ids [OF rep] report_loop_reports [OF k] by simp
  moreover have "report_loop ex_preds ''r1'' ''out'' ex_world ex_dataset no_ids =
      Inr \<lparr>completed_ids = {}, resolved_ids = {}, error_ids = {''t1_version-1.0''},
          unresolved_ids = {}, incomplete_ids = {''t2_version-1.0''}, empty_patch_ids = {}\<rparr>"
    by (simp add: report_step_def Let_def no_ids_def id_version_def ex_dataset_def ex_preds_def
        ex_pred_def ex_world_def)
  ultimately have "ids rep = \<lparr>completed_ids = {}, resolved_ids = {}, error_ids = {''t1_version-1.0''},
          unresolved_ids = {}, incomplete_ids = {''t2_version-1.0''}, empty_patch_ids = {}\<rparr>"
    by simp
  with rep ex_both_fail_outcome(1) show ?thesis by simp
qed

text \<open>The amended claim C6 at the example engine whose two applications exit 1.\<close>

theorem not_applied_counts_as_error_witness:
  "fst (run_instance_setup ex_engine_both_fail ex_spec ex_pred True False ''r1'' ''out'' ''apply_patch''
          None ex_world) = Inr None \<and>
   (\<exists>rep. make_run_report ex_make_spec ex_preds ex_dataset ''r1'' ''out''
            (snd (run_instance_setup ex_engine_both_fail ex_spec ex_pred True False ''r1'' ''out''
               ''apply_patch'' None ex_world)) = Inr rep \<and>
          ''t1_version-1.0'' \<in> error_ids (ids rep) \<and>
          ''t1_version-1.0'' \<notin> unresolved_ids (ids rep))"
proof -
  let ?w' = "snd (run_instance_setup ex_engine_both_fail ex_spec ex_pred True False ''r1'' ''out''
          ''apply_patch'' None ex_world)"
  let ?t1 = "\<lparr>inst_instance_id = ''t1'', version = ''1.0''\<rparr>"
  have fresh: "reports ex_world [''out'', ''r1'', replace_slash (model_name_or_path ex_pred),
      ts_instance_id ex_spec, ''report.json''] = None"
    by (simp add: ex_world_def)
  have e: "''apply_patch'' \<noteq> ''not_apply_patch''"
    "build_result ex_engine_both_fail = Inr ''c1''"
    "start_result ex_engine_both_fail = None"
    "copy_patch_result ex_engine_both_fail = None"
    "git_apply_result ex_engine_both_fail = Inr (1, ex_strict_output)" "(1::int) \<noteq> 0"
    "patch_fuzz_result ex_engine_both_fail = Inr (1, ex_fuzzy_output)" "(1::int) \<noteq> 0"
    by (simp_all add: ex_engine_both_fail_def ex_engine_def)
  note inst = not_applied_counts_as_error [OF fresh e, where rm = True and fr = False and t = None
      and inst = ?t1 and full_dataset = ex_dataset and predictions = ex_preds and mts = ex_make_spec]
  from inst have r: "fst (run_instance_setup ex_engine_both_fail ex_spec ex_pred True False ''r1'' ''out''
      ''apply_patch'' None ex_world) = Inr None"
    and k: "reports ?w' = reports ex_world"
    by blast+
  have "\<forall>i \<in> set ex_dataset. \<exists>k. bucket_of ex_preds ''r1'' ''out'' ?w' (inst_instance_id i) = Inr k"
    unfolding bucket_of_reports [OF k]
    by (simp add: ex_dataset_def bucket_of_def ex_preds_def ex_pred_def ex_world_def)
  moreover have "\<forall>i \<in> set ex_dataset. \<forall>p. map_of ex_preds (inst_instance_id i) = Some p \<longrightarrow>
      ex_make_spec i p \<noteq> None"
    by (simp add: ex_make_spec_def)
  moreover have "ex_preds \<noteq> []" by (simp add: ex_preds_def)
  ultimately obtain rep where
    rep: "make_run_report ex_make_spec ex_preds ex_dataset ''r1'' ''out'' ?w' = Inr rep"
    using make_run_report_returns by blast
  have "labels_identify ex_dataset \<and> ?t1 \<in> set ex_dataset \<and>
      inst_instance_id ?t1 = ts_instance_id ex_spec \<and>
      map_of ex_preds (ts_instance_id ex_spec) = Some ex_pred \<and>
      model_patch ex_pred \<noteq> None \<and> model_patch ex_pred \<noteq> Some []"
    by (simp add: labels_identify_def id_version_def ex_dataset_def ex_spec_def ex_preds_def ex_pred_def)
  with inst [where rep = rep] rep
  have "id_version ?t1 \<in> error_ids (ids rep) \<and> id_version ?t1 \<notin> unresolved_ids (ids rep)"
    by blast
  then have "''t1_version-1.0'' \<in> error_ids (ids rep) \<and> ''t1_version-1.0'' \<notin> unresolved_ids (ids rep)"
    by (simp add: id_version_def)
  with r rep show ?thesis by blast
qed

section \<open>Admission before scheduling\<close>

lemma map_of_filter_keys:
  "map_of (filter (\<lambda>kv. fst kv \<in> D) xs) k = (if k \<in> D then map_of xs k else None)"
  by (induction xs) auto

lemma completed_loop_reports:
  "completed_loop predictions pids run out (w\<lparr>reports := r\<rparr>) ds c =
     completed_loop predictions pids run out w ds c"
  by (induction ds arbitrary: c) (simp_all add: Let_def split: option.splits)

lemma completed_loop_ids:
  "completed_loop predictions pids run out w ds c = Inr res \<Longrightarrow>
     (\<forall>i \<in> set ds. inst_instance_id i \<in> pids \<longrightarrow> map_of predictions (inst_instance_id i) \<noteq> None) \<and>
     res = c \<union> {inst_instance_id i | i. i \<in> set ds \<and> inst_instance_id i \<in> pids \<and>
                 (\<exists>p. map_of predictions (inst_instance_id i) = Some p \<and>
                      files w [out, run, replace_slash (model_name_or_path p), pred_instance_id p,
                               ''test_output_prev_apply.txt''] \<noteq> None \<and>
                      files w [out, run, replace_slash (model_name_or_path p), pred_instance_id p,
                               ''test_output_after_apply.txt''] \<noteq> None)}"
proof (induction ds arbitrary: c)
  case Nil
  then show ?case by simp
next
  case (Cons d ds)
  show ?case
  proof (cases "inst_instance_id d \<in> pids")
    case False
    with Cons.prems have "completed_loop predictions pids run out w ds c = Inr res" by simp
    from Cons.IH [OF this] False show ?thesis by auto
  next
    case True
    with Cons.prems obtain p where p: "map_of predictions (inst_instance_id d) = Some p"
      by (auto split: option.splits)
    let ?b = "files w [out, run, replace_slash (model_name_or_path p), pred_instance_id p,
                               ''test_output_prev_apply.txt''] \<noteq> None \<and>
              files w [out, run, replace_slash (model_name_or_path p), pred_instance_id p,
                               ''test_output_after_apply.txt''] \<noteq> None"
    from Cons.prems True p
    have "completed_loop predictions pids run out w ds
            (if ?b then insert (inst_instance_id d) c else c) = Inr res"
      by (simp add: Let_def)
    from Cons.IH [OF this] True p show ?thesis by (auto split: if_splits)
  qed
qed

lemma completed_loop_returns:
  "\<forall>i \<in> set ds. inst_instance_id i \<in> pids \<longrightarrow> map_of predictions (inst_instance_id i) \<noteq> None \<Longrightarrow>
     \<exists>res. completed_loop predictions pids run out w ds c = Inr res"
  by (induction ds arbitrary: c) (auto simp: Let_def)

lemma empty_setup_ids_iff:
  assumes "distinct (map fst ps)"
  shows "k \<in> set (map fst (filter (\<lambda>kv. model_patch (snd kv) = Some [] \<or> model_patch (snd kv) = None) ps))
           \<longleftrightarrow> (\<exists>v. map_of ps k = Some v \<and> (model_patch v = Some [] \<or> model_patch v = None))"
  using assms by (force simp: image_iff)

lemma get_dataset_from_preds_reports:
  "get_dataset_from_preds dataset iids predictions run vs out excl (w\<lparr>reports := r\<rparr>) =
     get_dataset_from_preds dataset iids predictions run vs out excl w"
  unfolding get_dataset_from_preds_def completed_loop_reports ..

lemma get_dataset_from_preds_admits:
  assumes d: "distinct (map fst predictions)"
    and g: "get_dataset_from_preds dataset iids predictions run vs out excl w = Inr res"
  shows "res = filter (\<lambda>i. (iids = [] \<or> inst_instance_id i \<in> set iids) \<and>
             (case map_of predictions (inst_instance_id i) of
                None \<Rightarrow> False
              | Some p \<Rightarrow>
                  model_patch p \<noteq> None \<and> model_patch p \<noteq> Some [] \<and>
                  \<not> (excl \<and>
                     files w [out, run, replace_slash (model_name_or_path p), pred_instance_id p,
                              ''test_output_prev_apply.txt''] \<noteq> None \<and>
                     files w [out, run, replace_slash (model_name_or_path p), pred_instance_id p,
                              ''test_output_after_apply.txt''] \<noteq> None))) dataset"
proof -
  define D where "D = (if vs = ''all'' then set (map inst_instance_id dataset)
             else set (map inst_instance_id (filter (\<lambda>i. version i = vs) dataset)))"
  define pids where "pids = set (map fst predictions)"
  define P1 where "P1 = (if \<not> pids \<subseteq> D then filter (\<lambda>kv. fst kv \<in> D) predictions else predictions)"
  define ds1 where "ds1 = (if iids \<noteq> [] then filter (\<lambda>i. inst_instance_id i \<in> set iids) dataset else dataset)"
  define both where "both = (\<lambda>p::prediction. files w [out, run, replace_slash (model_name_or_path p), pred_instance_id p,
                              ''test_output_prev_apply.txt''] \<noteq> None \<and>
                     files w [out, run, replace_slash (model_name_or_path p), pred_instance_id p,
                              ''test_output_after_apply.txt''] \<noteq> None)"
  define E where "E = set (map fst (filter (\<lambda>kv. model_patch (snd kv) = Some [] \<or>
                                                      model_patch (snd kv) = None) P1))"
  from g obtain completed where
    cl: "completed_loop P1 pids run out w ds1 {} = Inr completed" and
    res: "res = filter (\<lambda>i. inst_instance_id i \<in> pids \<and> inst_instance_id i \<notin> E)
             (if completed \<noteq> {} \<and> excl then filter (\<lambda>i. inst_instance_id i \<notin> completed) ds1 else ds1)"
    unfolding get_dataset_from_preds_def Let_def D_def [symmetric] pids_def [symmetric]
      P1_def [symmetric] ds1_def [symmetric] E_def [symmetric]
    by (auto split: if_splits sum.splits)
  have dP1: "distinct (map fst P1)"
    using d by (simp add: P1_def distinct_map_filter)
  have P1: "map_of P1 k = Some p \<Longrightarrow> map_of predictions k = Some p" for k p
    by (auto simp: P1_def map_of_filter_keys split: if_splits)
  from completed_loop_ids [OF cl]
  have keys: "\<forall>i \<in> set ds1. inst_instance_id i \<in> pids \<longrightarrow> map_of P1 (inst_instance_id i) \<noteq> None"
    and comp: "completed = {inst_instance_id i | i. i \<in> set ds1 \<and> inst_instance_id i \<in> pids \<and>
                 (\<exists>p. map_of P1 (inst_instance_id i) = Some p \<and> both p)}"
    by (simp_all add: both_def)
  have pid: "k \<in> pids \<longleftrightarrow> map_of predictions k \<noteq> None" for k
    by (simp add: pids_def map_of_eq_None_iff)
  have key: "i \<in> set ds1 \<Longrightarrow>
      (inst_instance_id i \<in> pids \<and> inst_instance_id i \<notin> E \<and>
       \<not> (excl \<and> inst_instance_id i \<in> completed)) \<longleftrightarrow>
      (case map_of predictions (inst_instance_id i) of
                None \<Rightarrow> False
              | Some p \<Rightarrow> model_patch p \<noteq> None \<and> model_patch p \<noteq> Some [] \<and> \<not> (excl \<and> both p))" for i
  proof (cases "inst_instance_id i \<in> pids")
    case False
    then show ?thesis by (simp add: pid)
  next
    case True
    assume i: "i \<in> set ds1"
    with keys True obtain p where p1: "map_of P1 (inst_instance_id i) = Some p" by auto
    from P1 [OF p1] have p: "map_of predictions (inst_instance_id i) = Some p" .
    have "inst_instance_id i \<in> completed \<longleftrightarrow> both p"
      unfolding comp using i True p1 by auto
    moreover have "inst_instance_id i \<in> E \<longleftrightarrow> model_patch p = Some [] \<or> model_patch p = None"
      unfolding E_def empty_setup_ids_iff [OF dP1] using p1 by simp
    ultimately show ?thesis using True p by auto
  qed
  have "res = filter (\<lambda>i. inst_instance_id i \<in> pids \<and> inst_instance_id i \<notin> E \<and>
       \<not> (excl \<and> inst_instance_id i \<in> completed)) ds1"
    unfolding res by (auto intro: filter_cong)
  also have "\<dots> = filter (\<lambda>i. case map_of predictions (inst_instance_id i) of
                None \<Rightarrow> False
              | Some p \<Rightarrow> model_patch p \<noteq> None \<and> model_patch p \<noteq> Some [] \<and> \<not> (excl \<and> both p)) ds1"
    using key by (intro filter_cong) auto
  finally show ?thesis
    unfolding both_def ds1_def by (cases "iids = []") simp_all
qed

lemma get_dataset_from_preds_returns:
  assumes "vs = ''all''" "set iids \<subseteq> inst_instance_id ` set dataset"
  shows "\<exists>res. get_dataset_from_preds dataset iids predictions run vs out excl w = Inr res"
proof -
  define D where "D = (if vs = ''all'' then set (map inst_instance_id dataset)
             else set (map inst_instance_id (filter (\<lambda>i. version i = vs) dataset)))"
  define pids where "pids = set (map fst predictions)"
  define P1 where "P1 = (if \<not> pids \<subseteq> D then filter (\<lambda>kv. fst kv \<in> D) predictions else predictions)"
  define ds1 where "ds1 = (if iids \<noteq> [] then filter (\<lambda>i. inst_instance_id i \<in> set iids) dataset else dataset)"
  have D: "D = inst_instance_id ` set dataset"
    using assms(1) by (simp add: D_def)
  have "\<forall>i \<in> set ds1. inst_instance_id i \<in> pids \<longrightarrow> map_of P1 (inst_instance_id i) \<noteq> None"
  proof (intro ballI impI)
    fix i
    assume i: "i \<in> set ds1" and k: "inst_instance_id i \<in> pids"
    from i have "inst_instance_id i \<in> D" by (auto simp: ds1_def D split: if_splits)
    then have "map_of P1 (inst_instance_id i) = map_of predictions (inst_instance_id i)"
      by (simp add: P1_def map_of_filter_keys)
    moreover from k have "map_of predictions (inst_instance_id i) \<noteq> None"
      by (simp add: pids_def map_of_eq_None_iff)
    ultimately show "map_of P1 (inst_instance_id i) \<noteq> None" by metis
  qed
  from completed_loop_returns [OF this] obtain c where
    "completed_loop P1 pids run out w ds1 {} = Inr c" by blast
  moreover have "set iids \<subseteq> D" using assms(2) D by simp
  ultimately show ?thesis
    unfolding get_dataset_from_preds_def Let_def D_def [symmetric] pids_def [symmetric]
      P1_def [symmetric] ds1_def [symmetric]
    by simp
qed

text \<open>
  Claim C8, as amended. get_dataset_from_preds never reads a report.json: its result is
  the same whatever report.json files exist. When it returns, the tasks it admits are
  those of the dataset (within instance_ids when given) that have a prediction with a
  non-empty patch, less, when exclude_completed is set, those for which both
  test_output_prev_apply.txt and test_output_after_apply.txt exist in the directory of
  the prediction. It returns when version_spec is "all" and the instance ids asked for
  are in the dataset.
\<close>

theorem admission_reads_test_outputs:
  assumes "distinct (map fst predictions)"
  shows
    "(get_dataset_from_preds dataset iids predictions run vs out excl w = Inr res \<longrightarrow>
        res = filter (\<lambda>i. (iids = [] \<or> inst_instance_id i \<in> set iids) \<and>
               (case map_of predictions (inst_instance_id i) of
                  None \<Rightarrow> False
                | Some p \<Rightarrow>
                    model_patch p \<noteq> None \<and> model_patch p \<noteq> Some [] \<and>
                    \<not> (excl \<and>
                       files w [out, run, replace_slash (model_name_or_path p), pred_instance_id p,
                                ''test_output_prev_apply.txt''] \<noteq> None \<and>
                       files w [out, run, replace_slash (model_name_or_path p), pred_instance_id p,
                                ''test_output_after_apply.txt''] \<noteq> None))) dataset) \<and>
     get_dataset_from_preds dataset iids predictions run vs out excl (w\<lparr>reports := r\<rparr>) =
       get_dataset_from_preds dataset iids predictions run vs out excl w \<and>
     (vs = ''all'' \<and> set iids \<subseteq> inst_instance_id ` set dataset \<longrightarrow>
        (\<exists>res. get_dataset_from_preds dataset iids predictions run vs out excl w = Inr res))"
proof (intro conjI impI)
  assume "get_dataset_from_preds dataset iids predictions run vs out excl w = Inr res"
  then show "res = filter (\<lambda>i. (iids = [] \<or> inst_instance_id i \<in> set iids) \<and>
               (case map_of predictions (inst_instance_id i) of
                  None \<Rightarrow> False
                | Some p \<Rightarrow>
                    model_patch p \<noteq> None \<and> model_patch p \<noteq> Some [] \<and>
                    \<not> (excl \<and>
                       files w [out, run, replace_slash (model_name_or_path p), pred_instance_id p,
                                ''test_output_prev_apply.txt''] \<noteq> None \<and>
                       files w [out, run, replace_slash (model_name_or_path p), pred_instance_id p,
                                ''test_output_after_apply.txt''] \<noteq> None))) dataset"
    by (rule get_dataset_from_preds_admits [OF assms])
next
  show "get_dataset_from_preds dataset iids predictions run vs out excl (w\<lparr>reports := r\<rparr>) =
       get_dataset_from_preds dataset iids predictions run vs out excl w"
    by (rule get_dataset_from_preds_reports)
next
  assume "vs = ''all'' \<and> set iids \<subseteq> inst_instance_id ` set dataset"
  then show "\<exists>res. get_dataset_from_preds dataset iids predictions run vs out excl w = Inr res"
    using get_dataset_from_preds_returns by blast
qed

text \<open>
  Claim C8 as stated fails: a task whose report.json exists is admitted when its test
  outputs are missing, and a task without report.json is left out when both test outputs
  exist.
\<close>

theorem report_is_not_the_marker_counterexample:
  "reports ex_world_done [''out'', ''r1'', ''m'', ''t1'', ''report.json''] = Some (Report ex_report) \<and>
   get_dataset_from_preds ex_dataset [] ex_preds ''r1'' ''all'' ''out'' True ex_world_done =
     Inr [\<lparr>inst_instance_id = ''t1'', version = ''1.0''\<rparr>] \<and>
   reports ex_world_outputs [''out'', ''r1'', ''m'', ''t1'', ''report.json''] = None \<and>
   get_dataset_from_preds ex_dataset [] ex_preds ''r1'' ''all'' ''out'' True ex_world_outputs = Inr []"
  by (simp add: get_dataset_from_preds_def Let_def ex_world_done_def ex_world_outputs_def ex_world_def
      ex_dataset_def ex_preds_def ex_pred_def ex_dir_def)

text \<open>
  The amended claim C8 on the example dataset: with both test outputs on disk the task is
  left out, report.json or not, and admitted when exclude_completed is off.
\<close>

theorem admission_reads_test_outputs_witness:
  "get_dataset_from_preds ex_dataset [] ex_preds ''r1'' ''all'' ''out'' True
     (ex_world_outputs\<lparr>reports := [ex_dir @ [''report.json''] \<mapsto> Report ex_report]\<rparr>) = Inr [] \<and>
   get_dataset_from_preds ex_dataset [] ex_preds ''r1'' ''all'' ''out'' False ex_world_outputs =
     Inr [\<lparr>inst_instance_id = ''t1'', version = ''1.0''\<rparr>]"
proof -
  have d: "distinct (map fst ex_preds)" by (simp add: ex_preds_def)
  note a = admission_reads_test_outputs [OF d, where dataset = ex_dataset and iids = "[]"
      and run = "''r1''" and vs = "''all''" and out = "''out''" and w = ex_world_outputs]
  from a [where excl = True] obtain res where
    r: "get_dataset_from_preds ex_dataset [] ex_preds ''r1'' ''all'' ''out'' True ex_world_outputs = Inr res"
    by auto
  with a [where excl = True and res = res] have "res = []"
    by (simp add: ex_dataset_def ex_preds_def ex_pred_def ex_world_outputs_def ex_world_def ex_dir_def)
  with r a [where excl = True and r = "[ex_dir @ [''report.json''] \<mapsto> Report ex_report]"]
  have 1: "get_dataset_from_preds ex_dataset [] ex_preds ''r1'' ''all'' ''out'' True
     (ex_world_outputs\<lparr>reports := [ex_dir @ [''report.json''] \<mapsto> Report ex_report]\<rparr>) = Inr []"
    by simp
  from a [where excl = False] obtain res' where
    r': "get_dataset_from_preds ex_dataset [] ex_preds ''r1'' ''all'' ''out'' False ex_world_outputs = Inr res'"
    by auto
  with a [where excl = False and res = res'] have "res' = [\<lparr>inst_instance_id = ''t1'', version = ''1.0''\<rparr>]"
    by (simp add: ex_dataset_def ex_preds_def ex_pred_def)
  with r' 1 show ?thesis by simp
qed

section \<open>After an exception: the record, the report and the resumed run\<close>

lemma run_instance_setup_not_built_files:
  assumes fresh: "reports w [out, run, replace_slash (model_name_or_path pred), ts_instance_id ts, ''report.json''] = None"
    and nb: "build_result e = Inl x"
    and p: "p \<noteq> [out, run, replace_slash (model_name_or_path pred), ts_instance_id ts, run_instance_log_name mode]"
  shows "files (snd (run_instance_setup e ts pred rm fr run out mode t w)) p = files w p"
  unfolding run_instance_setup_fresh [OF fresh]
  using p by (simp add: Let_def setup_try_not_built [OF nb] handle_exception_files)

text \<open>
  Claim C10, as amended. A pipeline body that raises (in the build or start of the
  container, the application of the patch, the run of the eval script or the grading) is
  caught inside run_instance_setup, which returns None and leaves every report.json as it
  was; with no report.json for the (task, submitter), make_run_report puts the task into
  the error set; and an invocation of run_instance_setup for it does not short-circuit:
  its first engine call builds the container again. Whether a resumed run submits the
  task is another matter: get_dataset_from_preds admits it exactly when
  test_output_prev_apply.txt or test_output_after_apply.txt is missing from its log
  directory (or exclude_completed is off).
\<close>

theorem exception_leaves_no_report:
  assumes fresh: "reports w [out, run, replace_slash (model_name_or_path pred), ts_instance_id ts, ''report.json''] = None"
    and raised: "fst (snd (setup_try e ts pred rm fr run
               [out, run, replace_slash (model_name_or_path pred), ts_instance_id ts]
               [out, run, replace_slash (model_name_or_path pred), ts_instance_id ts, run_instance_log_name mode]
               [out, run, replace_slash (model_name_or_path pred), ts_instance_id ts, ''report.json'']
               mode t
               (setup_logger e [out, run, replace_slash (model_name_or_path pred), ts_instance_id ts,
                                run_instance_log_name mode] w))) = Inl x"
  shows
    "fst (run_instance_setup e ts pred rm fr run out mode t w) = Inr None \<and>
     reports (snd (run_instance_setup e ts pred rm fr run out mode t w)) = reports w \<and>
     (inst \<in> set full_dataset \<and> inst_instance_id inst = ts_instance_id ts \<and>
      map_of predictions (ts_instance_id ts) = Some pred \<and>
      model_patch pred \<noteq> None \<and> model_patch pred \<noteq> Some [] \<and>
      make_run_report mts predictions full_dataset run out
        (snd (run_instance_setup e ts pred rm fr run out mode t w)) = Inr rep
        \<longrightarrow> id_version inst \<in> error_ids (ids rep)) \<and>
     (\<exists>rest. new_calls (snd (run_instance_setup e ts pred rm fr run out mode t w))
               (snd (run_instance_setup e' ts pred rm' fr' run out mode' t'
                  (snd (run_instance_setup e ts pred rm fr run out mode t w)))) =
             BuildContainer (instance_image_key ts) run rm' fr' # rest) \<and>
     (distinct (map fst predictions) \<and> inst \<in> set dataset \<and>
      (iids = [] \<or> inst_instance_id inst \<in> set iids) \<and>
      map_of predictions (inst_instance_id inst) = Some pred \<and>
      model_patch pred \<noteq> None \<and> model_patch pred \<noteq> Some [] \<and>
      get_dataset_from_preds dataset iids predictions run vs out excl
        (snd (run_instance_setup e ts pred rm fr run out mode t w)) = Inr res
        \<longrightarrow> (inst \<in> set res \<longleftrightarrow>
              \<not> (excl \<and>
                 files (snd (run_instance_setup e ts pred rm fr run out mode t w))
                   [out, run, replace_slash (model_name_or_path pred), pred_instance_id pred,
                    ''test_output_prev_apply.txt''] \<noteq> None \<and>
                 files (snd (run_instance_setup e ts pred rm fr run out mode t w))
                   [out, run, replace_slash (model_name_or_path pred), pred_instance_id pred,
                    ''test_output_after_apply.txt''] \<noteq> None)))"
proof -
  let ?w' = "snd (run_instance_setup e ts pred rm fr run out mode t w)"
  have r: "fst (run_instance_setup e ts pred rm fr run out mode t w) = Inr None"
    using raised by (simp add: run_instance_setup_outcome [OF fresh])
  have k: "reports ?w' = reports w"
    unfolding run_instance_setup_reports r by simp
  have b: "inst \<in> set full_dataset \<and> inst_instance_id inst = ts_instance_id ts \<and>
      map_of predictions (ts_instance_id ts) = Some pred \<and>
      model_patch pred \<noteq> None \<and> model_patch pred \<noteq> Some [] \<and>
      make_run_report mts predictions full_dataset run out ?w' = Inr rep
        \<longrightarrow> id_version inst \<in> error_ids (ids rep)"
    using error_bucket [of ?w' out run pred inst full_dataset predictions mts rep] fresh k by auto
  have c: "\<exists>rest. new_calls ?w' (snd (run_instance_setup e' ts pred rm' fr' run out mode' t' ?w')) =
             BuildContainer (instance_image_key ts) run rm' fr' # rest"
    using run_instance_setup_rebuilds [of ?w' out run pred ts e' rm' fr' mode' t'] fresh k by simp
  have a: "distinct (map fst predictions) \<and> inst \<in> set dataset \<and>
      (iids = [] \<or> inst_instance_id inst \<in> set iids) \<and>
      map_of predictions (inst_instance_id inst) = Some pred \<and>
      model_patch pred \<noteq> None \<and> model_patch pred \<noteq> Some [] \<and>
      get_dataset_from_preds dataset iids predictions run vs out excl ?w' = Inr res
        \<longrightarrow> (inst \<in> set res \<longleftrightarrow>
              \<not> (excl \<and>
                 files ?w' [out, run, replace_slash (model_name_or_path pred), pred_instance_id pred,
                    ''test_output_prev_apply.txt''] \<noteq> None \<and>
                 files ?w' [out, run, replace_slash (model_name_or_path pred), pred_instance_id pred,
                    ''test_output_after_apply.txt''] \<noteq> None))"
  proof
    assume h: "distinct (map fst predictions) \<and> inst \<in> set dataset \<and>
      (iids = [] \<or> inst_instance_id inst \<in> set iids) \<and>
      map_of predictions (inst_instance_id inst) = Some pred \<and>
      model_patch pred \<noteq> None \<and> model_patch pred \<noteq> Some [] \<and>
      get_dataset_from_preds dataset iids predictions run vs out excl ?w' = Inr res"
    then have d: "distinct (map fst predictions)"
      and g: "get_dataset_from_preds dataset iids predictions run vs out excl ?w' = Inr res"
      by blast+
    note adm = get_dataset_from_preds_admits [OF d g]
    from h show "inst \<in> set res \<longleftrightarrow>
              \<not> (excl \<and>
                 files ?w' [out, run, replace_slash (model_name_or_path pred), pred_instance_id pred,
                    ''test_output_prev_apply.txt''] \<noteq> None \<and>
                 files ?w' [out, run, replace_slash (model_name_or_path pred), pred_instance_id pred,
                    ''test_output_after_apply.txt''] \<noteq> None)"
      by (subst adm) auto
  qed
  from r k b c a show ?thesis by blast
qed

lemma ex_no_build:
  "build_result ex_engine_no_build = Inl (EngineError ''build failed'')"
  by (simp add: ex_engine_no_build_def)

lemma ex_no_build_outputs:
  "fst (run_instance_setup ex_engine_no_build ex_spec ex_pred True False ''r1'' ''out'' ''apply_patch''
          None ex_world_outputs) = Inr None"
  "reports (snd (run_instance_setup ex_engine_no_build ex_spec ex_pred True False ''r1'' ''out''
          ''apply_patch'' None ex_world_outputs)) = Map.empty"
  "files (snd (run_instance_setup ex_engine_no_build ex_spec ex_pred True False ''r1'' ''out''
          ''apply_patch'' None ex_world_outputs))
      [''out'', ''r1'', ''m'', ''t1'', ''test_output_prev_apply.txt''] \<noteq> None"
  "files (snd (run_instance_setup ex_engine_no_build ex_spec ex_pred True False ''r1'' ''out''
          ''apply_patch'' None ex_world_outputs))
      [''out'', ''r1'', ''m'', ''t1'', ''test_output_after_apply.txt''] \<noteq> None"
proof -
  have fresh: "reports ex_world_outputs [''out'', ''r1'', replace_slash (model_name_or_path ex_pred),
      ts_instance_id ex_spec, ''report.json''] = None"
    by (simp add: ex_world_outputs_def ex_world_def)
  have s: "replace_slash (model_name_or_path ex_pred) = ''m''" "ts_instance_id ex_spec = ''t1''"
    by (simp_all add: ex_pred_def ex_spec_def)
  show r: "fst (run_instance_setup ex_engine_no_build ex_spec ex_pred True False ''r1'' ''out'' ''apply_patch''
          None ex_world_outputs) = Inr None"
    by (simp add: run_instance_setup_outcome [OF fresh] setup_try_not_built [OF ex_no_build])
  show "reports (snd (run_instance_setup ex_engine_no_build ex_spec ex_pred True False ''r1'' ''out''
          ''apply_patch'' None ex_world_outputs)) = Map.empty"
    unfolding run_instance_setup_reports r by (simp add: ex_world_outputs_def ex_world_def)
  show "files (snd (run_instance_setup ex_engine_no_build ex_spec ex_pred True False ''r1'' ''out''
          ''apply_patch'' None ex_world_outputs))
      [''out'', ''r1'', ''m'', ''t1'', ''test_output_prev_apply.txt''] \<noteq> None"
  proof -
    have "files (snd (run_instance_setup ex_engine_no_build ex_spec ex_pred True False ''r1'' ''out''
          ''apply_patch'' None ex_world_outputs))
        [''out'', ''r1'', ''m'', ''t1'', ''test_output_prev_apply.txt''] =
      files ex_world_outputs [''out'', ''r1'', ''m'', ''t1'', ''test_output_prev_apply.txt'']"
      using run_instance_setup_not_built_files [OF fresh ex_no_build,
          of "[''out'', ''r1'', ''m'', ''t1'', ''test_output_prev_apply.txt'']" "''apply_patch''"
             True False None]
      by (simp add: s run_instance_log_name_def)
    then show ?thesis by (simp add: ex_world_outputs_def ex_world_def ex_dir_def)
  qed
  show "files (snd (run_instance_setup ex_engine_no_build ex_spec ex_pred True False ''r1'' ''out''
          ''apply_patch'' None ex_world_outputs))
      [''out'', ''r1'', ''m'', ''t1'', ''test_output_after_apply.txt''] \<noteq> None"
  proof -
    have "files (snd (run_instance_setup ex_engine_no_build ex_spec ex_pred True False ''r1'' ''out''
          ''apply_patch'' None ex_world_outputs))
        [''out'', ''r1'', ''m'', ''t1'', ''test_output_after_apply.txt''] =
      files ex_world_outputs [''out'', ''r1'', ''m'', ''t1'', ''test_output_after_apply.txt'']"
      using run_instance_setup_not_built_files [OF fresh ex_no_build,
          of "[''out'', ''r1'', ''m'', ''t1'', ''test_output_after_apply.txt'']" "''apply_patch''"
             True False None]
      by (simp add: s run_instance_log_name_def)
    then show ?thesis by (simp add: ex_world_outputs_def ex_world_def ex_dir_def)
  qed
qed

text \<open>
  Claim C10 as stated fails: the build raises for a task whose two test outputs are on
  disk; no report.json is written, the task is in the error set, and a resumed run does
  not submit it.
\<close>

theorem not_resubmitted_counterexample:
  "fst (run_instance_setup ex_engine_no_build ex_spec ex_pred True False ''r1'' ''out'' ''apply_patch''
          None ex_world_outputs) = Inr None \<and>
   reports (snd (run_instance_setup ex_engine_no_build ex_spec ex_pred True False ''r1'' ''out''
          ''apply_patch'' None ex_world_outputs)) = Map.empty \<and>
   map_sum id ids (make_run_report ex_make_spec ex_preds ex_dataset ''r1'' ''out''
      (snd (run_instance_setup ex_engine_no_build ex_spec ex_pred True False ''r1'' ''out''
          ''apply_patch'' None ex_world_outputs))) =
     Inr \<lparr>completed_ids = {}, resolved_ids = {}, error_ids = {''t1_version-1.0''},
          unresolved_ids = {}, incomplete_ids = {''t2_version-1.0''}, empty_patch_ids = {}\<rparr> \<and>
   get_dataset_from_preds ex_dataset [] ex_preds ''r1'' ''all'' ''out'' True
      (snd (run_instance_setup ex_engine_no_build ex_spec ex_pred True False ''r1'' ''out''
          ''apply_patch'' None ex_world_outputs)) = Inr []"
proof -
  let ?w' = "snd (run_instance_setup ex_engine_no_build ex_spec ex_pred True False ''r1'' ''out''
          ''apply_patch'' None ex_world_outputs)"
  have k: "reports ?w' = reports ex_world" by (simp add: ex_no_build_outputs ex_world_def)
  have "\<forall>i \<in> set ex_dataset. \<exists>k. bucket_of ex_preds ''r1'' ''out'' ?w' (inst_instance_id i) = Inr k"
    unfolding bucket_of_reports [OF k]
    by (simp add: ex_dataset_def bucket_of_def ex_preds_def ex_pred_def ex_world_def)
  moreover have "\<forall>i \<in> set ex_dataset. \<forall>p. map_of ex_preds (inst_instance_id i) = Some p \<longrightarrow>
      ex_make_spec i p \<noteq> None"
    by (simp add: ex_make_spec_def)
  moreover have "ex_preds \<noteq> []" by (simp add: ex_preds_def)
  ultimately obtain rep where
    rep: "make_run_report ex_make_spec ex_preds ex_dataset ''r1'' ''out'' ?w' = Inr rep"
    using make_run_report_returns by blast
  have "report_loop ex_preds ''r1'' ''out'' ex_world ex_dataset no_ids = Inr (ids rep)"
    using make_run_report_ids [OF rep] report_loop_reports [OF k] by simp
  moreover have "report_loop ex_preds ''r1'' ''out'' ex_world ex_dataset no_ids =
      Inr \<lparr>completed_ids = {}, resolved_ids = {}, error_ids = {''t1_version-1.0''},
          unresolved_ids = {}, incomplete_ids = {''t2_version-1.0''}, empty_patch_ids = {}\<rparr>"
    by (simp add: report_step_def Let_def no_ids_def id_version_def ex_dataset_def ex_preds_def
        ex_pred_def ex_world_def)
  ultimately have i: "ids rep = \<lparr>completed_ids = {}, resolved_ids = {}, error_ids = {''t1_version-1.0''},
          unresolved_ids = {}, incomplete_ids = {''t2_version-1.0''}, empty_patch_ids = {}\<rparr>"
    by simp
  have g: "get_dataset_from_preds ex_dataset [] ex_preds ''r1'' ''all'' ''out'' True ?w' = Inr []"
    using ex_no_build_outputs(3,4)
    by (simp add: get_dataset_from_preds_def Let_def ex_dataset_def ex_preds_def ex_pred_def)
  from ex_no_build_outputs(1,2) rep i g show ?thesis by simp
qed

text \<open>
  The amended claim C10 at an engine whose build raises, with no test output on disk: the
  task is in the error set and admitted again.
\<close>

theorem exception_leaves_no_report_witness:
  "fst (run_instance_setup ex_engine_no_build ex_spec ex_pred True False ''r1'' ''out'' ''apply_patch''
          None ex_world) = Inr None \<and>
   reports (snd (run_instance_setup ex_engine_no_build ex_spec ex_pred True False ''r1'' ''out''
          ''apply_patch'' None ex_world)) = reports ex_world \<and>
   (\<exists>rep. make_run_report ex_make_spec ex_preds ex_dataset ''r1'' ''out''
            (snd (run_instance_setup ex_engine_no_build ex_spec ex_pred True False ''r1'' ''out''
               ''apply_patch'' None ex_world)) = Inr rep \<and>
          ''t1_version-1.0'' \<in> error_ids (ids rep)) \<and>
   (\<exists>res. get_dataset_from_preds ex_dataset [] ex_preds ''r1'' ''all'' ''out'' True
            (snd (run_instance_setup ex_engine_no_build ex_spec ex_pred True False ''r1'' ''out''
               ''apply_patch'' None ex_world)) = Inr res \<and>
          \<lparr>inst_instance_id = ''t1'', version = ''1.0''\<rparr> \<in> set res)"
proof -
  let ?w' = "snd (run_instance_setup ex_engine_no_build ex_spec ex_pred True False ''r1'' ''out''
          ''apply_patch'' None ex_world)"
  let ?t1 = "\<lparr>inst_instance_id = ''t1'', version = ''1.0''\<rparr>"
  have s: "replace_slash (model_name_or_path ex_pred) = ''m''" "ts_instance_id ex_spec = ''t1''"
    "pred_instance_id ex_pred = ''t1''"
    by (simp_all add: ex_pred_def ex_spec_def)
  have fresh: "reports ex_world [''out'', ''r1'', replace_slash (model_name_or_path ex_pred),
      ts_instance_id ex_spec, ''report.json''] = None"
    by (simp add: ex_world_def)
  have raised: "fst (snd (setup_try ex_engine_no_build ex_spec ex_pred True False ''r1''
               [''out'', ''r1'', replace_slash (model_name_or_path ex_pred), ts_instance_id ex_spec]
               [''out'', ''r1'', replace_slash (model_name_or_path ex_pred), ts_instance_id ex_spec,
                run_instance_log_name ''apply_patch'']
               [''out'', ''r1'', replace_slash (model_name_or_path ex_pred), ts_instance_id ex_spec, ''report.json'']
               ''apply_patch'' None
               (setup_logger ex_engine_no_build [''out'', ''r1'', replace_slash (model_name_or_path ex_pred),
                  ts_instance_id ex_spec, run_instance_log_name ''apply_patch''] ex_world))) =
      Inl (EngineError ''build failed'')"
    by (simp add: setup_try_not_built [OF ex_no_build])
  note inst = exception_leaves_no_report [OF fresh raised, where
      inst = ?t1 and full_dataset = ex_dataset and predictions = ex_preds and mts = ex_make_spec
      and dataset = ex_dataset and iids = "[]" and vs = "''all''" and excl = True]
  from inst have r: "fst (run_instance_setup ex_engine_no_build ex_spec ex_pred True False ''r1'' ''out''
      ''apply_patch'' None ex_world) = Inr None"
    and k: "reports ?w' = reports ex_world"
    by blast+
  have "\<forall>i \<in> set ex_dataset. \<exists>k. bucket_of ex_preds ''r1'' ''out'' ?w' (inst_instance_id i) = Inr k"
    unfolding bucket_of_reports [OF k]
    by (simp add: ex_dataset_def bucket_of_def ex_preds_def ex_pred_def ex_world_def)
  moreover have "\<forall>i \<in> set ex_dataset. \<forall>p. map_of ex_preds (inst_instance_id i) = Some p \<longrightarrow>
      ex_make_spec i p \<noteq> None"
    by (simp add: ex_make_spec_def)
  moreover have "ex_preds \<noteq> []" by (simp add: ex_preds_def)
  ultimately obtain rep where
    rep: "make_run_report ex_make_spec ex_preds ex_dataset ''r1'' ''out'' ?w' = Inr rep"
    using make_run_report_returns by blast
  have f: "?t1 \<in> set ex_dataset \<and> inst_instance_id ?t1 = ts_instance_id ex_spec \<and>
      map_of ex_preds (ts_instance_id ex_spec) = Some ex_pred \<and>
      model_patch ex_pred \<noteq> None \<and> model_patch ex_pred \<noteq> Some []"
    by (simp add: ex_dataset_def ex_spec_def ex_preds_def ex_pred_def)
  with inst [where rep = rep] rep have "id_version ?t1 \<in> error_ids (ids rep)" by blast
  then have e: "''t1_version-1.0'' \<in> error_ids (ids rep)" by (simp add: id_version_def)
  obtain res where
    res: "get_dataset_from_preds ex_dataset [] ex_preds ''r1'' ''all'' ''out'' True ?w' = Inr res"
    using get_dataset_from_preds_returns [of "''all''" "[]" ex_dataset ex_preds "''r1''" "''out''" True ?w']
    by auto
  have "files ?w' [''out'', ''r1'', ''m'', ''t1'', ''test_output_prev_apply.txt''] =
      files ex_world [''out'', ''r1'', ''m'', ''t1'', ''test_output_prev_apply.txt'']"
    using run_instance_setup_not_built_files [OF fresh ex_no_build,
        of "[''out'', ''r1'', ''m'', ''t1'', ''test_output_prev_apply.txt'']" "''apply_patch''"
           True False None]
    by (simp add: s run_instance_log_name_def)
  then have nofile: "files ?w' [''out'', ''r1'', replace_slash (model_name_or_path ex_pred),
      pred_instance_id ex_pred, ''test_output_prev_apply.txt''] = None"
    by (simp add: s ex_world_def)
  have d: "distinct (map fst ex_preds) \<and> map_of ex_preds (inst_instance_id ?t1) = Some ex_pred"
    by (simp add: ex_preds_def)
  from inst [where res = res] res f d nofile have "?t1 \<in> set res" by simp
  with r k rep e res show ?thesis by blast
qed

section \<open>Removal of the instance image\<close>

lemma removals_simps [simp]:
  "removals k (record_call c w) = removals k w + (if c = RemoveImage k then 1 else 0)"
  "removals k (write_text p s w) = removals k w"
  "removals k (logger_info e lf m w) = removals k w"
  "removals k (setup_logger e lf w) = removals k w"
  "removals k (print_line s w) = removals k w"
  by (simp_all add: removals_def)

lemma removals_upd [simp]:
  "removals k (w\<lparr>stdout := x\<rparr>) = removals k w"
  "removals k (w\<lparr>reports := y\<rparr>) = removals k w"
  "removals k (w\<lparr>containers := z\<rparr>) = removals k w"
  "removals k (w\<lparr>images := u\<rparr>) = removals k w"
  "removals k (w\<lparr>pbar := n\<rparr>) = removals k w"
  by (simp_all add: removals_def)

lemma apply_patch_removals [simp]:
  "removals k (snd (apply_patch e i lf c w)) = removals k w"
  by (auto simp: apply_patch_def exec_run_def split: sum.splits)

lemma grade_and_write_removals [simp]:
  "removals k (snd (grade_and_write e ts pred lf rp tp w)) = removals k w"
  by (auto simp: grade_and_write_def Let_def split: prod.splits option.splits sum.splits)

lemma setup_body_removals:
  "removals k (snd (setup_body e ts pred ld lf rp mode t c w)) = removals k w"
  by (auto simp: setup_body_def Let_def container_start_eq copy_to_container_eq
        exec_run_with_timeout_def snd_and_then
      split: sum.splits option.splits prod.splits)

lemma handle_exception_removals [simp]:
  "removals k (handle_exception e i lf x w) = removals k w"
  by (auto simp: handle_exception_def Let_def split: exn.splits)

lemma finally_cleanup_removals:
  "removals k (finally_cleanup ts rm container w) =
     removals k w + (if rm \<and> k = instance_image_key ts then 1 else 0)"
  by (auto simp: finally_cleanup_def close_logger_def cleanup_container_def remove_image_def
      split: option.splits)

lemma setup_try_removals:
  "removals k (snd (snd (setup_try e ts pred rm fr run ld lf rp mode t w))) = removals k w"
  by (simp add: setup_try_def build_setup_container_def Let_def setup_body_removals
        split: sum.splits)

lemma run_instance_setup_removals:
  "removals k (snd (run_instance_setup e ts pred rm fr run out mode t w)) =
     removals k w +
     (if reports w [out, run, replace_slash (model_name_or_path pred), ts_instance_id ts, ''report.json''] = None
         \<and> rm \<and> k = instance_image_key ts then 1 else 0)"
proof (cases "reports w [out, run, replace_slash (model_name_or_path pred), ts_instance_id ts, ''report.json'']")
  case None
  show ?thesis
    unfolding run_instance_setup_fresh [OF None]
    by (simp add: Let_def finally_cleanup_removals setup_try_removals None split: sum.splits)
next
  case (Some f)
  show ?thesis
    unfolding run_instance_setup_stored [OF Some]
    using Some by simp
qed

lemma run_instance_setup_baseline:
  assumes "reports w [out, run, replace_slash (model_name_or_path pred), ts_instance_id ts, ''report.json''] = None"
  shows "\<exists>v. fst (run_instance_setup e ts pred rm fr run out ''not_apply_patch'' t w) = Inr v"
    and "reports (snd (run_instance_setup e ts pred rm fr run out ''not_apply_patch'' t w)) = reports w"
proof -
  let ?ld = "[out, run, replace_slash (model_name_or_path pred), ts_instance_id ts]"
  let ?T = "setup_try e ts pred rm fr run ?ld (?ld @ [run_instance_log_name ''not_apply_patch''])
      (?ld @ [''report.json'']) ''not_apply_patch'' t
      (setup_logger e (?ld @ [run_instance_log_name ''not_apply_patch'']) w)"
  show "\<exists>v. fst (run_instance_setup e ts pred rm fr run out ''not_apply_patch'' t w) = Inr v"
    by (simp add: run_instance_setup_outcome [OF assms] split: sum.splits)
  show "reports (snd (run_instance_setup e ts pred rm fr run out ''not_apply_patch'' t w)) = reports w"
  proof (cases "fst (snd ?T)")
    case (Inl x)
    then show ?thesis
      unfolding run_instance_setup_reports
      by (simp add: run_instance_setup_outcome [OF assms])
  next
    case (Inr v)
    from setup_try_result [OF Inr] have "snd v = None" by simp
    then obtain i where "v = (i, None)" by (cases v) simp
    with Inr show ?thesis
      unfolding run_instance_setup_reports
      by (simp add: run_instance_setup_outcome [OF assms])
  qed
qed

lemma run_instance_fail_to_pass_removals:
  "removals k (snd (run_instance_fail_to_pass e1 e2 ts pred rm fr run out t w)) =
     removals k w +
     (if reports w [out, run, replace_slash (model_name_or_path pred), ts_instance_id ts, ''report.json''] = None
         \<and> rm \<and> k = instance_image_key ts then 1 else 0)"
proof (cases "reports w [out, run, replace_slash (model_name_or_path pred), ts_instance_id ts, ''report.json'']")
  case None
  from run_instance_setup_baseline [OF None] obtain v where
    v: "fst (run_instance_setup e1 ts pred False fr run out ''not_apply_patch'' t w) = Inr v"
    and r: "reports (snd (run_instance_setup e1 ts pred False fr run out ''not_apply_patch'' t w)) = reports w"
    by blast
  show ?thesis
    by (simp add: run_instance_fail_to_pass_def snd_and_then v run_instance_setup_removals r None
        split: sum.splits)
next
  case (Some f)
  show ?thesis
    by (simp add: run_instance_fail_to_pass_def snd_and_then run_instance_setup_stored [OF Some] Some
        split: sum.splits report_file.splits)
qed

lemma run_unit_removals:
  "removals k (snd (run_unit engines f2p fr run out t ts pred w)) =
     removals k w +
     (if reports w [out, run, replace_slash (model_name_or_path pred), ts_instance_id ts, ''report.json''] = None
         \<and> k = instance_image_key ts then 1 else 0)"
  by (simp add: run_unit_def run_instance_fail_to_pass_removals snd_and_then
      run_instance_setup_removals split: sum.splits)

lemma drain_frame [simp]:
  "files (drain pe fs w) = files w"
  "reports (drain pe fs w) = reports w"
  "calls (drain pe fs w) = calls w"
  "images (drain pe fs w) = images w"
  "containers (drain pe fs w) = containers w"
  "pbar (drain pe fs w) = pbar w + length fs"
  by (induction fs arbitrary: w) (simp_all add: Let_def split: sum.splits)

lemma announce_frame [simp]:
  "files (announce fr specs insts w) = files w"
  "reports (announce fr specs insts w) = reports w"
  "calls (announce fr specs insts w) = calls w"
  "images (announce fr specs insts w) = images w"
  "containers (announce fr specs insts w) = containers w"
  by (simp_all add: announce_def Let_def)

lemma removals_announce [simp]: "removals k (announce fr specs insts w) = removals k w"
  by (simp add: removals_def)

lemma removals_drain [simp]: "removals k (drain pe fs w) = removals k w"
  by (simp add: removals_def)

text \<open>
  Claim C9, as amended. run_instances does not read \<open>cache_level\<close> or \<open>clean\<close>: its
  outcome is the same for every value of them. Each unit it runs is given rm_image =
  True, so, unless a report.json short-circuits the unit, the engine is asked exactly
  once to remove the task's instance image, in single and in dual mode alike. In dual
  mode (run_instance_fail_to_pass) the removal is that of the patched run and follows the
  rm_image argument; the baseline run never asks for a removal.
\<close>

theorem image_removal_ignores_cache_level:
  "run_instances engines print_exc mts predictions instances cache_level clean fr mw run out t f2p w =
     run_instances engines print_exc mts predictions instances cache_level' clean' fr mw run out t f2p w \<and>
   removals k (snd (run_unit engines f2p fr run out t ts pred w)) =
     removals k w +
     (if reports w [out, run, replace_slash (model_name_or_path pred), ts_instance_id ts, ''report.json''] = None
         \<and> k = instance_image_key ts then 1 else 0) \<and>
   removals k (snd (run_instance_fail_to_pass e1 e2 ts pred rm fr run out t w)) =
     removals k w +
     (if reports w [out, run, replace_slash (model_name_or_path pred), ts_instance_id ts, ''report.json''] = None
         \<and> rm \<and> k = instance_image_key ts then 1 else 0) \<and>
   removals k (snd (run_instance_setup e1 ts pred False fr run out ''not_apply_patch'' t w)) = removals k w"
  by (simp add: run_instances_def run_unit_removals run_instance_fail_to_pass_removals
      run_instance_setup_removals)

lemma ex_run_instances:
  "snd (run_instances ex_engines exn_str ex_make_spec ex_preds ex_instances cl clean False 4 ''r1'' ''out''
          None f2p ex_world) =
   print_line ''All instances run.''
     (drain exn_str
        [fst (run_unit ex_engines f2p False ''r1'' ''out'' None
                \<lparr>ts_instance_id = ''t1'', instance_image_key = ''img:t1'', patch = Some ''diff'',
                   eval_script = ''run tests''\<rparr> ex_pred
                ((announce False
                   [\<lparr>ts_instance_id = ''t1'', instance_image_key = ''img:t1'', patch = Some ''diff'',
                     eval_script = ''run tests''\<rparr>] ex_instances ex_world)\<lparr>pbar := 0\<rparr>))]
        (snd (run_unit ex_engines f2p False ''r1'' ''out'' None
                \<lparr>ts_instance_id = ''t1'', instance_image_key = ''img:t1'', patch = Some ''diff'',
                   eval_script = ''run tests''\<rparr> ex_pred
                ((announce False
                   [\<lparr>ts_instance_id = ''t1'', instance_image_key = ''img:t1'', patch = Some ''diff'',
                     eval_script = ''run tests''\<rparr>] ex_instances ex_world)\<lparr>pbar := 0\<rparr>))))"
proof -
  have "make_test_specs ex_make_spec ex_preds ex_instances =
      Inr [\<lparr>ts_instance_id = ''t1'', instance_image_key = ''img:t1'', patch = Some ''diff'',
            eval_script = ''run tests''\<rparr>]"
    by (simp add: ex_make_spec_def ex_preds_def ex_instances_def ex_pred_def)
  moreover have "map_of ex_preds ''t1'' = Some ex_pred"
    by (simp add: ex_preds_def)
  ultimately show ?thesis
    by (simp add: run_instances_def split_beta del: drain.simps)
qed

text \<open>
  Claim C9 as stated fails: under cache level "instance" with clean off, as under "none"
  with clean on, the run asks the engine to remove the instance image of the task.
\<close>

theorem cache_level_counterexample:
  "removals ''img:t1'' ex_world = 0 \<and>
   removals ''img:t1'' (snd (run_instances ex_engines exn_str ex_make_spec ex_preds ex_instances
      ''instance'' False False 4 ''r1'' ''out'' None True ex_world)) = 1 \<and>
   removals ''img:t1'' (snd (run_instances ex_engines exn_str ex_make_spec ex_preds ex_instances
      ''none'' True False 4 ''r1'' ''out'' None True ex_world)) = 1"
proof -
  have z: "removals ''img:t1'' ex_world = 0" "reports ex_world = Map.empty"
    by (simp_all add: removals_def ex_world_def)
  then have "removals ''img:t1'' (snd (run_instances ex_engines exn_str ex_make_spec ex_preds ex_instances
      cl clean False 4 ''r1'' ''out'' None True ex_world)) = 1" for cl clean
    unfolding ex_run_instances
    by (simp add: run_unit_removals del: drain.simps)
  with z show ?thesis by blast
qed

text \<open>The amended claim C9 on the example task in dual mode.\<close>

theorem image_removal_ignores_cache_level_witness:
  "removals ''img:t1'' (snd (run_unit ex_engines True False ''r1'' ''out'' None ex_spec ex_pred ex_world)) = 1 \<and>
   removals ''img:t1'' (snd (run_instance_setup ex_engine ex_spec ex_pred False False ''r1'' ''out''
      ''not_apply_patch'' None ex_world)) = 0"
  using image_removal_ignores_cache_level [where k = "''img:t1''" and engines = ex_engines
      and f2p = True and fr = False and run = "''r1''" and out = "''out''" and t = None
      and ts = ex_spec and pred = ex_pred and w = ex_world and ?e1.0 = ex_engine]
  by (simp add: ex_world_def ex_pred_def ex_spec_def removals_def)

section \<open>The scheduler: failures stay within their task\<close>

text \<open>
  The pipeline of a task reads and writes only the files of its own log directory, so
  two states that agree there lead to the same outcome and agree there afterwards, and
  the files of every other directory are left alone.
\<close>

lemma agree_refl [simp]: "agree S w w"
  by (simp add: agree_def)



lemma agree_record_call [simp]:
  "agree S (record_call c w1) w2 = agree S w1 w2"
  "agree S w1 (record_call c w2) = agree S w1 w2"
  by (simp_all add: agree_def)

lemma agree_print_line [simp]:
  "agree S (print_line s w1) w2 = agree S w1 w2"
  "agree S w1 (print_line s w2) = agree S w1 w2"
  by (simp_all add: agree_def)

lemma agree_upd [simp]:
  "agree S (w1\<lparr>stdout := x\<rparr>) w2 = agree S w1 w2"
  "agree S w1 (w2\<lparr>stdout := x\<rparr>) = agree S w1 w2"
  "agree S (w1\<lparr>containers := y\<rparr>) w2 = agree S w1 w2"
  "agree S w1 (w2\<lparr>containers := y\<rparr>) = agree S w1 w2"
  "agree S (w1\<lparr>images := z\<rparr>) w2 = agree S w1 w2"
  "agree S w1 (w2\<lparr>images := z\<rparr>) = agree S w1 w2"
  "agree S (w1\<lparr>pbar := n\<rparr>) w2 = agree S w1 w2"
  "agree S w1 (w2\<lparr>pbar := n\<rparr>) = agree S w1 w2"
  by (simp_all add: agree_def)




lemma agree_reports_upd:
  "agree S w1 w2 \<Longrightarrow>
     agree S (w1\<lparr>reports := (reports w1)(rp \<mapsto> v)\<rparr>) (w2\<lparr>reports := (reports w2)(rp \<mapsto> v)\<rparr>)"
  by (simp add: agree_def)

lemma agree_finally_cleanup [simp]:
  "agree S (finally_cleanup ts rm c w1) w2 = agree S w1 w2"
  "agree S w1 (finally_cleanup ts rm c w2) = agree S w1 w2"
  by (simp_all add: agree_def)

lemma agree_drain [simp]:
  "agree S (drain pe fs w1) w2 = agree S w1 w2"
  "agree S w1 (drain pe fs w2) = agree S w1 w2"
  by (simp_all add: agree_def)

lemma agree_announce [simp]:
  "agree S (announce fr specs insts w1) w2 = agree S w1 w2"
  "agree S w1 (announce fr specs insts w2) = agree S w1 w2"
  by (simp_all add: agree_def)





















lemma grade_and_write_pbar [simp]:
  "pbar (snd (grade_and_write e ts pred lf rp tp w)) = pbar w"
  by (simp add: grade_and_write_def Let_def split_beta split: option.splits sum.splits)


lemma handle_exception_pbar [simp]:
  "pbar (handle_exception e i lf x w) = pbar w"
  by (auto simp: handle_exception_def Let_def split: exn.splits)







end
